theory Spec2Isabelle
  imports Main "HOL-Library.Word"
begin

unbundle bit_operations_syntax

section \<open>Machine types\<close>

text \<open>
  Go's \<open>uint8\<close> and \<open>uint16\<close> are 8- and 16-bit words: \<open>+\<close> and \<open>-\<close> wrap,
  \<open>ucast\<close> is the conversion \<open>uint16(x)\<close> or \<open>uint8(x)\<close> (zero extension or truncation),
  \<open>push_bit n\<close> is \<open>x << n\<close> and \<open>drop_bit n\<close> is \<open>x >> n\<close>. The cycle counter is a Go
  \<open>int\<close>; nothing here depends on its width, so it is an unbounded \<open>int\<close>.
\<close>

type_synonym u8 = "8 word"
type_synonym u16 = "16 word"

text \<open>
  A Go panic is a value. \<open>BusFault\<close> is a panic raised inside the attached bus,
  \<open>MonitorPanic\<close> one raised inside the attached monitor, \<open>IndexOutOfRange\<close> an
  out-of-range index into a byte slice, and \<open>UnhandledMode m\<close> the
  \<open>panic(fmt.Sprintf("resolveAddr() called for mode %s", ...))\<close> of \<open>resolveAddr\<close>.
\<close>

datatype error = BusFault | MonitorPanic | IndexOutOfRange | UnhandledMode u8

type_synonym 'a res = "error + 'a"

definition ebind :: "'a res \<Rightarrow> ('a \<Rightarrow> 'b res) \<Rightarrow> 'b res" where
  "ebind m f = (case m of Inl e \<Rightarrow> Inl e | Inr x \<Rightarrow> f x)"

section \<open>Registers and flags\<close>

text \<open>
  The \<open>Registers\<close> struct. The fields \<open>PC, S, P, A, X, Y\<close> are \<open>rPC, rS, rP, rA, rX, rY\<close>
  and the status flags \<open>C, Z, I, D, B, U, V, N\<close> are \<open>fC, fZ, fI, fD, fB, fU, fV, fN\<close>, so
  that single capital letters stay free for variables.
\<close>

record Registers =
  rPC :: u16
  rS :: u8
  rP :: u8
  rA :: u8
  rX :: u8
  rY :: u8

definition fC :: u8 where "fC = 0x01"
definition fZ :: u8 where "fZ = 0x02"
definition fI :: u8 where "fI = 0x04"
definition fD :: u8 where "fD = 0x08"
definition fB :: u8 where "fB = 0x10"
definition fU :: u8 where "fU = 0x20"
definition fV :: u8 where "fV = 0x40"
definition fN :: u8 where "fN = 0x80"

definition setFlag :: "u8 \<Rightarrow> u8 \<Rightarrow> bool \<Rightarrow> u8" where
  "setFlag msk flag on = (if on then msk OR flag else msk AND NOT flag)"

definition setZN :: "u8 \<Rightarrow> Registers \<Rightarrow> Registers" where
  "setZN v r =
     (let r = r\<lparr>rP := setFlag (rP r) fZ (v = 0x00)\<rparr>
      in r\<lparr>rP := setFlag (rP r) fN (v AND 0x80 \<noteq> 0x00)\<rparr>)"

definition reg_cmp :: "u8 \<Rightarrow> u8 \<Rightarrow> Registers \<Rightarrow> Registers" where
  "reg_cmp a b r =
     (let r = r\<lparr>rP := setFlag (rP r) fC (a \<ge> b)\<rparr>;
          r = r\<lparr>rP := setFlag (rP r) fZ (a = b)\<rparr>
      in r\<lparr>rP := setFlag (rP r) fN ((a - b) AND 0x80 = 0x80)\<rparr>)"

datatype Interrupt = NoInterrupt | NMI | IRQ

section \<open>ALU primitives\<close>

definition overflow :: "u8 \<Rightarrow> u8 \<Rightarrow> u8 \<Rightarrow> bool" where
  "overflow a b r = ((a XOR r) AND (b XOR r) AND 0x80 = 0x80)"

definition underflow :: "u8 \<Rightarrow> u8 \<Rightarrow> u8 \<Rightarrow> bool" where
  "underflow a b r = ((a XOR b) AND 0x80 = 0x80 \<and> (a XOR r) AND 0x80 = 0x80)"

text \<open>\<open>adc(a, b, carry, bcd)\<close> returns \<open>(r, n, v, z, c)\<close>.\<close>

definition adc :: "u8 \<Rightarrow> u8 \<Rightarrow> bool \<Rightarrow> bool \<Rightarrow> u8 \<times> bool \<times> bool \<times> bool \<times> bool" where
  "adc a b carry bcd =
    (let t = (ucast a :: u16) + ucast b;
         t = (if carry then t + 1 else t);
         (t, carry) =
           (if bcd then
              (let lo = (a AND 0x0f) + (b AND 0x0f);
                   lo = (if carry then lo + 1 else lo);
                   t = (if lo > 0x09 then t + 0x06 else t);
                   t = (if t > 0x99 then t + 0x60 else t)
               in (t, t > 0x99))
            else (t, t AND 0xff00 \<noteq> 0));
         r = (ucast t :: u8)
     in (r, r AND 0x80 = 0x80, overflow a b r, r = 0, carry))"

definition sbc :: "u8 \<Rightarrow> u8 \<Rightarrow> bool \<Rightarrow> bool \<Rightarrow> u8 \<times> bool \<times> bool \<times> bool \<times> bool" where
  "sbc a b carry bcd =
    (let t = (ucast a :: u16) - ucast b;
         t = (if \<not> carry then t - 1 else t);
         t = (if bcd then
                (let lo = (a AND 0x0f) - (b AND 0x0f);
                     lo = (if \<not> carry then lo - 1 else lo);
                     t = (if lo AND 0xf0 \<noteq> 0 then t - 0x06 else t)
                 in (if t > 0x99 then t - 0x60 else t))
              else t);
         r = (ucast t :: u8)
     in (r, r AND 0x80 = 0x80, underflow a b r, r = 0, t < 0x100))"

section \<open>Opcode table\<close>

text \<open>
  \<open>AddressMode\<close> is a \<open>uint8\<close> with thirteen named values (\<open>iota\<close> from \<open>Implied\<close>);
  it stays a byte here, so that the \<open>default\<close> branch of \<open>resolveAddr\<close> is a branch of
  the model.
\<close>

type_synonym AddressMode = u8

definition Implied :: AddressMode where "Implied = 0"
definition Accumulator :: AddressMode where "Accumulator = 1"
definition Immediate :: AddressMode where "Immediate = 2"
definition ZeroPage :: AddressMode where "ZeroPage = 3"
definition ZeroPageX :: AddressMode where "ZeroPageX = 4"
definition ZeroPageY :: AddressMode where "ZeroPageY = 5"
definition Relative :: AddressMode where "Relative = 6"
definition Absolute :: AddressMode where "Absolute = 7"
definition AbsoluteX :: AddressMode where "AbsoluteX = 8"
definition AbsoluteY :: AddressMode where "AbsoluteY = 9"
definition Indirect :: AddressMode where "Indirect = 10"
definition IndexedIndirect :: AddressMode where "IndexedIndirect = 11"
definition IndirectIndexed :: AddressMode where "IndirectIndexed = 12"

text \<open>
  \<open>Mnemonic\<close> is a \<open>uint8\<close> too; the constants are numbered by \<open>iota\<close> in the
  order of the source, and \<open>mnemonics\<close> counts them (\<open>AND\<close> is \<open>AND_op\<close>: the name is
  taken by the bitwise operator).
\<close>

type_synonym Mnemonic = u8

definition ADC :: Mnemonic where "ADC = 0"
definition AND_op :: Mnemonic where "AND_op = 1"
definition ASL :: Mnemonic where "ASL = 2"
definition BCC :: Mnemonic where "BCC = 3"
definition BCS :: Mnemonic where "BCS = 4"
definition BEQ :: Mnemonic where "BEQ = 5"
definition BIT :: Mnemonic where "BIT = 6"
definition BMI :: Mnemonic where "BMI = 7"
definition BNE :: Mnemonic where "BNE = 8"
definition BPL :: Mnemonic where "BPL = 9"
definition BRK :: Mnemonic where "BRK = 10"
definition BVC :: Mnemonic where "BVC = 11"
definition BVS :: Mnemonic where "BVS = 12"
definition CLC :: Mnemonic where "CLC = 13"
definition CLD :: Mnemonic where "CLD = 14"
definition CLI :: Mnemonic where "CLI = 15"
definition CLV :: Mnemonic where "CLV = 16"
definition CMP :: Mnemonic where "CMP = 17"
definition CPX :: Mnemonic where "CPX = 18"
definition CPY :: Mnemonic where "CPY = 19"
definition DEC :: Mnemonic where "DEC = 20"
definition DEX :: Mnemonic where "DEX = 21"
definition DEY :: Mnemonic where "DEY = 22"
definition EOR :: Mnemonic where "EOR = 23"
definition INC :: Mnemonic where "INC = 24"
definition INX :: Mnemonic where "INX = 25"
definition INY :: Mnemonic where "INY = 26"
definition JMP :: Mnemonic where "JMP = 27"
definition JSR :: Mnemonic where "JSR = 28"
definition LDA :: Mnemonic where "LDA = 29"
definition LDX :: Mnemonic where "LDX = 30"
definition LDY :: Mnemonic where "LDY = 31"
definition LSR :: Mnemonic where "LSR = 32"
definition NOP :: Mnemonic where "NOP = 33"
definition ORA :: Mnemonic where "ORA = 34"
definition PHA :: Mnemonic where "PHA = 35"
definition PHP :: Mnemonic where "PHP = 36"
definition PLA :: Mnemonic where "PLA = 37"
definition PLP :: Mnemonic where "PLP = 38"
definition ROL :: Mnemonic where "ROL = 39"
definition ROR :: Mnemonic where "ROR = 40"
definition RTI :: Mnemonic where "RTI = 41"
definition RTS :: Mnemonic where "RTS = 42"
definition SBC :: Mnemonic where "SBC = 43"
definition SEC :: Mnemonic where "SEC = 44"
definition SED :: Mnemonic where "SED = 45"
definition SEI :: Mnemonic where "SEI = 46"
definition STA :: Mnemonic where "STA = 47"
definition STX :: Mnemonic where "STX = 48"
definition STY :: Mnemonic where "STY = 49"
definition TAX :: Mnemonic where "TAX = 50"
definition TAY :: Mnemonic where "TAY = 51"
definition TSX :: Mnemonic where "TSX = 52"
definition TXA :: Mnemonic where "TXA = 53"
definition TXS :: Mnemonic where "TXS = 54"
definition TYA :: Mnemonic where "TYA = 55"
definition HLT :: Mnemonic where "HLT = 56"
definition LAX :: Mnemonic where "LAX = 57"
definition SAX :: Mnemonic where "SAX = 58"
definition DCP :: Mnemonic where "DCP = 59"
definition ISC :: Mnemonic where "ISC = 60"
definition RLA :: Mnemonic where "RLA = 61"
definition RRA :: Mnemonic where "RRA = 62"
definition SLO :: Mnemonic where "SLO = 63"
definition SRE :: Mnemonic where "SRE = 64"
definition ANC :: Mnemonic where "ANC = 65"
definition ALR :: Mnemonic where "ALR = 66"
definition ARR :: Mnemonic where "ARR = 67"
definition XAA :: Mnemonic where "XAA = 68"
definition AHX :: Mnemonic where "AHX = 69"
definition TAS :: Mnemonic where "TAS = 70"
definition SHX :: Mnemonic where "SHX = 71"
definition SHY :: Mnemonic where "SHY = 72"
definition LAS :: Mnemonic where "LAS = 73"
definition AXS :: Mnemonic where "AXS = 74"
definition mnemonics :: nat where "mnemonics = 75"

record opcode =
  Mnemonic :: Mnemonic
  Size :: int
  Cycles :: int
  PageCrossCycles :: int
  Mode :: AddressMode

definition op :: "Mnemonic \<Rightarrow> int \<Rightarrow> int \<Rightarrow> int \<Rightarrow> AddressMode \<Rightarrow> opcode" where
  "op m s c p a = \<lparr>Mnemonic = m, Size = s, Cycles = c, PageCrossCycles = p, Mode = a\<rparr>"

text \<open>The 256 entries of \<open>opcodes\<close>, two to a line, from 0x00 to 0xff.\<close>

definition opcodes_table :: "opcode list" where
  "opcodes_table = [
    op BRK 1 7 0 Implied, op ORA 2 6 0 IndexedIndirect,
    op HLT 1 0 0 Implied, op SLO 2 8 0 IndexedIndirect,
    op NOP 2 3 0 ZeroPage, op ORA 2 3 0 ZeroPage,
    op ASL 2 5 0 ZeroPage, op SLO 2 5 0 ZeroPage,
    op PHP 1 3 0 Implied, op ORA 2 2 0 Immediate,
    op ASL 1 2 0 Accumulator, op ANC 2 2 0 Immediate,
    op NOP 3 4 0 Absolute, op ORA 3 4 0 Absolute,
    op ASL 3 6 0 Absolute, op SLO 3 6 0 Absolute,
    op BPL 2 2 0 Relative, op ORA 2 5 1 IndirectIndexed,
    op HLT 1 0 0 Implied, op SLO 2 8 0 IndirectIndexed,
    op NOP 2 4 0 ZeroPageX, op ORA 2 4 0 ZeroPageX,
    op ASL 2 6 0 ZeroPageX, op SLO 2 6 0 ZeroPageX,
    op CLC 1 2 0 Implied, op ORA 3 4 1 AbsoluteY,
    op NOP 1 2 0 Implied, op SLO 3 7 0 AbsoluteY,
    op NOP 3 4 1 AbsoluteX, op ORA 3 4 1 AbsoluteX,
    op ASL 3 7 0 AbsoluteX, op SLO 3 7 0 AbsoluteX,
    op JSR 3 6 0 Absolute, op AND_op 2 6 0 IndexedIndirect,
    op HLT 1 0 0 Implied, op RLA 2 8 0 IndexedIndirect,
    op BIT 2 3 0 ZeroPage, op AND_op 2 3 0 ZeroPage,
    op ROL 2 5 0 ZeroPage, op RLA 2 5 0 ZeroPage,
    op PLP 1 4 0 Implied, op AND_op 2 2 0 Immediate,
    op ROL 1 2 0 Accumulator, op ANC 2 2 0 Immediate,
    op BIT 3 4 0 Absolute, op AND_op 3 4 0 Absolute,
    op ROL 3 6 0 Absolute, op RLA 3 6 0 Absolute,
    op BMI 2 2 0 Relative, op AND_op 2 5 1 IndirectIndexed,
    op HLT 1 0 0 Implied, op RLA 2 8 0 IndirectIndexed,
    op NOP 2 4 0 ZeroPageX, op AND_op 2 4 0 ZeroPageX,
    op ROL 2 6 0 ZeroPageX, op RLA 2 6 0 ZeroPageX,
    op SEC 1 2 0 Implied, op AND_op 3 4 1 AbsoluteY,
    op NOP 1 2 0 Implied, op RLA 3 7 0 AbsoluteY,
    op NOP 3 4 1 AbsoluteX, op AND_op 3 4 1 AbsoluteX,
    op ROL 3 7 0 AbsoluteX, op RLA 3 7 0 AbsoluteX,
    op RTI 1 6 0 Implied, op EOR 2 6 0 IndexedIndirect,
    op HLT 1 0 0 Implied, op SRE 2 8 0 IndexedIndirect,
    op NOP 2 3 0 ZeroPage, op EOR 2 3 0 ZeroPage,
    op LSR 2 5 0 ZeroPage, op SRE 2 5 0 ZeroPage,
    op PHA 1 3 0 Implied, op EOR 2 2 0 Immediate,
    op LSR 1 2 0 Accumulator, op ALR 2 2 0 Immediate,
    op JMP 3 3 0 Absolute, op EOR 3 4 0 Absolute,
    op LSR 3 6 0 Absolute, op SRE 3 6 0 Absolute,
    op BVC 2 2 0 Relative, op EOR 2 5 1 IndirectIndexed,
    op HLT 1 0 0 Implied, op SRE 2 8 0 IndirectIndexed,
    op NOP 2 4 0 ZeroPageX, op EOR 2 4 0 ZeroPageX,
    op LSR 2 6 0 ZeroPageX, op SRE 2 6 0 ZeroPageX,
    op CLI 1 2 0 Implied, op EOR 3 4 1 AbsoluteY,
    op NOP 1 2 0 Implied, op SRE 3 7 0 AbsoluteY,
    op NOP 3 4 1 AbsoluteX, op EOR 3 4 1 AbsoluteX,
    op LSR 3 7 0 AbsoluteX, op SRE 3 7 0 AbsoluteX,
    op RTS 1 6 0 Implied, op ADC 2 6 0 IndexedIndirect,
    op HLT 1 0 0 Implied, op RRA 2 8 0 IndexedIndirect,
    op NOP 2 3 0 ZeroPage, op ADC 2 3 0 ZeroPage,
    op ROR 2 5 0 ZeroPage, op RRA 2 5 0 ZeroPage,
    op PLA 1 4 0 Implied, op ADC 2 2 0 Immediate,
    op ROR 1 2 0 Accumulator, op ARR 2 2 0 Immediate,
    op JMP 3 5 0 Indirect, op ADC 3 4 0 Absolute,
    op ROR 3 6 0 Absolute, op RRA 3 6 0 Absolute,
    op BVS 2 2 0 Relative, op ADC 2 5 1 IndirectIndexed,
    op HLT 1 0 0 Implied, op RRA 2 8 0 IndirectIndexed,
    op NOP 2 4 0 ZeroPageX, op ADC 2 4 0 ZeroPageX,
    op ROR 2 6 0 ZeroPageX, op RRA 2 6 0 ZeroPageX,
    op SEI 1 2 0 Implied, op ADC 3 4 1 AbsoluteY,
    op NOP 1 2 0 Implied, op RRA 3 7 0 AbsoluteY,
    op NOP 3 4 1 AbsoluteX, op ADC 3 4 1 AbsoluteX,
    op ROR 3 7 0 AbsoluteX, op RRA 3 7 0 AbsoluteX,
    op NOP 2 2 0 Immediate, op STA 2 6 0 IndexedIndirect,
    op NOP 2 2 0 Immediate, op SAX 2 6 0 IndexedIndirect,
    op STY 2 3 0 ZeroPage, op STA 2 3 0 ZeroPage,
    op STX 2 3 0 ZeroPage, op SAX 2 3 0 ZeroPage,
    op DEY 1 2 0 Implied, op NOP 2 2 0 Immediate,
    op TXA 1 2 0 Implied, op XAA 2 2 0 Immediate,
    op STY 3 4 0 Absolute, op STA 3 4 0 Absolute,
    op STX 3 4 0 Absolute, op SAX 3 4 0 Absolute,
    op BCC 2 2 0 Relative, op STA 2 6 0 IndirectIndexed,
    op HLT 1 0 0 Implied, op AHX 2 6 0 IndirectIndexed,
    op STY 2 4 0 ZeroPageX, op STA 2 4 0 ZeroPageX,
    op STX 2 4 0 ZeroPageY, op SAX 2 4 0 ZeroPageY,
    op TYA 1 2 0 Implied, op STA 3 5 0 AbsoluteY,
    op TXS 1 2 0 Implied, op TAS 3 5 0 AbsoluteY,
    op SHY 3 5 0 AbsoluteX, op STA 3 5 0 AbsoluteX,
    op SHX 3 5 0 AbsoluteY, op AHX 3 5 0 AbsoluteY,
    op LDY 2 2 0 Immediate, op LDA 2 6 0 IndexedIndirect,
    op LDX 2 2 0 Immediate, op LAX 2 6 0 IndexedIndirect,
    op LDY 2 3 0 ZeroPage, op LDA 2 3 0 ZeroPage,
    op LDX 2 3 0 ZeroPage, op LAX 2 3 0 ZeroPage,
    op TAY 1 2 0 Implied, op LDA 2 2 0 Immediate,
    op TAX 1 2 0 Implied, op LAX 2 2 0 Immediate,
    op LDY 3 4 0 Absolute, op LDA 3 4 0 Absolute,
    op LDX 3 4 0 Absolute, op LAX 3 4 0 Absolute,
    op BCS 2 2 0 Relative, op LDA 2 5 1 IndirectIndexed,
    op HLT 1 0 0 Implied, op LAX 2 5 1 IndirectIndexed,
    op LDY 2 4 0 ZeroPageX, op LDA 2 4 0 ZeroPageX,
    op LDX 2 4 0 ZeroPageY, op LAX 2 4 0 ZeroPageY,
    op CLV 1 2 0 Implied, op LDA 3 4 1 AbsoluteY,
    op TSX 1 2 0 Implied, op LAS 3 4 1 AbsoluteY,
    op LDY 3 4 1 AbsoluteX, op LDA 3 4 1 AbsoluteX,
    op LDX 3 4 1 AbsoluteY, op LAX 3 4 1 AbsoluteY,
    op CPY 2 2 0 Immediate, op CMP 2 6 0 IndexedIndirect,
    op NOP 2 2 0 Immediate, op DCP 2 8 0 IndexedIndirect,
    op CPY 2 3 0 ZeroPage, op CMP 2 3 0 ZeroPage,
    op DEC 2 5 0 ZeroPage, op DCP 2 5 0 ZeroPage,
    op INY 1 2 0 Implied, op CMP 2 2 0 Immediate,
    op DEX 1 2 0 Implied, op AXS 2 2 0 Immediate,
    op CPY 3 4 0 Absolute, op CMP 3 4 0 Absolute,
    op DEC 3 6 0 Absolute, op DCP 3 6 0 Absolute,
    op BNE 2 2 0 Relative, op CMP 2 5 1 IndirectIndexed,
    op HLT 1 0 0 Implied, op DCP 2 8 0 IndirectIndexed,
    op NOP 2 4 0 ZeroPageX, op CMP 2 4 0 ZeroPageX,
    op DEC 2 6 0 ZeroPageX, op DCP 2 6 0 ZeroPageX,
    op CLD 1 2 0 Implied, op CMP 3 4 1 AbsoluteY,
    op NOP 1 2 0 Implied, op DCP 3 7 0 AbsoluteY,
    op NOP 3 4 1 AbsoluteX, op CMP 3 4 1 AbsoluteX,
    op DEC 3 7 0 AbsoluteX, op DCP 3 7 0 AbsoluteX,
    op CPX 2 2 0 Immediate, op SBC 2 6 0 IndexedIndirect,
    op NOP 2 2 0 Immediate, op ISC 2 8 0 IndexedIndirect,
    op CPX 2 3 0 ZeroPage, op SBC 2 3 0 ZeroPage,
    op INC 2 5 0 ZeroPage, op ISC 2 5 0 ZeroPage,
    op INX 1 2 0 Implied, op SBC 2 2 0 Immediate,
    op NOP 1 2 0 Implied, op SBC 2 2 0 Immediate,
    op CPX 3 4 0 Absolute, op SBC 3 4 0 Absolute,
    op INC 3 6 0 Absolute, op ISC 3 6 0 Absolute,
    op BEQ 2 2 1 Relative, op SBC 2 5 1 IndirectIndexed,
    op HLT 1 0 0 Implied, op ISC 2 8 0 IndirectIndexed,
    op NOP 2 4 0 ZeroPageX, op SBC 2 4 0 ZeroPageX,
    op INC 2 6 0 ZeroPageX, op ISC 2 6 0 ZeroPageX,
    op SED 1 2 0 Implied, op SBC 3 4 1 AbsoluteY,
    op NOP 1 2 0 Implied, op ISC 3 7 0 AbsoluteY,
    op NOP 3 4 1 AbsoluteX, op SBC 3 4 1 AbsoluteX,
    op INC 3 7 0 AbsoluteX, op ISC 3 7 0 AbsoluteX
  ]"

definition opcodes :: "u8 \<Rightarrow> opcode" where
  "opcodes b = opcodes_table ! unat b"

section \<open>The memory interface\<close>

text \<open>
  \<open>memory.Memory\<close> is an interface with \<open>Fetch(addr) uint8\<close> and \<open>Store(addr, value)\<close>.
  An interface value is the object together with its methods. A method that panics
  returns \<open>Inl\<close>; \<open>Store\<close> returns the object as the call leaves it. \<open>Fetch\<close> only
  reads, as it does in every implementation of the repository.

  The dynamic type of a bus may also implement \<open>io.ReaderAt\<close>, which \<open>fast.ReadAt\<close> tests
  with \<open>cpu.bus.(io.ReaderAt)\<close>: \<open>ReadAt_m\<close> is \<open>Some\<close> of that \<open>ReadAt\<close> method when
  the assertion holds and \<open>None\<close> when it fails. \<open>ReadAt(p, off)\<close> is given the contents of
  the slice \<open>p\<close> and returns them as the call leaves them, with the count \<open>n\<close> and the
  error (nil is \<open>None\<close>; \<open>ErrOther\<close> is any error but \<open>io.EOF\<close> and
  \<open>io.ErrShortBuffer\<close>). Like \<open>Fetch\<close> it only reads the object.
\<close>

datatype ioerr = EOF | ErrShortBuffer | ErrOther

record 'b Memory =
  obj :: 'b
  Fetch_m :: "'b \<Rightarrow> u16 \<Rightarrow> u8 res"
  Store_m :: "'b \<Rightarrow> u16 \<Rightarrow> u8 \<Rightarrow> 'b res"
  ReadAt_m :: "('b \<Rightarrow> u8 list \<Rightarrow> int \<Rightarrow> (u8 list \<times> int \<times> ioerr option) res) option"

definition Memory_Fetch :: "'b Memory \<Rightarrow> u16 \<Rightarrow> u8 res" where
  "Memory_Fetch m addr = Fetch_m m (obj m) addr"

definition Memory_Store :: "'b Memory \<Rightarrow> u16 \<Rightarrow> u8 \<Rightarrow> 'b Memory res" where
  "Memory_Store m addr v = ebind (Store_m m (obj m) addr v) (\<lambda>b. Inr (m\<lparr>obj := b\<rparr>))"

text \<open>\<open>memory.RAM\<close> is a byte slice; an index past its end panics.\<close>

definition RAM_Fetch :: "u8 list \<Rightarrow> u16 \<Rightarrow> u8 res" where
  "RAM_Fetch mem addr =
     (if unat addr < length mem then Inr (mem ! unat addr) else Inl IndexOutOfRange)"

definition RAM_Store :: "u8 list \<Rightarrow> u16 \<Rightarrow> u8 \<Rightarrow> u8 list res" where
  "RAM_Store mem addr v =
     (if unat addr < length mem then Inr (mem[unat addr := v]) else Inl IndexOutOfRange)"

text \<open>
  \<open>RAM.ReadAt\<close> of package \<open>mos65xx\<close> (\<open>addr.go\<close>): \<open>io.EOF\<close> past the end, and else
  \<open>copy(p, b[off:])\<close>; the slice expression panics on a negative offset.
\<close>

definition RAM_ReadAt :: "u8 list \<Rightarrow> u8 list \<Rightarrow> int \<Rightarrow> (u8 list \<times> int \<times> ioerr option) res" where
  "RAM_ReadAt b p off =
     (if off > int (length b) then Inr (p, 0, Some EOF)
      else if off < 0 then Inl IndexOutOfRange
      else
        let n = min (length p) (length b - nat off)
        in Inr (take n (drop (nat off) b) @ drop n p, int n, None))"

text \<open>\<open>FetchWord\<close> and \<open>FetchWordBug\<close> take the \<open>Fetch\<close> method of their first argument.\<close>

definition FetchWord :: "(u16 \<Rightarrow> u8 res) \<Rightarrow> u16 \<Rightarrow> u16 res" where
  "FetchWord fetch addr =
     ebind (fetch addr) (\<lambda>lo.
     ebind (fetch (addr + 1)) (\<lambda>hi.
     Inr (ucast lo OR push_bit 8 (ucast hi))))"

definition FetchWordBug :: "(u16 \<Rightarrow> u8 res) \<Rightarrow> u16 \<Rightarrow> u16 res" where
  "FetchWordBug fetch addr =
     ebind (fetch addr) (\<lambda>lo.
     ebind (fetch (addr AND 0xff00)) (\<lambda>h.
     Inr (ucast lo OR (ucast h OR push_bit 8 (ucast (ucast (addr + 1) :: u8))))))"

definition NMIVector :: u16 where "NMIVector = 0xfffa"
definition ResetVector :: u16 where "ResetVector = 0xfffc"
definition IRQVector :: u16 where "IRQVector = 0xfffe"

section \<open>The CPU state\<close>

text \<open>
  The \<open>fast\<close> struct. \<open>ramMask\<close> is never read and is left out; \<open>ops\<close> is the list
  \<open>fast_ops\<close> below; the attached \<open>monitor\<close> is an argument of \<open>fast_Step\<close>, since its
  type mentions the CPU. Every method \<open>m\<close> of \<open>fast\<close> is \<open>fast_m\<close>.
\<close>

record 'b fast =
  reg :: Registers
  bus :: "'b Memory"
  ram :: "u8 list"
  ramSize :: int
  interrupt :: Interrupt
  cycles :: int
  halted :: bool
  addressMode :: AddressMode
  hasBCD :: bool
  hasNMI :: bool
  hasIRQ :: bool
  hasReady :: bool
  notReady :: bool

definition fast_Fetch :: "'b fast \<Rightarrow> u16 \<Rightarrow> u8 res" where
  "fast_Fetch cpu addr =
     (if ramSize cpu > 0 \<and> uint addr < ramSize cpu then RAM_Fetch (ram cpu) addr
      else Memory_Fetch (bus cpu) addr)"

definition fast_Store :: "'b fast \<Rightarrow> u16 \<Rightarrow> u8 \<Rightarrow> 'b fast res" where
  "fast_Store cpu addr v =
     (if ramSize cpu > 0 \<and> uint addr < ramSize cpu
      then ebind (RAM_Store (ram cpu) addr v) (\<lambda>m. Inr (cpu\<lparr>ram := m\<rparr>))
      else ebind (Memory_Store (bus cpu) addr v) (\<lambda>b. Inr (cpu\<lparr>bus := b\<rparr>)))"

definition fast_Push :: "'b fast \<Rightarrow> u8 \<Rightarrow> 'b fast res" where
  "fast_Push cpu v =
     ebind (fast_Store cpu (0x0100 OR ucast (rS (reg cpu))) v) (\<lambda>cpu.
     Inr (cpu\<lparr>reg := (reg cpu)\<lparr>rS := rS (reg cpu) - 1\<rparr>\<rparr>))"

definition fast_PushWord :: "'b fast \<Rightarrow> u16 \<Rightarrow> 'b fast res" where
  "fast_PushWord cpu v =
     ebind (fast_Push cpu (ucast (drop_bit 8 v))) (\<lambda>cpu. fast_Push cpu (ucast v))"

definition fast_Pull :: "'b fast \<Rightarrow> (u8 \<times> 'b fast) res" where
  "fast_Pull cpu =
     (let cpu = cpu\<lparr>reg := (reg cpu)\<lparr>rS := rS (reg cpu) + 1\<rparr>\<rparr>
      in ebind (fast_Fetch cpu (0x0100 OR ucast (rS (reg cpu)))) (\<lambda>v. Inr (v, cpu)))"

definition fast_PullWord :: "'b fast \<Rightarrow> (u16 \<times> 'b fast) res" where
  "fast_PullWord cpu =
     ebind (fast_Pull cpu) (\<lambda>(lo, cpu).
     ebind (fast_Pull cpu) (\<lambda>(hi, cpu).
     Inr (push_bit 8 (ucast hi) OR ucast lo, cpu)))"

definition fast_nextOpcode :: "'b fast \<Rightarrow> opcode res" where
  "fast_nextOpcode cpu = ebind (fast_Fetch cpu (rPC (reg cpu))) (\<lambda>b. Inr (opcodes b))"

definition differentPage :: "u16 \<Rightarrow> u16 \<Rightarrow> bool" where
  "differentPage a b = (a AND 0xff00 \<noteq> b AND 0xff00)"

text \<open>\<open>resolveAddr\<close> returns \<open>(pageCrossed, addr)\<close>; both start as \<open>false\<close> and 0.\<close>

definition fast_resolveAddr :: "'b fast \<Rightarrow> (bool \<times> u16) res" where
  "fast_resolveAddr cpu =
     (let m = addressMode cpu; r = reg cpu in
      if m = Implied then Inr (False, 0)
      else if m = Accumulator then Inr (False, 0)
      else if m = Immediate then Inr (False, rPC r + 1)
      else if m = ZeroPage then
        ebind (fast_Fetch cpu (rPC r + 1)) (\<lambda>b. Inr (False, ucast b))
      else if m = ZeroPageX then
        ebind (fast_Fetch cpu (rPC r + 1)) (\<lambda>b. Inr (False, ucast (b + rX r)))
      else if m = ZeroPageY then
        ebind (fast_Fetch cpu (rPC r + 1)) (\<lambda>b. Inr (False, ucast (b + rY r)))
      else if m = Relative then
        ebind (fast_Fetch cpu (rPC r + 1)) (\<lambda>b.
          let off = (ucast b :: u16); addr = rPC r + off + 2
          in Inr (False, if off AND 0x80 = 0x80 then addr - 0x0100 else addr))
      else if m = Absolute then
        ebind (FetchWord (fast_Fetch cpu) (rPC r + 1)) (\<lambda>addr. Inr (False, addr))
      else if m = AbsoluteX then
        ebind (FetchWord (fast_Fetch cpu) (rPC r + 1)) (\<lambda>src.
          let addr = src + ucast (rX r) in Inr (differentPage src addr, addr))
      else if m = AbsoluteY then
        ebind (FetchWord (fast_Fetch cpu) (rPC r + 1)) (\<lambda>src.
          let addr = src + ucast (rY r) in Inr (differentPage src addr, addr))
      else if m = Indirect then
        ebind (FetchWord (fast_Fetch cpu) (rPC r + 1)) (\<lambda>ptr.
        ebind (FetchWord (fast_Fetch cpu) ptr) (\<lambda>addr. Inr (False, addr)))
      else if m = IndexedIndirect then
        ebind (fast_Fetch cpu (rPC r + 1)) (\<lambda>b.
          let addr = (ucast (b + rX r) :: u16) in
          ebind (fast_Fetch cpu addr) (\<lambda>lo.
          ebind (fast_Fetch cpu ((addr + 1) AND 0x00ff)) (\<lambda>hi.
          Inr (False, push_bit 8 (ucast hi) OR ucast lo))))
      else if m = IndirectIndexed then
        ebind (fast_Fetch cpu (rPC r + 1)) (\<lambda>b.
          let addr = (ucast b :: u16) in
          ebind (fast_Fetch cpu addr) (\<lambda>lo.
          ebind (fast_Fetch cpu ((addr + 1) AND 0x00ff)) (\<lambda>hi.
          let addr = push_bit 8 (ucast hi) OR ucast lo
          in Inr (differentPage addr (addr + ucast (rY r)), addr + ucast (rY r)))))
      else Inl (UnhandledMode m))"

section \<open>Instruction executors\<close>

text \<open>Load and store.\<close>

definition fast_lda :: "'b fast \<Rightarrow> u16 \<Rightarrow> 'b fast res" where
  "fast_lda cpu addr =
     ebind (fast_Fetch cpu addr) (\<lambda>v. Inr (cpu\<lparr>reg := setZN v ((reg cpu)\<lparr>rA := v\<rparr>)\<rparr>))"

definition fast_ldx :: "'b fast \<Rightarrow> u16 \<Rightarrow> 'b fast res" where
  "fast_ldx cpu addr =
     ebind (fast_Fetch cpu addr) (\<lambda>v. Inr (cpu\<lparr>reg := setZN v ((reg cpu)\<lparr>rX := v\<rparr>)\<rparr>))"

definition fast_ldy :: "'b fast \<Rightarrow> u16 \<Rightarrow> 'b fast res" where
  "fast_ldy cpu addr =
     ebind (fast_Fetch cpu addr) (\<lambda>v. Inr (cpu\<lparr>reg := setZN v ((reg cpu)\<lparr>rY := v\<rparr>)\<rparr>))"

definition fast_sta :: "'b fast \<Rightarrow> u16 \<Rightarrow> 'b fast res" where
  "fast_sta cpu addr = fast_Store cpu addr (rA (reg cpu))"

definition fast_stx :: "'b fast \<Rightarrow> u16 \<Rightarrow> 'b fast res" where
  "fast_stx cpu addr = fast_Store cpu addr (rX (reg cpu))"

definition fast_sty :: "'b fast \<Rightarrow> u16 \<Rightarrow> 'b fast res" where
  "fast_sty cpu addr = fast_Store cpu addr (rY (reg cpu))"

text \<open>Transfers.\<close>

definition fast_tax :: "'b fast \<Rightarrow> u16 \<Rightarrow> 'b fast res" where
  "fast_tax cpu addr =
     (let r = reg cpu; r = r\<lparr>rX := rA r\<rparr> in Inr (cpu\<lparr>reg := setZN (rX r) r\<rparr>))"

definition fast_tay :: "'b fast \<Rightarrow> u16 \<Rightarrow> 'b fast res" where
  "fast_tay cpu addr =
     (let r = reg cpu; r = r\<lparr>rY := rA r\<rparr> in Inr (cpu\<lparr>reg := setZN (rY r) r\<rparr>))"

definition fast_tsx :: "'b fast \<Rightarrow> u16 \<Rightarrow> 'b fast res" where
  "fast_tsx cpu addr =
     (let r = reg cpu; r = r\<lparr>rX := rS r\<rparr> in Inr (cpu\<lparr>reg := setZN (rX r) r\<rparr>))"

definition fast_txa :: "'b fast \<Rightarrow> u16 \<Rightarrow> 'b fast res" where
  "fast_txa cpu addr =
     (let r = reg cpu; r = r\<lparr>rA := rX r\<rparr> in Inr (cpu\<lparr>reg := setZN (rA r) r\<rparr>))"

definition fast_txs :: "'b fast \<Rightarrow> u16 \<Rightarrow> 'b fast res" where
  "fast_txs cpu addr = Inr (cpu\<lparr>reg := (reg cpu)\<lparr>rS := rX (reg cpu)\<rparr>\<rparr>)"

definition fast_tya :: "'b fast \<Rightarrow> u16 \<Rightarrow> 'b fast res" where
  "fast_tya cpu addr =
     (let r = reg cpu; r = r\<lparr>rA := rY r\<rparr> in Inr (cpu\<lparr>reg := setZN (rA r) r\<rparr>))"

text \<open>Increment and decrement.\<close>

definition fast_dec :: "'b fast \<Rightarrow> u16 \<Rightarrow> 'b fast res" where
  "fast_dec cpu addr =
     ebind (fast_Fetch cpu addr) (\<lambda>m. let v = m - 1 in
     ebind (fast_Store cpu addr v) (\<lambda>cpu. Inr (cpu\<lparr>reg := setZN v (reg cpu)\<rparr>)))"

definition fast_dex :: "'b fast \<Rightarrow> u16 \<Rightarrow> 'b fast res" where
  "fast_dex cpu addr =
     (let r = reg cpu; r = r\<lparr>rX := rX r - 1\<rparr> in Inr (cpu\<lparr>reg := setZN (rX r) r\<rparr>))"

definition fast_dey :: "'b fast \<Rightarrow> u16 \<Rightarrow> 'b fast res" where
  "fast_dey cpu addr =
     (let r = reg cpu; r = r\<lparr>rY := rY r - 1\<rparr> in Inr (cpu\<lparr>reg := setZN (rY r) r\<rparr>))"

definition fast_inc :: "'b fast \<Rightarrow> u16 \<Rightarrow> 'b fast res" where
  "fast_inc cpu addr =
     ebind (fast_Fetch cpu addr) (\<lambda>m. let v = m + 1 in
     ebind (fast_Store cpu addr v) (\<lambda>cpu. Inr (cpu\<lparr>reg := setZN v (reg cpu)\<rparr>)))"

definition fast_inx :: "'b fast \<Rightarrow> u16 \<Rightarrow> 'b fast res" where
  "fast_inx cpu addr =
     (let r = reg cpu; r = r\<lparr>rX := rX r + 1\<rparr> in Inr (cpu\<lparr>reg := setZN (rX r) r\<rparr>))"

definition fast_iny :: "'b fast \<Rightarrow> u16 \<Rightarrow> 'b fast res" where
  "fast_iny cpu addr =
     (let r = reg cpu; r = r\<lparr>rY := rY r + 1\<rparr> in Inr (cpu\<lparr>reg := setZN (rY r) r\<rparr>))"

text \<open>Compare.\<close>

definition fast_cmp :: "'b fast \<Rightarrow> u16 \<Rightarrow> 'b fast res" where
  "fast_cmp cpu addr =
     ebind (fast_Fetch cpu addr) (\<lambda>m. Inr (cpu\<lparr>reg := reg_cmp (rA (reg cpu)) m (reg cpu)\<rparr>))"

definition fast_cpx :: "'b fast \<Rightarrow> u16 \<Rightarrow> 'b fast res" where
  "fast_cpx cpu addr =
     ebind (fast_Fetch cpu addr) (\<lambda>m. Inr (cpu\<lparr>reg := reg_cmp (rX (reg cpu)) m (reg cpu)\<rparr>))"

definition fast_cpy :: "'b fast \<Rightarrow> u16 \<Rightarrow> 'b fast res" where
  "fast_cpy cpu addr =
     ebind (fast_Fetch cpu addr) (\<lambda>m. Inr (cpu\<lparr>reg := reg_cmp (rY (reg cpu)) m (reg cpu)\<rparr>))"

text \<open>Processor status register.\<close>

definition fast_clc :: "'b fast \<Rightarrow> u16 \<Rightarrow> 'b fast res" where
  "fast_clc cpu addr = Inr (cpu\<lparr>reg := (reg cpu)\<lparr>rP := rP (reg cpu) AND NOT fC\<rparr>\<rparr>)"

definition fast_cld :: "'b fast \<Rightarrow> u16 \<Rightarrow> 'b fast res" where
  "fast_cld cpu addr = Inr (cpu\<lparr>reg := (reg cpu)\<lparr>rP := rP (reg cpu) AND NOT fD\<rparr>\<rparr>)"

definition fast_cli :: "'b fast \<Rightarrow> u16 \<Rightarrow> 'b fast res" where
  "fast_cli cpu addr = Inr (cpu\<lparr>reg := (reg cpu)\<lparr>rP := rP (reg cpu) AND NOT fI\<rparr>\<rparr>)"

definition fast_clv :: "'b fast \<Rightarrow> u16 \<Rightarrow> 'b fast res" where
  "fast_clv cpu addr = Inr (cpu\<lparr>reg := (reg cpu)\<lparr>rP := rP (reg cpu) AND NOT fV\<rparr>\<rparr>)"

definition fast_sec :: "'b fast \<Rightarrow> u16 \<Rightarrow> 'b fast res" where
  "fast_sec cpu addr = Inr (cpu\<lparr>reg := (reg cpu)\<lparr>rP := rP (reg cpu) OR fC\<rparr>\<rparr>)"

definition fast_sed :: "'b fast \<Rightarrow> u16 \<Rightarrow> 'b fast res" where
  "fast_sed cpu addr = Inr (cpu\<lparr>reg := (reg cpu)\<lparr>rP := rP (reg cpu) OR fD\<rparr>\<rparr>)"

definition fast_sei :: "'b fast \<Rightarrow> u16 \<Rightarrow> 'b fast res" where
  "fast_sei cpu addr = Inr (cpu\<lparr>reg := (reg cpu)\<lparr>rP := rP (reg cpu) OR fI\<rparr>\<rparr>)"

text \<open>Logical operations and shifts.\<close>

definition fast_and :: "'b fast \<Rightarrow> u16 \<Rightarrow> 'b fast res" where
  "fast_and cpu addr =
     ebind (fast_Fetch cpu addr) (\<lambda>m.
       let r = reg cpu; r = r\<lparr>rA := rA r AND m\<rparr> in Inr (cpu\<lparr>reg := setZN (rA r) r\<rparr>))"

definition fast_eor :: "'b fast \<Rightarrow> u16 \<Rightarrow> 'b fast res" where
  "fast_eor cpu addr =
     ebind (fast_Fetch cpu addr) (\<lambda>m.
       let r = reg cpu; r = r\<lparr>rA := rA r XOR m\<rparr> in Inr (cpu\<lparr>reg := setZN (rA r) r\<rparr>))"

definition fast_ora :: "'b fast \<Rightarrow> u16 \<Rightarrow> 'b fast res" where
  "fast_ora cpu addr =
     ebind (fast_Fetch cpu addr) (\<lambda>m.
       let r = reg cpu; r = r\<lparr>rA := rA r OR m\<rparr> in Inr (cpu\<lparr>reg := setZN (rA r) r\<rparr>))"

definition fast_bit :: "'b fast \<Rightarrow> u16 \<Rightarrow> 'b fast res" where
  "fast_bit cpu addr =
     ebind (fast_Fetch cpu addr) (\<lambda>v.
       let r = reg cpu;
           r = r\<lparr>rP := setFlag (rP r) fV (v AND 0x40 = 0x40)\<rparr>;
           r = r\<lparr>rP := setFlag (rP r) fN (v AND 0x80 = 0x80)\<rparr>;
           r = r\<lparr>rP := setFlag (rP r) fZ (v AND rA r = 0)\<rparr>
       in Inr (cpu\<lparr>reg := r\<rparr>))"

definition fast_asl :: "'b fast \<Rightarrow> u16 \<Rightarrow> 'b fast res" where
  "fast_asl cpu addr =
     (if addressMode cpu = Accumulator then
        (let r = reg cpu; v = rA r;
             r = r\<lparr>rP := setFlag (rP r) fC ((drop_bit 7 v) AND 1 = 1)\<rparr>;
             r = r\<lparr>rA := push_bit 1 v\<rparr>
         in Inr (cpu\<lparr>reg := setZN (rA r) r\<rparr>))
      else
        ebind (fast_Fetch cpu addr) (\<lambda>v.
          let cpu = cpu\<lparr>reg := (reg cpu)\<lparr>rP := setFlag (rP (reg cpu)) fC ((drop_bit 7 v) AND 1 = 1)\<rparr>\<rparr>;
              v = push_bit 1 v
          in ebind (fast_Store cpu addr v) (\<lambda>cpu. Inr (cpu\<lparr>reg := setZN v (reg cpu)\<rparr>))))"

definition fast_lsr :: "'b fast \<Rightarrow> u16 \<Rightarrow> 'b fast res" where
  "fast_lsr cpu addr =
     (if addressMode cpu = Accumulator then
        (let r = reg cpu; v = rA r;
             r = r\<lparr>rP := setFlag (rP r) fC (v AND 1 = 1)\<rparr>;
             r = r\<lparr>rA := drop_bit 1 v\<rparr>
         in Inr (cpu\<lparr>reg := setZN (rA r) r\<rparr>))
      else
        ebind (fast_Fetch cpu addr) (\<lambda>v.
          let cpu = cpu\<lparr>reg := (reg cpu)\<lparr>rP := setFlag (rP (reg cpu)) fC (v AND 1 = 1)\<rparr>\<rparr>;
              v = drop_bit 1 v
          in ebind (fast_Store cpu addr v) (\<lambda>cpu. Inr (cpu\<lparr>reg := setZN v (reg cpu)\<rparr>))))"

definition fast_rol :: "'b fast \<Rightarrow> u16 \<Rightarrow> 'b fast res" where
  "fast_rol cpu addr =
     (let carry = (if rP (reg cpu) AND fC = fC then 1 else 0 :: u8) in
      ebind (if addressMode cpu = Accumulator then Inr (rA (reg cpu)) else fast_Fetch cpu addr) (\<lambda>v.
        let r = reg cpu;
            r = r\<lparr>rP := setFlag (rP r) fC (drop_bit 7 v = 1)\<rparr>;
            v = push_bit 1 v OR carry;
            cpu = cpu\<lparr>reg := setZN v r\<rparr>
        in if addressMode cpu = Accumulator then Inr (cpu\<lparr>reg := (reg cpu)\<lparr>rA := v\<rparr>\<rparr>)
           else fast_Store cpu addr v))"

definition fast_ror :: "'b fast \<Rightarrow> u16 \<Rightarrow> 'b fast res" where
  "fast_ror cpu addr =
     (let carry = (if rP (reg cpu) AND fC = fC then push_bit 7 1 else 0 :: u8) in
      ebind (if addressMode cpu = Accumulator then Inr (rA (reg cpu)) else fast_Fetch cpu addr) (\<lambda>v.
        let r = reg cpu;
            r = r\<lparr>rP := setFlag (rP r) fC (v AND 1 = 1)\<rparr>;
            v = drop_bit 1 v OR carry;
            cpu = cpu\<lparr>reg := setZN v r\<rparr>
        in if addressMode cpu = Accumulator then Inr (cpu\<lparr>reg := (reg cpu)\<lparr>rA := v\<rparr>\<rparr>)
           else fast_Store cpu addr v))"

text \<open>Arithmetic: the methods \<open>adc\<close> and \<open>sbc\<close> of \<open>fast\<close> call the functions above.\<close>

definition fast_adc :: "'b fast \<Rightarrow> u16 \<Rightarrow> 'b fast res" where
  "fast_adc cpu addr =
     ebind (fast_Fetch cpu addr) (\<lambda>m.
       let r = reg cpu;
           (a, n, v, z, c) = adc (rA r) m (rP r AND fC = fC) (rP r AND fD = fD \<and> hasBCD cpu);
           r = r\<lparr>rA := a\<rparr>;
           r = r\<lparr>rP := setFlag (rP r) fN n\<rparr>;
           r = r\<lparr>rP := setFlag (rP r) fV v\<rparr>;
           r = r\<lparr>rP := setFlag (rP r) fZ z\<rparr>;
           r = r\<lparr>rP := setFlag (rP r) fC c\<rparr>
       in Inr (cpu\<lparr>reg := r\<rparr>))"

definition fast_sbc :: "'b fast \<Rightarrow> u16 \<Rightarrow> 'b fast res" where
  "fast_sbc cpu addr =
     ebind (fast_Fetch cpu addr) (\<lambda>m.
       let r = reg cpu;
           (a, n, v, z, c) = sbc (rA r) m (rP r AND fC = fC) (rP r AND fD = fD \<and> hasBCD cpu);
           r = r\<lparr>rA := a\<rparr>;
           r = r\<lparr>rP := setFlag (rP r) fN n\<rparr>;
           r = r\<lparr>rP := setFlag (rP r) fV v\<rparr>;
           r = r\<lparr>rP := setFlag (rP r) fZ z\<rparr>;
           r = r\<lparr>rP := setFlag (rP r) fC c\<rparr>
       in Inr (cpu\<lparr>reg := r\<rparr>))"

text \<open>Branches.\<close>

definition fast_branch :: "'b fast \<Rightarrow> u16 \<Rightarrow> 'b fast" where
  "fast_branch cpu pc =
     (let cpu = cpu\<lparr>cycles := cycles cpu + 1\<rparr>;
          cpu = (if differentPage (rPC (reg cpu)) pc then cpu\<lparr>cycles := cycles cpu + 1\<rparr> else cpu)
      in cpu\<lparr>reg := (reg cpu)\<lparr>rPC := pc\<rparr>\<rparr>)"

definition fast_bcc :: "'b fast \<Rightarrow> u16 \<Rightarrow> 'b fast res" where
  "fast_bcc cpu addr = Inr (if rP (reg cpu) AND fC = 0 then fast_branch cpu addr else cpu)"

definition fast_bcs :: "'b fast \<Rightarrow> u16 \<Rightarrow> 'b fast res" where
  "fast_bcs cpu addr = Inr (if rP (reg cpu) AND fC = fC then fast_branch cpu addr else cpu)"

definition fast_bne :: "'b fast \<Rightarrow> u16 \<Rightarrow> 'b fast res" where
  "fast_bne cpu addr = Inr (if rP (reg cpu) AND fZ = 0 then fast_branch cpu addr else cpu)"

definition fast_beq :: "'b fast \<Rightarrow> u16 \<Rightarrow> 'b fast res" where
  "fast_beq cpu addr = Inr (if rP (reg cpu) AND fZ = fZ then fast_branch cpu addr else cpu)"

definition fast_bpl :: "'b fast \<Rightarrow> u16 \<Rightarrow> 'b fast res" where
  "fast_bpl cpu addr = Inr (if rP (reg cpu) AND fN = 0 then fast_branch cpu addr else cpu)"

definition fast_bmi :: "'b fast \<Rightarrow> u16 \<Rightarrow> 'b fast res" where
  "fast_bmi cpu addr = Inr (if rP (reg cpu) AND fN = fN then fast_branch cpu addr else cpu)"

definition fast_bvc :: "'b fast \<Rightarrow> u16 \<Rightarrow> 'b fast res" where
  "fast_bvc cpu addr = Inr (if rP (reg cpu) AND fV = 0 then fast_branch cpu addr else cpu)"

definition fast_bvs :: "'b fast \<Rightarrow> u16 \<Rightarrow> 'b fast res" where
  "fast_bvs cpu addr = Inr (if rP (reg cpu) AND fV = fV then fast_branch cpu addr else cpu)"

text \<open>Jumps and interrupts.\<close>

definition fast_jmp :: "'b fast \<Rightarrow> u16 \<Rightarrow> 'b fast res" where
  "fast_jmp cpu addr = Inr (cpu\<lparr>reg := (reg cpu)\<lparr>rPC := addr\<rparr>\<rparr>)"

definition fast_jsr :: "'b fast \<Rightarrow> u16 \<Rightarrow> 'b fast res" where
  "fast_jsr cpu addr =
     ebind (fast_PushWord cpu (rPC (reg cpu) - 1)) (\<lambda>cpu.
     Inr (cpu\<lparr>reg := (reg cpu)\<lparr>rPC := addr\<rparr>\<rparr>))"

definition fast_rti :: "'b fast \<Rightarrow> u16 \<Rightarrow> 'b fast res" where
  "fast_rti cpu addr =
     ebind (fast_Pull cpu) (\<lambda>(p, cpu).
       let cpu = cpu\<lparr>reg := (reg cpu)\<lparr>rP := (p AND 0xef) OR 0x20\<rparr>\<rparr> in
       ebind (fast_PullWord cpu) (\<lambda>(pc, cpu).
       Inr (cpu\<lparr>reg := (reg cpu)\<lparr>rPC := pc\<rparr>\<rparr>)))"

definition fast_rts :: "'b fast \<Rightarrow> u16 \<Rightarrow> 'b fast res" where
  "fast_rts cpu addr =
     ebind (fast_PullWord cpu) (\<lambda>(pc, cpu).
     Inr (cpu\<lparr>reg := (reg cpu)\<lparr>rPC := pc + 1\<rparr>\<rparr>))"

definition fast_brk :: "'b fast \<Rightarrow> u16 \<Rightarrow> 'b fast res" where
  "fast_brk cpu addr =
     ebind (fast_PushWord cpu (rPC (reg cpu) + 1)) (\<lambda>cpu.
     ebind (fast_Push cpu (rP (reg cpu) OR 0x10)) (\<lambda>cpu.
       let cpu = cpu\<lparr>reg := (reg cpu)\<lparr>rP := rP (reg cpu) OR fI\<rparr>\<rparr> in
       ebind (FetchWord (fast_Fetch cpu) IRQVector) (\<lambda>pc.
       Inr (cpu\<lparr>reg := (reg cpu)\<lparr>rPC := pc\<rparr>\<rparr>))))"

definition fast_nmi :: "'b fast \<Rightarrow> 'b fast res" where
  "fast_nmi cpu =
     ebind (fast_PushWord cpu (rPC (reg cpu))) (\<lambda>cpu.
     ebind (fast_Push cpu (rP (reg cpu))) (\<lambda>cpu.
       let cpu = cpu\<lparr>reg := (reg cpu)\<lparr>rP := rP (reg cpu) OR fI\<rparr>\<rparr> in
       ebind (FetchWord (fast_Fetch cpu) NMIVector) (\<lambda>pc.
       let cpu = cpu\<lparr>reg := (reg cpu)\<lparr>rPC := pc\<rparr>\<rparr>
       in Inr (cpu\<lparr>cycles := cycles cpu + 7\<rparr>))))"

definition fast_irq :: "'b fast \<Rightarrow> 'b fast res" where
  "fast_irq cpu =
     ebind (fast_PushWord cpu (rPC (reg cpu))) (\<lambda>cpu.
     ebind (fast_Push cpu (rP (reg cpu))) (\<lambda>cpu.
       let cpu = cpu\<lparr>reg := (reg cpu)\<lparr>rP := rP (reg cpu) OR fI\<rparr>\<rparr> in
       ebind (FetchWord (fast_Fetch cpu) IRQVector) (\<lambda>pc.
       let cpu = cpu\<lparr>reg := (reg cpu)\<lparr>rPC := pc\<rparr>\<rparr>
       in Inr (cpu\<lparr>cycles := cycles cpu + 7\<rparr>))))"

text \<open>Push and pull.\<close>

definition fast_pha :: "'b fast \<Rightarrow> u16 \<Rightarrow> 'b fast res" where
  "fast_pha cpu addr = fast_Push cpu (rA (reg cpu))"

definition fast_php :: "'b fast \<Rightarrow> u16 \<Rightarrow> 'b fast res" where
  "fast_php cpu addr = fast_Push cpu (rP (reg cpu) OR fB)"

definition fast_pla :: "'b fast \<Rightarrow> u16 \<Rightarrow> 'b fast res" where
  "fast_pla cpu addr =
     ebind (fast_Pull cpu) (\<lambda>(v, cpu). Inr (cpu\<lparr>reg := setZN v ((reg cpu)\<lparr>rA := v\<rparr>)\<rparr>))"

definition fast_plp :: "'b fast \<Rightarrow> u16 \<Rightarrow> 'b fast res" where
  "fast_plp cpu addr =
     ebind (fast_Pull cpu) (\<lambda>(v, cpu). Inr (cpu\<lparr>reg := (reg cpu)\<lparr>rP := (v AND 0xef) OR 0x20\<rparr>\<rparr>))"

text \<open>Miscellaneous.\<close>

definition fast_nop :: "'b fast \<Rightarrow> u16 \<Rightarrow> 'b fast res" where
  "fast_nop cpu addr = Inr cpu"

definition fast_hlt :: "'b fast \<Rightarrow> u16 \<Rightarrow> 'b fast res" where
  "fast_hlt cpu addr = Inr (cpu\<lparr>reg := (reg cpu)\<lparr>rPC := rPC (reg cpu) - 1\<rparr>, halted := True\<rparr>)"

text \<open>Undocumented instructions.\<close>

definition fast_alr :: "'b fast \<Rightarrow> u16 \<Rightarrow> 'b fast res" where
  "fast_alr cpu addr =
     ebind (fast_and cpu addr) (\<lambda>cpu. fast_lsr (cpu\<lparr>addressMode := Accumulator\<rparr>) addr)"

definition fast_anc :: "'b fast \<Rightarrow> u16 \<Rightarrow> 'b fast res" where
  "fast_anc cpu addr =
     ebind (fast_Fetch cpu addr) (\<lambda>m.
       let r = reg cpu; r = r\<lparr>rA := rA r AND m\<rparr>; r = setZN (rA r) r
       in Inr (cpu\<lparr>reg := r\<lparr>rP := setFlag (rP r) fC (rP r AND fN = fN)\<rparr>\<rparr>))"

definition fast_arr :: "'b fast \<Rightarrow> u16 \<Rightarrow> 'b fast res" where
  "fast_arr cpu addr =
     ebind (fast_and cpu addr) (\<lambda>cpu.
     ebind (fast_ror (cpu\<lparr>addressMode := Accumulator\<rparr>) addr) (\<lambda>cpu.
       let r = reg cpu;
           b5 = (drop_bit 5 (rA r) AND 1 = 1);
           b6 = (drop_bit 6 (rA r) AND 1 = 1);
           r = r\<lparr>rP := setFlag (rP r) fC b6\<rparr>;
           r = r\<lparr>rP := setFlag (rP r) fV (b5 \<noteq> b6)\<rparr>
       in Inr (cpu\<lparr>reg := r\<rparr>)))"

definition fast_axs :: "'b fast \<Rightarrow> u16 \<Rightarrow> 'b fast res" where
  "fast_axs cpu addr =
     (let a = rA (reg cpu) AND rX (reg cpu) in
      ebind (fast_Fetch cpu addr) (\<lambda>v.
        let r = reg cpu;
            r = r\<lparr>rX := a - v\<rparr>;
            r = r\<lparr>rP := setFlag (rP r) fC (a \<ge> v)\<rparr>
        in Inr (cpu\<lparr>reg := setZN (rX r) r\<rparr>)))"

definition fast_lax :: "'b fast \<Rightarrow> u16 \<Rightarrow> 'b fast res" where
  "fast_lax cpu addr =
     ebind (fast_Fetch cpu addr) (\<lambda>v.
       let r = reg cpu; r = r\<lparr>rA := v\<rparr>; r = r\<lparr>rX := rA r\<rparr>
       in Inr (cpu\<lparr>reg := setZN (rA r) r\<rparr>))"

definition fast_las :: "'b fast \<Rightarrow> u16 \<Rightarrow> 'b fast res" where
  "fast_las cpu addr =
     ebind (fast_Fetch cpu addr) (\<lambda>m.
       let r = reg cpu; v = m AND rS r;
           r = r\<lparr>rS := v\<rparr>; r = r\<lparr>rX := v\<rparr>; r = r\<lparr>rA := v\<rparr>
       in Inr (cpu\<lparr>reg := setZN (rA r) r\<rparr>))"

definition fast_sax :: "'b fast \<Rightarrow> u16 \<Rightarrow> 'b fast res" where
  "fast_sax cpu addr = fast_Store cpu addr (rA (reg cpu) AND rX (reg cpu))"

definition fast_dcp :: "'b fast \<Rightarrow> u16 \<Rightarrow> 'b fast res" where
  "fast_dcp cpu addr = ebind (fast_dec cpu addr) (\<lambda>cpu. fast_cmp cpu addr)"

definition fast_isc :: "'b fast \<Rightarrow> u16 \<Rightarrow> 'b fast res" where
  "fast_isc cpu addr = ebind (fast_inc cpu addr) (\<lambda>cpu. fast_sbc cpu addr)"

definition fast_rla :: "'b fast \<Rightarrow> u16 \<Rightarrow> 'b fast res" where
  "fast_rla cpu addr = ebind (fast_rol cpu addr) (\<lambda>cpu. fast_and cpu addr)"

definition fast_slo :: "'b fast \<Rightarrow> u16 \<Rightarrow> 'b fast res" where
  "fast_slo cpu addr = ebind (fast_asl cpu addr) (\<lambda>cpu. fast_ora cpu addr)"

definition fast_sre :: "'b fast \<Rightarrow> u16 \<Rightarrow> 'b fast res" where
  "fast_sre cpu addr = ebind (fast_lsr cpu addr) (\<lambda>cpu. fast_eor cpu addr)"

definition fast_rra :: "'b fast \<Rightarrow> u16 \<Rightarrow> 'b fast res" where
  "fast_rra cpu addr = ebind (fast_ror cpu addr) (\<lambda>cpu. fast_adc cpu addr)"

definition fast_ahx :: "'b fast \<Rightarrow> u16 \<Rightarrow> 'b fast res" where
  "fast_ahx cpu addr =
     fast_Store cpu addr (((ucast (drop_bit 8 addr) :: u8) + 1) AND rA (reg cpu) AND rX (reg cpu))"

definition fast_shx :: "'b fast \<Rightarrow> u16 \<Rightarrow> 'b fast res" where
  "fast_shx cpu addr =
     fast_Store cpu addr (((ucast (drop_bit 8 addr) :: u8) + 1) AND rX (reg cpu))"

definition fast_shy :: "'b fast \<Rightarrow> u16 \<Rightarrow> 'b fast res" where
  "fast_shy cpu addr =
     fast_Store cpu addr (((ucast (drop_bit 8 addr) :: u8) + 1) AND rY (reg cpu))"

definition fast_tas :: "'b fast \<Rightarrow> u16 \<Rightarrow> 'b fast res" where
  "fast_tas cpu addr =
     (let cpu = cpu\<lparr>reg := (reg cpu)\<lparr>rS := rA (reg cpu) AND rX (reg cpu)\<rparr>\<rparr>;
          v = ((ucast (rS (reg cpu)) :: u16) AND (drop_bit 8 addr + 1)) AND 0xff;
          t = (addr - ucast (rY (reg cpu))) AND 0xff
      in if (ucast (rY (reg cpu)) :: u16) + t \<le> 0xff then fast_Store cpu addr (ucast v)
         else ebind (fast_Fetch cpu addr) (\<lambda>m. fast_Store cpu addr m))"

definition fast_xaa :: "'b fast \<Rightarrow> u16 \<Rightarrow> 'b fast res" where
  "fast_xaa cpu addr =
     ebind (fast_Fetch cpu addr) (\<lambda>m.
       let r = reg cpu; r = r\<lparr>rA := rX r AND m\<rparr> in Inr (cpu\<lparr>reg := setZN (rA r) r\<rparr>))"

text \<open>
  \<open>cpu.ops\<close>, the handlers indexed by mnemonic, in the order \<open>New\<close> fills the array.
\<close>

definition fast_ops :: "('b fast \<Rightarrow> u16 \<Rightarrow> 'b fast res) list" where
  "fast_ops = [
    fast_adc, fast_and, fast_asl, fast_bcc, fast_bcs, fast_beq, fast_bit, fast_bmi,
    fast_bne, fast_bpl, fast_brk, fast_bvc, fast_bvs, fast_clc, fast_cld, fast_cli,
    fast_clv, fast_cmp, fast_cpx, fast_cpy, fast_dec, fast_dex, fast_dey, fast_eor,
    fast_inc, fast_inx, fast_iny, fast_jmp, fast_jsr, fast_lda, fast_ldx, fast_ldy,
    fast_lsr, fast_nop, fast_ora, fast_pha, fast_php, fast_pla, fast_plp, fast_rol,
    fast_ror, fast_rti, fast_rts, fast_sbc, fast_sec, fast_sed, fast_sei, fast_sta,
    fast_stx, fast_sty, fast_tax, fast_tay, fast_tsx, fast_txa, fast_txs, fast_tya,
    fast_hlt, fast_lax, fast_sax, fast_dcp, fast_isc, fast_rla, fast_rra, fast_slo,
    fast_sre, fast_anc, fast_alr, fast_arr, fast_xaa, fast_ahx, fast_tas, fast_shx,
    fast_shy, fast_las, fast_axs
  ]"

text \<open>\<open>cpu.ops[opcode.Mnemonic](addr)\<close>: an index past the array panics.\<close>

definition fast_dispatch :: "Mnemonic \<Rightarrow> 'b fast \<Rightarrow> u16 \<Rightarrow> 'b fast res" where
  "fast_dispatch m cpu addr =
     (if unat m < mnemonics then (fast_ops ! unat m) cpu addr else Inl IndexOutOfRange)"

section \<open>The CPU driver\<close>

definition fast_IRQ :: "'b fast \<Rightarrow> 'b fast" where
  "fast_IRQ cpu = (if \<not> hasIRQ cpu then cpu else cpu\<lparr>interrupt := IRQ\<rparr>)"

definition fast_NMI :: "'b fast \<Rightarrow> 'b fast" where
  "fast_NMI cpu = (if \<not> hasNMI cpu then cpu else cpu\<lparr>interrupt := NMI\<rparr>)"

definition fast_Reset :: "'b fast \<Rightarrow> 'b fast res" where
  "fast_Reset cpu =
     ebind (FetchWord (fast_Fetch cpu) ResetVector) (\<lambda>pc.
     Inr (cpu\<lparr>reg := (reg cpu)\<lparr>rPC := pc, rS := 0xfd, rP := 0x34\<rparr>,
              interrupt := NoInterrupt, halted := False, notReady := False\<rparr>))"

definition fast_Ready :: "'b fast \<Rightarrow> bool \<Rightarrow> 'b fast" where
  "fast_Ready cpu on = (if \<not> hasReady cpu then cpu else cpu\<lparr>notReady := \<not> on\<rparr>)"

definition fast_Halted :: "'b fast \<Rightarrow> bool" where
  "fast_Halted cpu = halted cpu"

text \<open>
  The fields of \<open>Model\<close> that \<open>New\<close> reads. \<open>memory.New(size).Reset(0xff)\<close> is a slice of
  \<open>size\<close> bytes, all 0xff.
\<close>

record Model =
  InternalMemory :: int
  HasBCD :: bool
  HasIRQ :: bool
  HasNMI :: bool
  HasReady :: bool

definition New :: "Model \<Rightarrow> 'b Memory \<Rightarrow> 'b fast res" where
  "New model mem =
     fast_Reset \<lparr>
       reg = \<lparr>rPC = 0, rS = 0, rP = 0, rA = 0, rX = 0, rY = 0\<rparr>,
       bus = mem,
       ram = (if InternalMemory model > 0 then replicate (nat (InternalMemory model)) 0xff else []),
       ramSize = InternalMemory model,
       interrupt = NoInterrupt,
       cycles = 0,
       halted = False,
       addressMode = Implied,
       hasBCD = HasBCD model,
       hasNMI = HasNMI model,
       hasIRQ = HasIRQ model,
       hasReady = HasReady model,
       notReady = False\<rparr>"

definition MOS6502 :: Model where
  "MOS6502 = \<lparr>InternalMemory = 0, HasBCD = True, HasIRQ = True, HasNMI = True, HasReady = False\<rparr>"

definition Ricoh2A03 :: Model where
  "Ricoh2A03 = \<lparr>InternalMemory = 0, HasBCD = False, HasIRQ = True, HasNMI = True, HasReady = False\<rparr>"

definition fast_handleInterrupts :: "'b fast \<Rightarrow> 'b fast res" where
  "fast_handleInterrupts cpu =
     ebind (case interrupt cpu of NMI \<Rightarrow> fast_nmi cpu | IRQ \<Rightarrow> fast_irq cpu | NoInterrupt \<Rightarrow> Inr cpu)
       (\<lambda>cpu. Inr (cpu\<lparr>interrupt := NoInterrupt\<rparr>))"

text \<open>
  \<open>memory.ReaderAt\<close> is the wrapper that \<open>fast.ReadAt\<close> puts around a bus that is no
  \<open>io.ReaderAt\<close>: it fills the buffer \<open>p\<close> from offset \<open>off\<close> with \<open>Fetch\<close> and
  returns it with the count and the error (\<open>io.EOF\<close>, \<open>io.ErrShortBuffer\<close> or nil).
\<close>

function ReaderAt_loop :: "(u16 \<Rightarrow> u8 res) \<Rightarrow> u8 list \<Rightarrow> int \<Rightarrow> int \<Rightarrow> int \<Rightarrow> u8 list res" where
  "ReaderAt_loop fetch p off addr sz =
     (if addr < sz then
        ebind (fetch (word_of_int (addr + off))) (\<lambda>v.
          if 0 \<le> addr \<and> nat addr < length p
          then ReaderAt_loop fetch (p[nat addr := v]) off (addr + 1) sz
          else Inl IndexOutOfRange)
      else Inr p)"
  by pat_completeness auto
termination
  by (relation "measure (\<lambda>(fetch, p, off, addr, sz). nat (sz - addr))") auto

declare ReaderAt_loop.simps [simp del]

definition ReaderAt_ReadAt :: "(u16 \<Rightarrow> u8 res) \<Rightarrow> u8 list \<Rightarrow> int \<Rightarrow> (u8 list \<times> int \<times> ioerr option) res" where
  "ReaderAt_ReadAt fetch p off =
     (if off > 0xffff then Inr (p, 0, Some ErrShortBuffer)
      else
        let sz = int (length p);
            (sz, err) = (if off + sz > 0xffff then (0xffff - off, Some EOF) else (sz, None))
        in ebind (ReaderAt_loop fetch p off 0 sz) (\<lambda>p. Inr (p, sz, err)))"

text \<open>
  \<open>fast.ReadAt\<close> copies from the internal RAM and reads the remainder \<open>p[n:]\<close> from the
  bus: through the bus's own \<open>ReadAt\<close> when the bus is an \<open>io.ReaderAt\<close>, and through
  \<open>memory.ReaderAt\<close> otherwise. A callee cannot change the length of the caller's
  slice: of what the bus's \<open>ReadAt\<close> returns, \<open>slice_after\<close> keeps the length of \<open>p[n:]\<close>.
\<close>

definition slice_after :: "u8 list \<Rightarrow> u8 list \<Rightarrow> u8 list" where
  "slice_after p q = take (length p) (q @ drop (length q) p)"

definition fast_ReadAt :: "'b fast \<Rightarrow> u8 list \<Rightarrow> int \<Rightarrow> (u8 list \<times> int \<times> ioerr option) res" where
  "fast_ReadAt cpu p offs =
     (if offs < 0 \<or> offs > 0xffff then Inr (p, 0, Some EOF)
      else
        ebind (if ramSize cpu > 0 \<and> offs < ramSize cpu then
                 (if nat offs \<le> length (ram cpu) then
                    (let n = min (length p) (length (ram cpu) - nat offs)
                     in Inr (take n (drop (nat offs) (ram cpu)) @ drop n p, n))
                  else Inl IndexOutOfRange)
               else Inr (p, 0)) (\<lambda>(p, n).
        if int (length p) - int n > 0 then
          let r = (case ReadAt_m (bus cpu) of
                     Some readAt \<Rightarrow> (\<lambda>q off.
                       ebind (readAt (obj (bus cpu)) q off) (\<lambda>(q', m, err).
                         Inr (slice_after q q', m, err)))
                   | None \<Rightarrow> ReaderAt_ReadAt (Memory_Fetch (bus cpu)))
          in ebind (r (drop n p) (offs + int n)) (\<lambda>(q, m, err).
               Inr (take n p @ q, if err = None then int n + m else int n, err))
        else Inr (p, int n, None)))"

text \<open>
  The \<open>Instruction\<close> handed to the monitor; its \<open>CPU\<close> field is the first argument of
  \<open>BeforeExecute\<close>. A monitor is its \<open>BeforeExecute\<close> method. It is code of the host: it
  may panic (\<open>Inl\<close>), and it is handed the CPU itself (a pointer) and may change it, so
  it returns its answer together with the CPU as the call leaves it.
\<close>

record Instruction =
  inCycles :: int
  inMnemonic :: Mnemonic
  inRegisters :: Registers
  inAddressMode :: AddressMode
  inRaw :: "u8 list"

type_synonym 'b Monitor = "'b fast \<Rightarrow> Instruction \<Rightarrow> (bool \<times> 'b fast) res"

text \<open>\<open>Step\<close> returns the CPU as the call leaves it and the cycles it reports.\<close>

definition fast_Step :: "'b Monitor option \<Rightarrow> 'b fast \<Rightarrow> ('b fast \<times> int) res" where
  "fast_Step monitor cpu =
     (if notReady cpu then Inr (cpu, 0)
      else
        ebind (fast_handleInterrupts cpu) (\<lambda>cpu.
        let start = cycles cpu in
        ebind (fast_nextOpcode cpu) (\<lambda>opcode.
        ebind (case monitor of
                 None \<Rightarrow> Inr (True, cpu)
               | Some beforeExecute \<Rightarrow>
                   ebind (fast_ReadAt cpu (replicate (nat (Size opcode)) 0) (uint (rPC (reg cpu))))
                     (\<lambda>(raw, n, err).
                       beforeExecute cpu
                         \<lparr>inCycles = cycles cpu, inMnemonic = Mnemonic opcode,
                          inRegisters = reg cpu, inAddressMode = Mode opcode, inRaw = raw\<rparr>))
          (\<lambda>(proceed, cpu).
        if \<not> proceed then Inr (cpu, 0)
        else
          let cpu = cpu\<lparr>addressMode := Mode opcode\<rparr> in
          ebind (fast_resolveAddr cpu) (\<lambda>(pageCrossed, addr).
          let cpu = (if pageCrossed then cpu\<lparr>cycles := cycles cpu + PageCrossCycles opcode\<rparr> else cpu);
              cpu = cpu\<lparr>reg := (reg cpu)\<lparr>rPC := rPC (reg cpu) + word_of_int (Size opcode)\<rparr>\<rparr>
          in ebind (fast_dispatch (Mnemonic opcode) cpu addr) (\<lambda>cpu.
          let cpu = cpu\<lparr>cycles := cycles cpu + Cycles opcode\<rparr>
          in Inr (cpu, cycles cpu - start)))))))"

section \<open>Built-in memories and the mapper (package memory)\<close>

text \<open>
  \<open>memory.RAM\<close> as a \<open>memory.Memory\<close>: the object is the byte slice, and the type has
  no \<open>ReadAt\<close>. \<open>RAM\<close> of package \<open>mos65xx\<close> has the same \<open>Fetch\<close> and \<open>Store\<close>, and
  the \<open>ReadAt\<close> above.
\<close>

definition RAM_Memory :: "u8 list \<Rightarrow> u8 list Memory" where
  "RAM_Memory mem = \<lparr>obj = mem, Fetch_m = RAM_Fetch, Store_m = RAM_Store, ReadAt_m = None\<rparr>"

definition RAM_AddressBus :: "u8 list \<Rightarrow> u8 list Memory" where
  "RAM_AddressBus mem =
     \<lparr>obj = mem, Fetch_m = RAM_Fetch, Store_m = RAM_Store, ReadAt_m = Some RAM_ReadAt\<rparr>"

text \<open>
  A mapper range holds a \<open>memory.Memory\<close>, which for \<open>*RAM\<close> is a pointer: two ranges may
  share one RAM. The built-in memories are therefore references into a heap of RAM
  slices: \<open>RAM p\<close> is the \<open>*RAM\<close> at heap address \<open>p\<close>, \<open>ROM\<close> a byte slice whose
  \<open>Store\<close> does nothing, \<open>Blank b\<close> reads \<open>b\<close> everywhere, and \<open>Masked m msk\<close> hands
  \<open>addr & msk\<close> to \<open>m\<close>.
\<close>

type_synonym heap = "nat \<Rightarrow> u8 list"

datatype memory = RAM nat | ROM "u8 list" | Blank u8 | Masked memory u16

fun memory_Fetch :: "heap \<Rightarrow> memory \<Rightarrow> u16 \<Rightarrow> u8 res" where
  "memory_Fetch h (RAM p) addr = RAM_Fetch (h p) addr"
| "memory_Fetch h (ROM mem) addr = RAM_Fetch mem addr"
| "memory_Fetch h (Blank b) addr = Inr b"
| "memory_Fetch h (Masked m msk) addr = memory_Fetch h m (addr AND msk)"

fun memory_Store :: "heap \<Rightarrow> memory \<Rightarrow> u16 \<Rightarrow> u8 \<Rightarrow> heap res" where
  "memory_Store h (RAM p) addr v = ebind (RAM_Store (h p) addr v) (\<lambda>mem. Inr (h(p := mem)))"
| "memory_Store h (ROM mem) addr v = Inr h"
| "memory_Store h (Blank b) addr v = Inr h"
| "memory_Store h (Masked m msk) addr v = memory_Store h m (addr AND msk) v"

text \<open>
  \<open>memoryRange\<close> embeds a \<open>Memory\<close> (\<open>r_Memory\<close>, a reference of any type \<open>'h\<close>) and has
  the bounds \<open>addr\<close> and \<open>stop\<close> (\<open>r_addr\<close>, \<open>r_stop\<close>).
\<close>

record 'h memoryRange =
  r_Memory :: 'h
  r_addr :: u16
  r_stop :: u16

record 'h Mapper =
  Zero :: u8
  mapped :: "'h memoryRange list"

definition NewMapper :: "'h Mapper" where
  "NewMapper = \<lparr>Zero = 0xff, mapped = []\<rparr>"

definition memoryRanges_Less :: "'h memoryRange list \<Rightarrow> nat \<Rightarrow> nat \<Rightarrow> bool" where
  "memoryRanges_Less r i j =
     (if r_addr (r ! j) \<ge> r_addr (r ! i) \<and> r_stop (r ! j) \<le> r_stop (r ! i) then False
      else r_addr (r ! i) < r_addr (r ! j))"

definition memoryRanges_Swap :: "'h memoryRange list \<Rightarrow> nat \<Rightarrow> nat \<Rightarrow> 'h memoryRange list" where
  "memoryRanges_Swap r i j = r[i := r ! j, j := r ! i]"

text \<open>
  \<open>sort.Stable\<close> of the Go library sorts blocks of 20 elements by insertion and then
  merges neighbouring blocks in place with \<open>symMerge\<close>, doubling the block size.
  \<open>insertionSort(data, a, b)\<close> is
  \<^verbatim>\<open>for i := a + 1; i < b; i++ {
    for j := i; j > a && data.Less(j, j-1); j-- { data.Swap(j, j-1) } }\<close>
\<close>

function insertionSort_inner :: "'h memoryRange list \<Rightarrow> nat \<Rightarrow> nat \<Rightarrow> 'h memoryRange list" where
  "insertionSort_inner r a j =
     (if j > a \<and> memoryRanges_Less r j (j - 1)
      then insertionSort_inner (memoryRanges_Swap r j (j - 1)) a (j - 1)
      else r)"
  by pat_completeness auto
termination
  by (relation "measure (\<lambda>(r, a, j). j)") auto

declare insertionSort_inner.simps [simp del]

function insertionSort_outer :: "'h memoryRange list \<Rightarrow> nat \<Rightarrow> nat \<Rightarrow> nat \<Rightarrow> 'h memoryRange list" where
  "insertionSort_outer r a b i =
     (if i < b then insertionSort_outer (insertionSort_inner r a i) a b (i + 1) else r)"
  by pat_completeness auto
termination
  by (relation "measure (\<lambda>(r, a, b, i). b - i)") auto

declare insertionSort_outer.simps [simp del]

definition insertionSort :: "'h memoryRange list \<Rightarrow> nat \<Rightarrow> nat \<Rightarrow> 'h memoryRange list" where
  "insertionSort r a b = insertionSort_outer r a b (a + 1)"

text \<open>
  \<open>sort.Search(n, f)\<close> of the Go library, a binary search:
  \<^verbatim>\<open>i, j := 0, n
  for i < j { h := int(uint(i+j) >> 1); if !f(h) { i = h + 1 } else { j = h } }
  return i\<close>
\<close>

function Search_loop :: "(nat \<Rightarrow> bool) \<Rightarrow> nat \<Rightarrow> nat \<Rightarrow> nat" where
  "Search_loop f i j =
     (if i < j then
        (let h = (i + j) div 2 in
         if \<not> f h then Search_loop f (h + 1) j else Search_loop f i h)
      else i)"
  by pat_completeness auto
termination
  by (relation "measure (\<lambda>(f, i, j). j - i)") auto

declare Search_loop.simps [simp del]

definition Search :: "nat \<Rightarrow> (nat \<Rightarrow> bool) \<Rightarrow> nat" where
  "Search n f = Search_loop f 0 n"

text \<open>
  \<open>swapRange(data, a, b, n)\<close> is \<open>for i := 0; i < n; i++ { data.Swap(a+i, b+i) }\<close>, and
  \<open>rotate(data, a, m, b)\<close> exchanges the blocks \<open>data[a:m]\<close> and \<open>data[m:b]\<close>:
  \<^verbatim>\<open>i := m - a; j := b - m
  for i != j {
    if i > j { swapRange(data, m-i, m, j); i -= j }
    else { swapRange(data, m-i, m+j-i, i); j -= i } }
  swapRange(data, m-i, m, i)\<close>
  \<open>symMerge\<close> calls \<open>rotate\<close> with \<open>a < m < b\<close> only, so that \<open>i\<close> and \<open>j\<close> are positive
  and stay so, and the loop ends. With \<open>i\<close> or \<open>j\<close> zero and the other not, the loop of
  the library would not end; the loop of the model stops there.
\<close>

function swapRange_loop :: "'h memoryRange list \<Rightarrow> nat \<Rightarrow> nat \<Rightarrow> nat \<Rightarrow> nat \<Rightarrow> 'h memoryRange list" where
  "swapRange_loop data a b n i =
     (if i < n then swapRange_loop (memoryRanges_Swap data (a + i) (b + i)) a b n (i + 1)
      else data)"
  by pat_completeness auto
termination
  by (relation "measure (\<lambda>(data, a, b, n, i). n - i)") auto

declare swapRange_loop.simps [simp del]

definition swapRange :: "'h memoryRange list \<Rightarrow> nat \<Rightarrow> nat \<Rightarrow> nat \<Rightarrow> 'h memoryRange list" where
  "swapRange data a b n = swapRange_loop data a b n 0"

function rotate_loop :: "'h memoryRange list \<Rightarrow> nat \<Rightarrow> nat \<Rightarrow> nat \<Rightarrow> 'h memoryRange list" where
  "rotate_loop data m i j =
     (if i \<noteq> j \<and> 0 < i \<and> 0 < j then
        (if i > j then rotate_loop (swapRange data (m - i) m j) m (i - j) j
         else rotate_loop (swapRange data (m - i) (m + j - i) i) m i (j - i))
      else swapRange data (m - i) m i)"
  by pat_completeness auto
termination
  by (relation "measure (\<lambda>(data, m, i, j). i + j)") auto

declare rotate_loop.simps [simp del]

definition rotate :: "'h memoryRange list \<Rightarrow> nat \<Rightarrow> nat \<Rightarrow> nat \<Rightarrow> 'h memoryRange list" where
  "rotate data a m b = rotate_loop data m (m - a) (b - m)"

text \<open>
  \<open>symMerge(data, a, m, b)\<close> merges the sorted blocks \<open>data[a:m]\<close> and \<open>data[m:b]\<close>. With
  one element on a side it inserts it by binary search and swaps:
  \<^verbatim>\<open>if m-a == 1 {
    i := m; j := b
    for i < j { h := int(uint(i+j) >> 1); if data.Less(h, a) { i = h + 1 } else { j = h } }
    for k := a; k < i-1; k++ { data.Swap(k, k+1) }
    return }
  if b-m == 1 {
    i := a; j := m
    for i < j { h := int(uint(i+j) >> 1); if !data.Less(m, h) { i = h + 1 } else { j = h } }
    for k := m; k > i; k-- { data.Swap(k, k-1) }
    return }\<close>
  and else it splits, rotates and merges the two halves:
  \<^verbatim>\<open>mid := int(uint(a+b) >> 1); n := mid + m
  var start, r int
  if m > mid { start = n - b; r = mid } else { start = a; r = m }
  p := n - 1
  for start < r {
    c := int(uint(start+r) >> 1)
    if !data.Less(p-c, c) { start = c + 1 } else { r = c } }
  end := n - start
  if start < m && m < end { rotate(data, start, m, end) }
  if a < start && start < mid { symMerge(data, a, start, mid) }
  if mid < end && end < b { symMerge(data, mid, end, b) }\<close>
  The three binary searches are the loop of \<open>sort.Search\<close> (\<open>Search_loop\<close>) with the
  condition of each.
\<close>

function symMerge_up :: "'h memoryRange list \<Rightarrow> nat \<Rightarrow> nat \<Rightarrow> 'h memoryRange list" where
  "symMerge_up data k i =
     (if k < i - 1 then symMerge_up (memoryRanges_Swap data k (k + 1)) (k + 1) i else data)"
  by pat_completeness auto
termination
  by (relation "measure (\<lambda>(data, k, i). i - k)") auto

declare symMerge_up.simps [simp del]

function symMerge_down :: "'h memoryRange list \<Rightarrow> nat \<Rightarrow> nat \<Rightarrow> 'h memoryRange list" where
  "symMerge_down data k i =
     (if k > i then symMerge_down (memoryRanges_Swap data k (k - 1)) (k - 1) i else data)"
  by pat_completeness auto
termination
  by (relation "measure (\<lambda>(data, k, i). k)") auto

declare symMerge_down.simps [simp del]

function symMerge :: "'h memoryRange list \<Rightarrow> nat \<Rightarrow> nat \<Rightarrow> nat \<Rightarrow> 'h memoryRange list" where
  "symMerge data a m b =
     (if m - a = 1 then
        symMerge_up data a (Search_loop (\<lambda>h. \<not> memoryRanges_Less data h a) m b)
      else if b - m = 1 then
        symMerge_down data m (Search_loop (\<lambda>h. memoryRanges_Less data m h) a m)
      else
        let mid = (a + b) div 2;
            n = mid + m;
            p = n - 1;
            start = Search_loop (\<lambda>c. memoryRanges_Less data (p - c) c)
                      (if m > mid then n - b else a) (if m > mid then mid else m);
            end' = n - start;
            data1 = (if start < m \<and> m < end' then rotate data start m end' else data);
            data2 = (if a < start \<and> start < mid then symMerge data1 a start mid else data1)
        in if mid < end' \<and> end' < b then symMerge data2 mid end' b else data2)"
  by pat_completeness auto
termination
proof (relation "measure (\<lambda>(data, a, m, b). b - a)", goal_cases)
  case 1
  show ?case by simp
next
  case prems: (2 data a m b mid n p start end' data1)
  from prems(3) prems(9) have "mid - a < b - a" by linarith
  then show ?case by simp
next
  case prems: (3 data a m b mid n p start end' data1 data2)
  from prems(3) prems(10) have "b - mid < b - a" by linarith
  then show ?case by simp
qed

declare symMerge.simps [simp del]

text \<open>
  \<open>stable(data, n)\<close>, with \<open>blockSize\<close> starting at 20:
  \<^verbatim>\<open>a, b := 0, blockSize
  for b <= n { insertionSort(data, a, b); a = b; b += blockSize }
  insertionSort(data, a, n)
  for blockSize < n {
    a, b = 0, 2*blockSize
    for b <= n { symMerge(data, a, a+blockSize, b); a = b; b += 2 * blockSize }
    if m := a + blockSize; m < n { symMerge(data, a, m, n) }
    blockSize *= 2 }\<close>
  The block size is positive (\<open>must be > 0\<close>, says the library); the loops of the model
  that step by it say so in their condition.
\<close>

function stable_blocks :: "'h memoryRange list \<Rightarrow> nat \<Rightarrow> nat \<Rightarrow> nat \<Rightarrow> nat \<Rightarrow> 'h memoryRange list" where
  "stable_blocks data a b n blockSize =
     (if b \<le> n \<and> 0 < blockSize
      then stable_blocks (insertionSort data a b) b (b + blockSize) n blockSize
      else insertionSort data a n)"
  by pat_completeness auto
termination
  by (relation "measure (\<lambda>(data, a, b, n, blockSize). n + 1 - b)") auto

declare stable_blocks.simps [simp del]

function stable_row :: "'h memoryRange list \<Rightarrow> nat \<Rightarrow> nat \<Rightarrow> nat \<Rightarrow> nat \<Rightarrow> 'h memoryRange list" where
  "stable_row data a b n blockSize =
     (if b \<le> n \<and> 0 < blockSize
      then stable_row (symMerge data a (a + blockSize) b) b (b + 2 * blockSize) n blockSize
      else let m = a + blockSize in if m < n then symMerge data a m n else data)"
  by pat_completeness auto
termination
  by (relation "measure (\<lambda>(data, a, b, n, blockSize). n + 1 - b)") auto

declare stable_row.simps [simp del]

function stable_merge :: "'h memoryRange list \<Rightarrow> nat \<Rightarrow> nat \<Rightarrow> 'h memoryRange list" where
  "stable_merge data n blockSize =
     (if blockSize < n \<and> 0 < blockSize
      then stable_merge (stable_row data 0 (2 * blockSize) n blockSize) n (blockSize * 2)
      else data)"
  by pat_completeness auto
termination
  by (relation "measure (\<lambda>(data, n, blockSize). n - blockSize)") auto

declare stable_merge.simps [simp del]

definition stable :: "'h memoryRange list \<Rightarrow> nat \<Rightarrow> 'h memoryRange list" where
  "stable data n = stable_merge (stable_blocks data 0 20 n 20) n 20"

definition memoryRanges_Sort :: "'h memoryRange list \<Rightarrow> 'h memoryRange list" where
  "memoryRanges_Sort r = stable r (length r)"

text \<open>\<open>Bank\<close> returns the range found, or nil (\<open>None\<close>).\<close>

definition memoryRanges_Bank :: "'h memoryRange list \<Rightarrow> u16 \<Rightarrow> 'h memoryRange option" where
  "memoryRanges_Bank r addr =
     (let l = length r; i = Search l (\<lambda>i. addr \<le> r_stop (r ! i)) in
      if i < l then
        (let it = r ! i in
         if addr \<ge> r_addr it \<and> addr \<le> r_stop it then Some it else None)
      else None)"

text \<open>
  \<open>Fetch\<close> and \<open>Store\<close> of the mapper call the method of the memory the range holds:
  \<open>fetch w h\<close> and \<open>store w h\<close> are the methods of the memory referenced by \<open>h\<close>, where
  \<open>w\<close> is the state of all referenced memories (for the built-ins, \<open>memory_Fetch\<close> and
  \<open>memory_Store\<close> on a heap).
\<close>

definition Mapper_Fetch :: "('w \<Rightarrow> 'h \<Rightarrow> u16 \<Rightarrow> u8 res) \<Rightarrow> 'w \<Rightarrow> 'h Mapper \<Rightarrow> u16 \<Rightarrow> u8 res" where
  "Mapper_Fetch fetch w m addr =
     (case memoryRanges_Bank (mapped m) addr of
        Some it \<Rightarrow> fetch w (r_Memory it) addr
      | None \<Rightarrow> Inr (Zero m))"

definition Mapper_Store :: "('w \<Rightarrow> 'h \<Rightarrow> u16 \<Rightarrow> u8 \<Rightarrow> 'w res) \<Rightarrow> 'w \<Rightarrow> 'h Mapper \<Rightarrow> u16 \<Rightarrow> u8 \<Rightarrow> 'w res" where
  "Mapper_Store store w m addr v =
     (case memoryRanges_Bank (mapped m) addr of
        Some it \<Rightarrow> store w (r_Memory it) addr v
      | None \<Rightarrow> Inr w)"

definition Mapper_Map :: "'h Mapper \<Rightarrow> u16 \<Rightarrow> u16 \<Rightarrow> 'h \<Rightarrow> 'h Mapper" where
  "Mapper_Map m addr stop mem =
     m\<lparr>mapped := memoryRanges_Sort (mapped m @ [\<lparr>r_Memory = mem, r_addr = addr, r_stop = stop\<rparr>])\<rparr>"

definition Mapper_Reset :: "'h Mapper \<Rightarrow> 'h Mapper" where
  "Mapper_Reset m = m\<lparr>mapped := []\<rparr>"

section \<open>Totality of the bus and well-formed states\<close>

text \<open>
  A bus is total when its methods never panic: on a set \<open>I\<close> of object states that holds
  the current one and that \<open>Store\<close> does not leave, \<open>Fetch\<close> and \<open>Store\<close> return.
  \<open>New\<close> allocates \<open>ramSize\<close> bytes of internal RAM, and no method changes the length of
  the slice or \<open>ramSize\<close>; \<open>ok_state\<close> is that invariant together with a total bus.
  \<open>succeeds P m\<close> says that \<open>m\<close> returns, with a result satisfying \<open>P\<close>.
\<close>

definition bus_total :: "('b \<Rightarrow> bool) \<Rightarrow> 'b Memory \<Rightarrow> bool" where
  "bus_total I m \<longleftrightarrow>
     I (obj m) \<and>
     (\<forall>b a. I b \<longrightarrow> (\<exists>v. Fetch_m m b a = Inr v)) \<and>
     (\<forall>b a v. I b \<longrightarrow> (\<exists>b'. Store_m m b a v = Inr b' \<and> I b'))"

definition ok_state :: "('b \<Rightarrow> bool) \<Rightarrow> 'b fast \<Rightarrow> bool" where
  "ok_state I cpu \<longleftrightarrow> bus_total I (bus cpu) \<and> ramSize cpu \<le> int (length (ram cpu))"

definition succeeds :: "('a \<Rightarrow> bool) \<Rightarrow> 'a res \<Rightarrow> bool" where
  "succeeds P m \<longleftrightarrow> (\<exists>x. m = Inr x \<and> P x)"

text \<open>
  With a monitor attached \<open>Step\<close> makes two more calls into code of the host: the
  \<open>ReadAt\<close> of a bus that is an \<open>io.ReaderAt\<close>, for the raw bytes of the instruction, and
  \<open>BeforeExecute\<close>. \<open>ReadAt_total\<close> says that the first returns, for any buffer and any
  offset from 0 on; \<open>Monitor_total\<close> that the second returns and leaves a well-formed
  CPU.
\<close>

definition ReadAt_total :: "('b \<Rightarrow> bool) \<Rightarrow> 'b Memory \<Rightarrow> bool" where
  "ReadAt_total I m \<longleftrightarrow>
     (case ReadAt_m m of
        None \<Rightarrow> True
      | Some readAt \<Rightarrow> (\<forall>b p off. I b \<and> 0 \<le> off \<longrightarrow> (\<exists>r. readAt b p off = Inr r)))"

definition Monitor_total :: "('b \<Rightarrow> bool) \<Rightarrow> 'b Monitor \<Rightarrow> bool" where
  "Monitor_total I beforeExecute \<longleftrightarrow>
     (\<forall>cpu i. ok_state I cpu \<longrightarrow>
        (\<exists>proceed cpu'. beforeExecute cpu i = Inr (proceed, cpu') \<and> ok_state I cpu'))"

section \<open>Concrete machines\<close>

text \<open>
  \<open>MOS6502_on mem r\<close> is the CPU that \<open>New(MOS6502, bus)\<close> builds on a 64 kB
  \<open>memory.RAM\<close> holding \<open>mem\<close>, after the registers have been set to \<open>r\<close> through
  \<open>Registers()\<close>. The memories below hold the programs of the scenarios.
\<close>

definition MOS6502_on :: "u8 list \<Rightarrow> Registers \<Rightarrow> u8 list fast" where
  "MOS6502_on mem r =
     \<lparr>reg = r, bus = RAM_Memory mem, ram = [], ramSize = 0, interrupt = NoInterrupt,
      cycles = 0, halted = False, addressMode = Implied, hasBCD = True, hasNMI = True,
      hasIRQ = True, hasReady = False, notReady = False\<rparr>"

text \<open>\<open>ADC #$50\<close> at 0x8000, with A = 0x50 and P = 0x34 (carry and decimal clear).\<close>

definition mem_adc :: "u8 list" where
  "mem_adc = (replicate 65536 0)[0x8000 := 0x69, 0x8001 := 0x50]"

definition cpu_adc :: "u8 list fast" where
  "cpu_adc = MOS6502_on mem_adc \<lparr>rPC = 0x8000, rS = 0xfd, rP = 0x34, rA = 0x50, rX = 0, rY = 0\<rparr>"

text \<open>
  The same machine on a RAM of package \<open>mos65xx\<close>, which has its own \<open>ReadAt\<close>; and on
  a bus with the \<open>Fetch\<close> and \<open>Store\<close> of \<open>memory.RAM\<close> that is an \<open>io.ReaderAt\<close> whose
  \<open>ReadAt\<close> panics.
\<close>

definition cpu_adc_bus :: "u8 list fast" where
  "cpu_adc_bus = cpu_adc\<lparr>bus := RAM_AddressBus mem_adc\<rparr>"

definition cpu_readat :: "u8 list fast" where
  "cpu_readat = cpu_adc\<lparr>bus := (RAM_Memory mem_adc)\<lparr>ReadAt_m := Some (\<lambda>b p off. Inl BusFault)\<rparr>\<rparr>"

text \<open>\<open>HLT\<close> (opcode 0x02) at 0x0700: scenario F of the specification.\<close>

definition mem_hlt :: "u8 list" where
  "mem_hlt = (replicate 65536 0)[0x0700 := 0x02]"

definition cpu_hlt :: "u8 list fast" where
  "cpu_hlt = MOS6502_on mem_hlt \<lparr>rPC = 0x0700, rS = 0xfd, rP = 0x34, rA = 0, rX = 0, rY = 0\<rparr>"

text \<open>
  A machine for the interrupt scenarios: \<open>NOP\<close> at 0x8000, at 0x9000 (the NMI vector's
  target) and at 0xA000 (the IRQ vector's target); PC = 0x8000, P = 0x30.
\<close>

definition mem_int :: "u8 list" where
  "mem_int = (replicate 65536 0)[0x8000 := 0xEA, 0x9000 := 0xEA, 0xA000 := 0xEA,
     0xFFFA := 0x00, 0xFFFB := 0x90, 0xFFFE := 0x00, 0xFFFF := 0xA0]"

definition cpu_int :: "u8 list fast" where
  "cpu_int = MOS6502_on mem_int \<lparr>rPC = 0x8000, rS = 0xfd, rP = 0x30, rA = 0, rX = 0, rY = 0\<rparr>"

text \<open>
  Decimal mode: \<open>ADC #$01\<close> with A = 0x99, D set and C clear; and scenario C of the
  specification, \<open>ADC #$27\<close> with A = 0x15, D and C set.
\<close>

definition mem_bcd :: "u8 list" where
  "mem_bcd = (replicate 65536 0)[0x8000 := 0x69, 0x8001 := 0x01]"

definition cpu_bcd :: "u8 list fast" where
  "cpu_bcd = MOS6502_on mem_bcd \<lparr>rPC = 0x8000, rS = 0xfd, rP = 0x3C, rA = 0x99, rX = 0, rY = 0\<rparr>"

definition mem_bcd2 :: "u8 list" where
  "mem_bcd2 = (replicate 65536 0)[0x8000 := 0x69, 0x8001 := 0x27]"

definition cpu_bcd2 :: "u8 list fast" where
  "cpu_bcd2 = MOS6502_on mem_bcd2 \<lparr>rPC = 0x8000, rS = 0xfd, rP = 0x3D, rA = 0x15, rX = 0, rY = 0\<rparr>"

text \<open>
  Scenario D of the specification: \<open>JMP ($10FF)\<close> at 0x0200, with 0x10FF = 0x00,
  0x1100 = 0x40 and 0x1000 = 0x50.
\<close>

definition mem_jmp :: "u8 list" where
  "mem_jmp = (replicate 65536 0)[0x0200 := 0x6C, 0x0201 := 0xFF, 0x0202 := 0x10,
     0x10FF := 0x00, 0x1100 := 0x40, 0x1000 := 0x50]"

definition cpu_jmp :: "u8 list fast" where
  "cpu_jmp = MOS6502_on mem_jmp \<lparr>rPC = 0x0200, rS = 0xfd, rP = 0x34, rA = 0, rX = 0, rY = 0\<rparr>"

section \<open>Sequences of stack operations\<close>

text \<open>
  The instructions and interrupt entries that use the stack. \<open>stack_step\<close> runs the
  executor of one of them, \<open>stack_run\<close> a sequence of them, and \<open>stack_delta\<close> is the
  number of bytes it pulls minus the number of bytes it pushes.
\<close>

datatype stack_user =
  Use_PHA | Use_PHP | Use_PLA | Use_PLP | Use_JSR u16 | Use_RTS | Use_BRK | Use_RTI
  | Use_NMI | Use_IRQ

fun stack_step :: "'b fast \<Rightarrow> stack_user \<Rightarrow> 'b fast res" where
  "stack_step cpu Use_PHA = fast_pha cpu 0"
| "stack_step cpu Use_PHP = fast_php cpu 0"
| "stack_step cpu Use_PLA = fast_pla cpu 0"
| "stack_step cpu Use_PLP = fast_plp cpu 0"
| "stack_step cpu (Use_JSR addr) = fast_jsr cpu addr"
| "stack_step cpu Use_RTS = fast_rts cpu 0"
| "stack_step cpu Use_BRK = fast_brk cpu 0"
| "stack_step cpu Use_RTI = fast_rti cpu 0"
| "stack_step cpu Use_NMI = fast_nmi cpu"
| "stack_step cpu Use_IRQ = fast_irq cpu"

fun stack_run :: "'b fast \<Rightarrow> stack_user list \<Rightarrow> 'b fast res" where
  "stack_run cpu [] = Inr cpu"
| "stack_run cpu (u # us) = ebind (stack_step cpu u) (\<lambda>cpu. stack_run cpu us)"

fun stack_delta :: "stack_user \<Rightarrow> int" where
  "stack_delta Use_PHA = - 1"
| "stack_delta Use_PHP = - 1"
| "stack_delta Use_PLA = 1"
| "stack_delta Use_PLP = 1"
| "stack_delta (Use_JSR addr) = - 2"
| "stack_delta Use_RTS = 2"
| "stack_delta Use_BRK = - 3"
| "stack_delta Use_RTI = 3"
| "stack_delta Use_NMI = - 3"
| "stack_delta Use_IRQ = - 3"

text \<open>A machine whose stack pointer is about to wrap: S = 0x00, A = 0x42.\<close>

definition cpu_stack :: "u8 list fast" where
  "cpu_stack = MOS6502_on (replicate 65536 0)
     \<lparr>rPC = 0x8000, rS = 0x00, rP = 0x34, rA = 0x42, rX = 0, rY = 0\<rparr>"

section \<open>Concrete mappers\<close>

text \<open>
  \<open>mapper_cn\<close> maps the container 0x0000-0x7FFF (\<open>Blank(0x2a)\<close>) first and the
  narrower 0x2000-0x3FFF (\<open>Blank(0x55)\<close>) second; \<open>mapper_nc\<close> maps them in the other
  order. \<open>mapper_ram\<close> maps an 8 kB RAM at 0x2000-0x3FFF as it is, \<open>mapper_masked\<close>
  behind \<open>Masked\<close> with mask 0x1FFF; \<open>heap_ram\<close> holds that RAM, filled with 0x55.
\<close>

definition mapper_cn :: "memory Mapper" where
  "mapper_cn = Mapper_Map (Mapper_Map NewMapper 0x0000 0x7fff (Blank 0x2a)) 0x2000 0x3fff (Blank 0x55)"

definition mapper_nc :: "memory Mapper" where
  "mapper_nc = Mapper_Map (Mapper_Map NewMapper 0x2000 0x3fff (Blank 0x55)) 0x0000 0x7fff (Blank 0x2a)"

definition mapper_ram :: "memory Mapper" where
  "mapper_ram = Mapper_Map NewMapper 0x2000 0x3fff (RAM 0)"

definition mapper_masked :: "memory Mapper" where
  "mapper_masked = Mapper_Map NewMapper 0x2000 0x3fff (Masked (RAM 0) 0x1fff)"

definition heap_ram :: heap where
  "heap_ram = (\<lambda>p. replicate 0x2000 0x55)"

section \<open>Basic facts\<close>

lemmas flag_defs = fC_def fZ_def fI_def fD_def fB_def fU_def fV_def fN_def

lemmas mode_defs = Implied_def Accumulator_def Immediate_def ZeroPage_def ZeroPageX_def
  ZeroPageY_def Relative_def Absolute_def AbsoluteX_def AbsoluteY_def Indirect_def
  IndexedIndirect_def IndirectIndexed_def

lemmas mnemonic_defs =
  ADC_def AND_op_def ASL_def BCC_def BCS_def BEQ_def BIT_def BMI_def
  BNE_def BPL_def BRK_def BVC_def BVS_def CLC_def CLD_def CLI_def
  CLV_def CMP_def CPX_def CPY_def DEC_def DEX_def DEY_def EOR_def
  INC_def INX_def INY_def JMP_def JSR_def LDA_def LDX_def LDY_def
  LSR_def NOP_def ORA_def PHA_def PHP_def PLA_def PLP_def ROL_def
  ROR_def RTI_def RTS_def SBC_def SEC_def SED_def SEI_def STA_def
  STX_def STY_def TAX_def TAY_def TSX_def TXA_def TXS_def TYA_def
  HLT_def LAX_def SAX_def DCP_def ISC_def RLA_def RRA_def SLO_def
  SRE_def ANC_def ALR_def ARR_def XAA_def AHX_def TAS_def SHX_def
  SHY_def LAS_def AXS_def

lemma ebind_Inr [simp]: "ebind (Inr x) f = f x"
  by (simp add: ebind_def)

lemma ebind_Inl [simp]: "ebind (Inl e) f = Inl e"
  by (simp add: ebind_def)

subsection \<open>Words\<close>

lemma and_exp_is_exp:
  "n < LENGTH('a) \<Longrightarrow> ((r::'a::len word) AND 2 ^ n = 2 ^ n) \<longleftrightarrow> bit r n"
proof
  assume "r AND 2 ^ n = 2 ^ n"
  then have "bit (r AND 2 ^ n) n = bit (2 ^ n :: 'a word) n" by simp
  then show "bit r n" if "n < LENGTH('a)" using that by (simp add: bit_and_iff bit_exp_iff)
next
  assume "bit r n"
  then show "r AND 2 ^ n = 2 ^ n"
    by (intro bit_word_eqI) (auto simp: bit_and_iff bit_exp_iff)
qed

lemma and_exp_not_zero: "((r::'a::len word) AND 2 ^ n \<noteq> 0) \<longleftrightarrow> bit r n"
  by (simp add: and_exp_eq_0_iff_not_bit)

lemma and80: "(r::u8) AND 0x80 = 0x80 \<longleftrightarrow> bit r 7"
  using and_exp_is_exp [of 7 r] by simp

lemma and80': "(r::u8) AND 0x80 \<noteq> 0 \<longleftrightarrow> bit r 7"
  using and_exp_not_zero [of r 7] by simp

lemma and_and80: "((x::u8) AND y AND 0x80 = 0x80) = (x AND y AND 0x80 \<noteq> 0)"
proof -
  have "x AND y AND 0x80 = (x AND y) AND 0x80" by (simp add: and.assoc)
  then show ?thesis by (simp only: and80 and80')
qed

lemma unat_u8_lt: "unat (a::u8) < 256"
  using unsigned_less [of a, where 'a = nat] by simp

lemma unat_ucast_up: "unat (ucast (a::u8) :: u16) = unat a"
proof -
  have "unat a < 2 ^ 16" using unat_u8_lt [of a] by simp
  then show ?thesis by (simp add: unsigned_ucast_eq take_bit_nat_eq_self)
qed

lemma unat_ucast_down: "unat (ucast (t::u16) :: u8) = unat t mod 256"
  by (simp add: unsigned_ucast_eq take_bit_eq_mod)

lemma ucast_down_of_nat: "(ucast (t::u16) :: u8) = of_nat (unat t)"
  by (simp add: word_unat_eq_iff unat_ucast_down unat_of_nat)

lemma unat_sum16: "unat ((ucast (a::u8) :: u16) + ucast (b::u8)) = unat a + unat b"
proof -
  have "unat a + unat b < 2 ^ 16" using unat_u8_lt [of a] unat_u8_lt [of b] by simp
  then show ?thesis by (simp add: unat_word_ariths unat_ucast_up)
qed

lemma unat_sum16_1: "unat ((ucast (a::u8) :: u16) + ucast (b::u8) + 1) = unat a + unat b + 1"
proof -
  have "unat a + unat b + 1 < 2 ^ 16" using unat_u8_lt [of a] unat_u8_lt [of b] by simp
  then show ?thesis by (simp add: unat_word_ariths unat_ucast_up)
qed

lemma u16_hi_zero: "(t :: u16) AND 0xff00 \<noteq> 0 \<longleftrightarrow> 255 < unat t"
proof -
  have e: "(0xff00 :: u16) = NOT (mask 8)" by (simp add: mask_eq_exp_minus_1)
  have "(t AND NOT (mask 8) = 0) = (t AND mask 8 = t)"
    by (auto simp: bit_eq_iff bit_simps)
  also have "\<dots> = (take_bit 8 (unat t) = unat t)"
    by (simp add: word_unat_eq_iff unsigned_take_bit_eq flip: take_bit_eq_mask)
  also have "\<dots> = (unat t < 2 ^ 8)"
    by (rule take_bit_nat_eq_self_iff)
  finally show ?thesis unfolding e by auto
qed

subsection \<open>Flags\<close>

lemma setFlag_same: "f \<noteq> 0 \<Longrightarrow> (setFlag p f b AND f = f) = b"
  by (cases b) (simp_all add: setFlag_def and.assoc)

lemma setFlag_other: "f AND g = 0 \<Longrightarrow> setFlag p f b AND g = p AND g"
proof (cases b)
  case True
  assume "f AND g = 0"
  then show ?thesis using True by (simp add: setFlag_def bit.conj_disj_distrib2)
next
  case False
  assume fg: "f AND g = 0"
  have "(p AND NOT f) AND g = p AND (g AND NOT f)"
    by (simp add: ac_simps)
  also have "g AND NOT f = g"
  proof (rule bit_word_eqI)
    fix n assume n: "n < LENGTH(8)"
    from fg have "bit (f AND g) n = bit (0::u8) n" by simp
    then have "\<not> (bit f n \<and> bit g n)" by (simp add: bit_and_iff)
    then show "bit (g AND NOT f) n = bit g n" using n by (auto simp: bit_and_iff bit_not_iff)
  qed
  finally show ?thesis using False by (simp add: setFlag_def)
qed

subsection \<open>Binary addition\<close>

lemma adc_binary:
  "adc a m c False =
     (let t = unat a + unat m + (if c then 1 else 0); r = (of_nat t :: u8)
      in (r, bit r 7, (a XOR r) AND (m XOR r) AND 0x80 \<noteq> 0, r = 0, t > 255))"
proof -
  define t16 where "t16 = (if c then (ucast a :: u16) + ucast m + 1 else ucast a + ucast m)"
  have ut: "unat t16 = unat a + unat m + (if c then 1 else 0)"
    by (simp add: t16_def unat_sum16 unat_sum16_1)
  have "adc a m c False =
      (let r = (ucast t16 :: u8) in (r, r AND 0x80 = 0x80, overflow a m r, r = 0, t16 AND 0xff00 \<noteq> 0))"
    by (simp add: adc_def Let_def t16_def)
  then show ?thesis
    by (simp add: Let_def ucast_down_of_nat ut u16_hi_zero and80 overflow_def and_and80)
qed

lemma setFlags_NVZC:
  fixes p :: u8 and n v z c :: bool
  defines "q \<equiv> setFlag (setFlag (setFlag (setFlag p fN n) fV v) fZ z) fC c"
  shows "(q AND fN = fN) = n" "(q AND fV = fV) = v" "(q AND fZ = fZ) = z" "(q AND fC = fC) = c"
    "q AND 0x3C = p AND 0x3C"
  unfolding q_def
  by (simp_all add: setFlag_same setFlag_other flag_defs)

section \<open>No executor panics on a total bus\<close>

lemma succeeds_Inr [simp]: "succeeds P (Inr x) = P x"
  by (simp add: succeeds_def)

lemma succeeds_Inl [simp]: "\<not> succeeds P (Inl e)"
  by (simp add: succeeds_def)

lemma succeeds_bind:
  assumes "succeeds Q m" and "\<And>x. Q x \<Longrightarrow> succeeds P (f x)"
  shows "succeeds P (ebind m f)"
  using assms by (auto simp: succeeds_def)

lemma succeeds_weaken:
  assumes "succeeds Q m" and "\<And>x. Q x \<Longrightarrow> P x"
  shows "succeeds P m"
  using assms by (auto simp: succeeds_def)

lemma ok_state_reg [simp]: "ok_state I (cpu\<lparr>reg := r\<rparr>) = ok_state I cpu"
  and ok_state_cycles [simp]: "ok_state I (cpu\<lparr>cycles := n\<rparr>) = ok_state I cpu"
  and ok_state_halted [simp]: "ok_state I (cpu\<lparr>halted := h\<rparr>) = ok_state I cpu"
  and ok_state_mode [simp]: "ok_state I (cpu\<lparr>addressMode := md\<rparr>) = ok_state I cpu"
  and ok_state_interrupt [simp]: "ok_state I (cpu\<lparr>interrupt := i\<rparr>) = ok_state I cpu"
  by (simp_all add: ok_state_def)

lemma Memory_Fetch_ok: "bus_total I m \<Longrightarrow> succeeds (\<lambda>v. True) (Memory_Fetch m a)"
  by (auto simp: bus_total_def Memory_Fetch_def succeeds_def)

lemma Memory_Store_ok: "bus_total I m \<Longrightarrow> succeeds (bus_total I) (Memory_Store m a v)"
proof -
  assume t: "bus_total I m"
  then obtain b' where "Store_m m (obj m) a v = Inr b'" "I b'"
    unfolding bus_total_def by blast
  with t show ?thesis
    by (simp add: Memory_Store_def bus_total_def)
qed

lemma unat_less_of_uint:
  assumes "uint (a::'a::len word) < int n"
  shows "unat a < n"
proof -
  have "int (unat a) = uint a" by (rule uint_nat [symmetric])
  with assms have "int (unat a) < int n" by (simp only:)
  then show ?thesis by (simp only: of_nat_less_iff)
qed

lemma fast_Fetch_ok: "ok_state I cpu \<Longrightarrow> succeeds (\<lambda>v. True) (fast_Fetch cpu a)"
proof -
  assume ok: "ok_state I cpu"
  show ?thesis
  proof (cases "ramSize cpu > 0 \<and> uint a < ramSize cpu")
    case True
    with ok have "uint a < int (length (ram cpu))"
      by (simp add: ok_state_def)
    then have "unat a < length (ram cpu)"
      by (rule unat_less_of_uint)
    then show ?thesis using True by (simp add: fast_Fetch_def RAM_Fetch_def)
  next
    case False
    then show ?thesis
      using ok Memory_Fetch_ok [of I "bus cpu" a] by (auto simp: fast_Fetch_def ok_state_def)
  qed
qed

lemma fast_Store_ok: "ok_state I cpu \<Longrightarrow> succeeds (ok_state I) (fast_Store cpu a v)"
proof -
  assume ok: "ok_state I cpu"
  show ?thesis
  proof (cases "ramSize cpu > 0 \<and> uint a < ramSize cpu")
    case True
    with ok have "uint a < int (length (ram cpu))"
      by (simp add: ok_state_def)
    then have "unat a < length (ram cpu)"
      by (rule unat_less_of_uint)
    then show ?thesis using True ok by (simp add: fast_Store_def RAM_Store_def ok_state_def)
  next
    case False
    have "succeeds (bus_total I) (Memory_Store (bus cpu) a v)"
      using ok by (simp add: Memory_Store_ok ok_state_def)
    then show ?thesis
      using False ok by (auto simp: fast_Store_def ok_state_def succeeds_def)
  qed
qed

lemma FetchWord_ok: "ok_state I cpu \<Longrightarrow> succeeds (\<lambda>v. True) (FetchWord (fast_Fetch cpu) a)"
  unfolding FetchWord_def
  by (intro succeeds_bind [OF fast_Fetch_ok]) simp_all

lemma fast_Push_ok: "ok_state I cpu \<Longrightarrow> succeeds (ok_state I) (fast_Push cpu v)"
  unfolding fast_Push_def
  by (intro succeeds_bind [OF fast_Store_ok]) simp_all

lemma fast_PushWord_ok: "ok_state I cpu \<Longrightarrow> succeeds (ok_state I) (fast_PushWord cpu v)"
  unfolding fast_PushWord_def
  by (intro succeeds_bind [OF fast_Push_ok] fast_Push_ok) simp_all

lemma fast_Pull_ok: "ok_state I cpu \<Longrightarrow> succeeds (\<lambda>(v, cpu'). ok_state I cpu') (fast_Pull cpu)"
  unfolding fast_Pull_def Let_def
  by (intro succeeds_bind [OF fast_Fetch_ok]) simp_all

lemma fast_PullWord_ok: "ok_state I cpu \<Longrightarrow> succeeds (\<lambda>(v, cpu'). ok_state I cpu') (fast_PullWord cpu)"
  unfolding fast_PullWord_def
  by (intro succeeds_bind [OF fast_Pull_ok]) (auto intro!: succeeds_bind [OF fast_Pull_ok])

section \<open>C6: binary ADC\<close>

text \<open>
  C6. With decimal mode off, or on a model without BCD, ADC on accumulator \<open>A\<close>, operand
  \<open>M\<close> and incoming carry \<open>C\<close> leaves \<open>R = low8(A + M + C)\<close> in the accumulator, and sets
  the carry flag to \<open>A + M + C > 0xFF\<close>, the overflow flag to
  \<open>((A ^ R) & (M ^ R) & 0x80) \<noteq> 0\<close>, the zero flag to \<open>R = 0\<close> and the negative flag to
  bit 7 of \<open>R\<close>. Nothing else of the CPU changes: the other bits of \<open>P\<close> (mask 0x3C) and
  every other field stay.
\<close>

theorem adc_binary_flags:
  fixes cpu :: "'b fast"
  assumes f: "fast_Fetch cpu addr = Inr m"
    and bin: "rP (reg cpu) AND fD \<noteq> fD \<or> \<not> hasBCD cpu"
  shows "\<exists>r p'.
     fast_adc cpu addr = Inr (cpu\<lparr>reg := (reg cpu)\<lparr>rA := r, rP := p'\<rparr>\<rparr>) \<and>
     (let a = rA (reg cpu); t = unat a + unat m + (if rP (reg cpu) AND fC = fC then 1 else 0)
      in unat r = t mod 256 \<and>
         (p' AND fC = fC) = (t > 0xFF) \<and>
         (p' AND fV = fV) = ((a XOR r) AND (m XOR r) AND 0x80 \<noteq> 0) \<and>
         (p' AND fZ = fZ) = (r = 0) \<and>
         (p' AND fN = fN) = bit r 7 \<and>
         p' AND 0x3C = rP (reg cpu) AND 0x3C)"
proof -
  define c where "c = (rP (reg cpu) AND fC = fC)"
  define t where "t = unat (rA (reg cpu)) + unat m + (if c then 1 else 0)"
  define r where "r = (of_nat t :: u8)"
  define v where "v = ((rA (reg cpu) XOR r) AND (m XOR r) AND 0x80 \<noteq> 0)"
  define p' where "p' = setFlag (setFlag (setFlag (setFlag (rP (reg cpu)) fN (bit r 7)) fV v) fZ (r = 0)) fC (255 < t)"
  have bcd: "(rP (reg cpu) AND fD = fD \<and> hasBCD cpu) = False"
    using bin by auto
  have eq: "fast_adc cpu addr = Inr (cpu\<lparr>reg := (reg cpu)\<lparr>rA := r, rP := p'\<rparr>\<rparr>)"
    by (simp add: fast_adc_def f Let_def bcd adc_binary c_def t_def r_def v_def p'_def)
  have ur: "unat r = t mod 256"
    by (simp add: r_def unat_of_nat)
  note fl = setFlags_NVZC [of "rP (reg cpu)" "bit r 7" v "r = 0" "255 < t", folded p'_def]
  show ?thesis
    apply (rule exI [of _ r], rule exI [of _ p'])
    using eq ur fl by (simp add: Let_def c_def t_def v_def)
qed

text \<open>
  Scenario B of the specification: \<open>A = 0x50\<close>, \<open>M = 0x50\<close>, \<open>C = 0\<close>, \<open>D = 0\<close> gives
  \<open>A = 0xA0\<close> with N and V set, Z and C clear (\<open>P = 0xF4\<close>).
\<close>

theorem adc_binary_flags_witness:
  "fast_adc cpu_adc 0x8001 = Inr (cpu_adc\<lparr>reg := (reg cpu_adc)\<lparr>rA := 0xA0, rP := 0xF4\<rparr>\<rparr>) \<and>
   (\<exists>r p'.
     fast_adc cpu_adc 0x8001 = Inr (cpu_adc\<lparr>reg := (reg cpu_adc)\<lparr>rA := r, rP := p'\<rparr>\<rparr>) \<and>
     (let a = rA (reg cpu_adc);
          t = unat a + unat (0x50 :: u8) + (if rP (reg cpu_adc) AND fC = fC then 1 else 0)
      in unat r = t mod 256 \<and>
         (p' AND fC = fC) = (t > 0xFF) \<and>
         (p' AND fV = fV) = ((a XOR r) AND (0x50 XOR r) AND 0x80 \<noteq> 0) \<and>
         (p' AND fZ = fZ) = (r = 0) \<and>
         (p' AND fN = fN) = bit r 7 \<and>
         p' AND 0x3C = rP (reg cpu_adc) AND 0x3C))"
proof
  show "fast_adc cpu_adc 0x8001 = Inr (cpu_adc\<lparr>reg := (reg cpu_adc)\<lparr>rA := 0xA0, rP := 0xF4\<rparr>\<rparr>)"
    by (simp add: cpu_adc_def mem_adc_def MOS6502_on_def fast_adc_def fast_Fetch_def
        Memory_Fetch_def RAM_Memory_def RAM_Fetch_def adc_def overflow_def setFlag_def
        flag_defs Let_def)
next
  have h1: "fast_Fetch cpu_adc 0x8001 = Inr 0x50"
    by (simp add: cpu_adc_def mem_adc_def MOS6502_on_def fast_Fetch_def Memory_Fetch_def
        RAM_Memory_def RAM_Fetch_def)
  have h2: "rP (reg cpu_adc) AND fD \<noteq> fD \<or> \<not> hasBCD cpu_adc"
    by (simp add: cpu_adc_def MOS6502_on_def flag_defs)
  show "\<exists>r p'.
     fast_adc cpu_adc 0x8001 = Inr (cpu_adc\<lparr>reg := (reg cpu_adc)\<lparr>rA := r, rP := p'\<rparr>\<rparr>) \<and>
     (let a = rA (reg cpu_adc);
          t = unat a + unat (0x50 :: u8) + (if rP (reg cpu_adc) AND fC = fC then 1 else 0)
      in unat r = t mod 256 \<and>
         (p' AND fC = fC) = (t > 0xFF) \<and>
         (p' AND fV = fV) = ((a XOR r) AND (0x50 XOR r) AND 0x80 \<noteq> 0) \<and>
         (p' AND fZ = fZ) = (r = 0) \<and>
         (p' AND fN = fN) = bit r 7 \<and>
         p' AND 0x3C = rP (reg cpu_adc) AND 0x3C)"
    by (rule adc_binary_flags [OF h1 h2])
qed

section \<open>The executors on a total bus\<close>

named_theorems ok_intros
named_theorems handler_ok

lemmas [ok_intros] =
  succeeds_bind [OF fast_Fetch_ok] succeeds_bind [OF fast_Store_ok]
  succeeds_bind [OF fast_Push_ok] succeeds_bind [OF fast_PushWord_ok]
  succeeds_bind [OF fast_Pull_ok] succeeds_bind [OF fast_PullWord_ok]
  succeeds_bind [OF FetchWord_ok] fast_Store_ok fast_Push_ok

lemma fast_lda_ok [handler_ok]: "ok_state I cpu \<Longrightarrow> succeeds (ok_state I) (fast_lda cpu addr)"
  unfolding fast_lda_def Let_def
  by (auto simp: case_prod_beta intro!: ok_intros)

lemma fast_ldx_ok [handler_ok]: "ok_state I cpu \<Longrightarrow> succeeds (ok_state I) (fast_ldx cpu addr)"
  unfolding fast_ldx_def Let_def
  by (auto simp: case_prod_beta intro!: ok_intros)

lemma fast_ldy_ok [handler_ok]: "ok_state I cpu \<Longrightarrow> succeeds (ok_state I) (fast_ldy cpu addr)"
  unfolding fast_ldy_def Let_def
  by (auto simp: case_prod_beta intro!: ok_intros)

lemma fast_sta_ok [handler_ok]: "ok_state I cpu \<Longrightarrow> succeeds (ok_state I) (fast_sta cpu addr)"
  unfolding fast_sta_def Let_def
  by (auto simp: case_prod_beta intro!: ok_intros)

lemma fast_stx_ok [handler_ok]: "ok_state I cpu \<Longrightarrow> succeeds (ok_state I) (fast_stx cpu addr)"
  unfolding fast_stx_def Let_def
  by (auto simp: case_prod_beta intro!: ok_intros)

lemma fast_sty_ok [handler_ok]: "ok_state I cpu \<Longrightarrow> succeeds (ok_state I) (fast_sty cpu addr)"
  unfolding fast_sty_def Let_def
  by (auto simp: case_prod_beta intro!: ok_intros)

lemma fast_tax_ok [handler_ok]: "ok_state I cpu \<Longrightarrow> succeeds (ok_state I) (fast_tax cpu addr)"
  unfolding fast_tax_def Let_def
  by (auto simp: case_prod_beta intro!: ok_intros)

lemma fast_tay_ok [handler_ok]: "ok_state I cpu \<Longrightarrow> succeeds (ok_state I) (fast_tay cpu addr)"
  unfolding fast_tay_def Let_def
  by (auto simp: case_prod_beta intro!: ok_intros)

lemma fast_tsx_ok [handler_ok]: "ok_state I cpu \<Longrightarrow> succeeds (ok_state I) (fast_tsx cpu addr)"
  unfolding fast_tsx_def Let_def
  by (auto simp: case_prod_beta intro!: ok_intros)

lemma fast_txa_ok [handler_ok]: "ok_state I cpu \<Longrightarrow> succeeds (ok_state I) (fast_txa cpu addr)"
  unfolding fast_txa_def Let_def
  by (auto simp: case_prod_beta intro!: ok_intros)

lemma fast_txs_ok [handler_ok]: "ok_state I cpu \<Longrightarrow> succeeds (ok_state I) (fast_txs cpu addr)"
  unfolding fast_txs_def Let_def
  by (auto simp: case_prod_beta intro!: ok_intros)

lemma fast_tya_ok [handler_ok]: "ok_state I cpu \<Longrightarrow> succeeds (ok_state I) (fast_tya cpu addr)"
  unfolding fast_tya_def Let_def
  by (auto simp: case_prod_beta intro!: ok_intros)

lemma fast_dec_ok [handler_ok]: "ok_state I cpu \<Longrightarrow> succeeds (ok_state I) (fast_dec cpu addr)"
  unfolding fast_dec_def Let_def
  by (auto simp: case_prod_beta intro!: ok_intros)

lemma fast_dex_ok [handler_ok]: "ok_state I cpu \<Longrightarrow> succeeds (ok_state I) (fast_dex cpu addr)"
  unfolding fast_dex_def Let_def
  by (auto simp: case_prod_beta intro!: ok_intros)

lemma fast_dey_ok [handler_ok]: "ok_state I cpu \<Longrightarrow> succeeds (ok_state I) (fast_dey cpu addr)"
  unfolding fast_dey_def Let_def
  by (auto simp: case_prod_beta intro!: ok_intros)

lemma fast_inc_ok [handler_ok]: "ok_state I cpu \<Longrightarrow> succeeds (ok_state I) (fast_inc cpu addr)"
  unfolding fast_inc_def Let_def
  by (auto simp: case_prod_beta intro!: ok_intros)

lemma fast_inx_ok [handler_ok]: "ok_state I cpu \<Longrightarrow> succeeds (ok_state I) (fast_inx cpu addr)"
  unfolding fast_inx_def Let_def
  by (auto simp: case_prod_beta intro!: ok_intros)

lemma fast_iny_ok [handler_ok]: "ok_state I cpu \<Longrightarrow> succeeds (ok_state I) (fast_iny cpu addr)"
  unfolding fast_iny_def Let_def
  by (auto simp: case_prod_beta intro!: ok_intros)

lemma fast_cmp_ok [handler_ok]: "ok_state I cpu \<Longrightarrow> succeeds (ok_state I) (fast_cmp cpu addr)"
  unfolding fast_cmp_def Let_def
  by (auto simp: case_prod_beta intro!: ok_intros)

lemma fast_cpx_ok [handler_ok]: "ok_state I cpu \<Longrightarrow> succeeds (ok_state I) (fast_cpx cpu addr)"
  unfolding fast_cpx_def Let_def
  by (auto simp: case_prod_beta intro!: ok_intros)

lemma fast_cpy_ok [handler_ok]: "ok_state I cpu \<Longrightarrow> succeeds (ok_state I) (fast_cpy cpu addr)"
  unfolding fast_cpy_def Let_def
  by (auto simp: case_prod_beta intro!: ok_intros)

lemma fast_clc_ok [handler_ok]: "ok_state I cpu \<Longrightarrow> succeeds (ok_state I) (fast_clc cpu addr)"
  unfolding fast_clc_def Let_def
  by (auto simp: case_prod_beta intro!: ok_intros)

lemma fast_cld_ok [handler_ok]: "ok_state I cpu \<Longrightarrow> succeeds (ok_state I) (fast_cld cpu addr)"
  unfolding fast_cld_def Let_def
  by (auto simp: case_prod_beta intro!: ok_intros)

lemma fast_cli_ok [handler_ok]: "ok_state I cpu \<Longrightarrow> succeeds (ok_state I) (fast_cli cpu addr)"
  unfolding fast_cli_def Let_def
  by (auto simp: case_prod_beta intro!: ok_intros)

lemma fast_clv_ok [handler_ok]: "ok_state I cpu \<Longrightarrow> succeeds (ok_state I) (fast_clv cpu addr)"
  unfolding fast_clv_def Let_def
  by (auto simp: case_prod_beta intro!: ok_intros)

lemma fast_sec_ok [handler_ok]: "ok_state I cpu \<Longrightarrow> succeeds (ok_state I) (fast_sec cpu addr)"
  unfolding fast_sec_def Let_def
  by (auto simp: case_prod_beta intro!: ok_intros)

lemma fast_sed_ok [handler_ok]: "ok_state I cpu \<Longrightarrow> succeeds (ok_state I) (fast_sed cpu addr)"
  unfolding fast_sed_def Let_def
  by (auto simp: case_prod_beta intro!: ok_intros)

lemma fast_sei_ok [handler_ok]: "ok_state I cpu \<Longrightarrow> succeeds (ok_state I) (fast_sei cpu addr)"
  unfolding fast_sei_def Let_def
  by (auto simp: case_prod_beta intro!: ok_intros)

lemma fast_and_ok [handler_ok]: "ok_state I cpu \<Longrightarrow> succeeds (ok_state I) (fast_and cpu addr)"
  unfolding fast_and_def Let_def
  by (auto simp: case_prod_beta intro!: ok_intros)

lemma fast_eor_ok [handler_ok]: "ok_state I cpu \<Longrightarrow> succeeds (ok_state I) (fast_eor cpu addr)"
  unfolding fast_eor_def Let_def
  by (auto simp: case_prod_beta intro!: ok_intros)

lemma fast_ora_ok [handler_ok]: "ok_state I cpu \<Longrightarrow> succeeds (ok_state I) (fast_ora cpu addr)"
  unfolding fast_ora_def Let_def
  by (auto simp: case_prod_beta intro!: ok_intros)

lemma fast_bit_ok [handler_ok]: "ok_state I cpu \<Longrightarrow> succeeds (ok_state I) (fast_bit cpu addr)"
  unfolding fast_bit_def Let_def
  by (auto simp: case_prod_beta intro!: ok_intros)

lemma fast_asl_ok [handler_ok]: "ok_state I cpu \<Longrightarrow> succeeds (ok_state I) (fast_asl cpu addr)"
  unfolding fast_asl_def Let_def
  by (auto simp: case_prod_beta intro!: ok_intros)

lemma fast_lsr_ok [handler_ok]: "ok_state I cpu \<Longrightarrow> succeeds (ok_state I) (fast_lsr cpu addr)"
  unfolding fast_lsr_def Let_def
  by (auto simp: case_prod_beta intro!: ok_intros)

lemma fast_rol_ok [handler_ok]: "ok_state I cpu \<Longrightarrow> succeeds (ok_state I) (fast_rol cpu addr)"
  unfolding fast_rol_def Let_def
  by (auto simp: case_prod_beta intro!: ok_intros)

lemma fast_ror_ok [handler_ok]: "ok_state I cpu \<Longrightarrow> succeeds (ok_state I) (fast_ror cpu addr)"
  unfolding fast_ror_def Let_def
  by (auto simp: case_prod_beta intro!: ok_intros)

lemma fast_adc_ok [handler_ok]: "ok_state I cpu \<Longrightarrow> succeeds (ok_state I) (fast_adc cpu addr)"
  unfolding fast_adc_def Let_def
  by (auto simp: case_prod_beta intro!: ok_intros)

lemma fast_sbc_ok [handler_ok]: "ok_state I cpu \<Longrightarrow> succeeds (ok_state I) (fast_sbc cpu addr)"
  unfolding fast_sbc_def Let_def
  by (auto simp: case_prod_beta intro!: ok_intros)

lemma fast_bcc_ok [handler_ok]: "ok_state I cpu \<Longrightarrow> succeeds (ok_state I) (fast_bcc cpu addr)"
  unfolding fast_bcc_def fast_branch_def Let_def
  by (auto simp: case_prod_beta intro!: ok_intros)

lemma fast_bcs_ok [handler_ok]: "ok_state I cpu \<Longrightarrow> succeeds (ok_state I) (fast_bcs cpu addr)"
  unfolding fast_bcs_def fast_branch_def Let_def
  by (auto simp: case_prod_beta intro!: ok_intros)

lemma fast_bne_ok [handler_ok]: "ok_state I cpu \<Longrightarrow> succeeds (ok_state I) (fast_bne cpu addr)"
  unfolding fast_bne_def fast_branch_def Let_def
  by (auto simp: case_prod_beta intro!: ok_intros)

lemma fast_beq_ok [handler_ok]: "ok_state I cpu \<Longrightarrow> succeeds (ok_state I) (fast_beq cpu addr)"
  unfolding fast_beq_def fast_branch_def Let_def
  by (auto simp: case_prod_beta intro!: ok_intros)

lemma fast_bpl_ok [handler_ok]: "ok_state I cpu \<Longrightarrow> succeeds (ok_state I) (fast_bpl cpu addr)"
  unfolding fast_bpl_def fast_branch_def Let_def
  by (auto simp: case_prod_beta intro!: ok_intros)

lemma fast_bmi_ok [handler_ok]: "ok_state I cpu \<Longrightarrow> succeeds (ok_state I) (fast_bmi cpu addr)"
  unfolding fast_bmi_def fast_branch_def Let_def
  by (auto simp: case_prod_beta intro!: ok_intros)

lemma fast_bvc_ok [handler_ok]: "ok_state I cpu \<Longrightarrow> succeeds (ok_state I) (fast_bvc cpu addr)"
  unfolding fast_bvc_def fast_branch_def Let_def
  by (auto simp: case_prod_beta intro!: ok_intros)

lemma fast_bvs_ok [handler_ok]: "ok_state I cpu \<Longrightarrow> succeeds (ok_state I) (fast_bvs cpu addr)"
  unfolding fast_bvs_def fast_branch_def Let_def
  by (auto simp: case_prod_beta intro!: ok_intros)

lemma fast_jmp_ok [handler_ok]: "ok_state I cpu \<Longrightarrow> succeeds (ok_state I) (fast_jmp cpu addr)"
  unfolding fast_jmp_def Let_def
  by (auto simp: case_prod_beta intro!: ok_intros)

lemma fast_jsr_ok [handler_ok]: "ok_state I cpu \<Longrightarrow> succeeds (ok_state I) (fast_jsr cpu addr)"
  unfolding fast_jsr_def Let_def
  by (auto simp: case_prod_beta intro!: ok_intros)

lemma fast_rti_ok [handler_ok]: "ok_state I cpu \<Longrightarrow> succeeds (ok_state I) (fast_rti cpu addr)"
  unfolding fast_rti_def Let_def
  by (auto simp: case_prod_beta intro!: ok_intros)

lemma fast_rts_ok [handler_ok]: "ok_state I cpu \<Longrightarrow> succeeds (ok_state I) (fast_rts cpu addr)"
  unfolding fast_rts_def Let_def
  by (auto simp: case_prod_beta intro!: ok_intros)

lemma fast_brk_ok [handler_ok]: "ok_state I cpu \<Longrightarrow> succeeds (ok_state I) (fast_brk cpu addr)"
  unfolding fast_brk_def Let_def
  by (auto simp: case_prod_beta intro!: ok_intros)

lemma fast_pha_ok [handler_ok]: "ok_state I cpu \<Longrightarrow> succeeds (ok_state I) (fast_pha cpu addr)"
  unfolding fast_pha_def Let_def
  by (auto simp: case_prod_beta intro!: ok_intros)

lemma fast_php_ok [handler_ok]: "ok_state I cpu \<Longrightarrow> succeeds (ok_state I) (fast_php cpu addr)"
  unfolding fast_php_def Let_def
  by (auto simp: case_prod_beta intro!: ok_intros)

lemma fast_pla_ok [handler_ok]: "ok_state I cpu \<Longrightarrow> succeeds (ok_state I) (fast_pla cpu addr)"
  unfolding fast_pla_def Let_def
  by (auto simp: case_prod_beta intro!: ok_intros)

lemma fast_plp_ok [handler_ok]: "ok_state I cpu \<Longrightarrow> succeeds (ok_state I) (fast_plp cpu addr)"
  unfolding fast_plp_def Let_def
  by (auto simp: case_prod_beta intro!: ok_intros)

lemma fast_nop_ok [handler_ok]: "ok_state I cpu \<Longrightarrow> succeeds (ok_state I) (fast_nop cpu addr)"
  unfolding fast_nop_def Let_def
  by (auto simp: case_prod_beta intro!: ok_intros)

lemma fast_hlt_ok [handler_ok]: "ok_state I cpu \<Longrightarrow> succeeds (ok_state I) (fast_hlt cpu addr)"
  unfolding fast_hlt_def Let_def
  by (auto simp: case_prod_beta intro!: ok_intros)

lemma fast_anc_ok [handler_ok]: "ok_state I cpu \<Longrightarrow> succeeds (ok_state I) (fast_anc cpu addr)"
  unfolding fast_anc_def Let_def
  by (auto simp: case_prod_beta intro!: ok_intros)

lemma fast_axs_ok [handler_ok]: "ok_state I cpu \<Longrightarrow> succeeds (ok_state I) (fast_axs cpu addr)"
  unfolding fast_axs_def Let_def
  by (auto simp: case_prod_beta intro!: ok_intros)

lemma fast_lax_ok [handler_ok]: "ok_state I cpu \<Longrightarrow> succeeds (ok_state I) (fast_lax cpu addr)"
  unfolding fast_lax_def Let_def
  by (auto simp: case_prod_beta intro!: ok_intros)

lemma fast_las_ok [handler_ok]: "ok_state I cpu \<Longrightarrow> succeeds (ok_state I) (fast_las cpu addr)"
  unfolding fast_las_def Let_def
  by (auto simp: case_prod_beta intro!: ok_intros)

lemma fast_sax_ok [handler_ok]: "ok_state I cpu \<Longrightarrow> succeeds (ok_state I) (fast_sax cpu addr)"
  unfolding fast_sax_def Let_def
  by (auto simp: case_prod_beta intro!: ok_intros)

lemma fast_ahx_ok [handler_ok]: "ok_state I cpu \<Longrightarrow> succeeds (ok_state I) (fast_ahx cpu addr)"
  unfolding fast_ahx_def Let_def
  by (auto simp: case_prod_beta intro!: ok_intros)

lemma fast_shx_ok [handler_ok]: "ok_state I cpu \<Longrightarrow> succeeds (ok_state I) (fast_shx cpu addr)"
  unfolding fast_shx_def Let_def
  by (auto simp: case_prod_beta intro!: ok_intros)

lemma fast_shy_ok [handler_ok]: "ok_state I cpu \<Longrightarrow> succeeds (ok_state I) (fast_shy cpu addr)"
  unfolding fast_shy_def Let_def
  by (auto simp: case_prod_beta intro!: ok_intros)

lemma fast_tas_ok [handler_ok]: "ok_state I cpu \<Longrightarrow> succeeds (ok_state I) (fast_tas cpu addr)"
  unfolding fast_tas_def Let_def
  by (auto simp: case_prod_beta intro!: ok_intros)

lemma fast_xaa_ok [handler_ok]: "ok_state I cpu \<Longrightarrow> succeeds (ok_state I) (fast_xaa cpu addr)"
  unfolding fast_xaa_def Let_def
  by (auto simp: case_prod_beta intro!: ok_intros)

lemma fast_alr_ok [handler_ok]: "ok_state I cpu \<Longrightarrow> succeeds (ok_state I) (fast_alr cpu addr)"
  unfolding fast_alr_def Let_def
  by (auto simp: case_prod_beta intro!: succeeds_bind [OF fast_and_ok] fast_lsr_ok)

lemma fast_arr_ok [handler_ok]: "ok_state I cpu \<Longrightarrow> succeeds (ok_state I) (fast_arr cpu addr)"
  unfolding fast_arr_def Let_def
  by (auto simp: case_prod_beta intro!: succeeds_bind [OF fast_and_ok] succeeds_bind [OF fast_ror_ok])

lemma fast_dcp_ok [handler_ok]: "ok_state I cpu \<Longrightarrow> succeeds (ok_state I) (fast_dcp cpu addr)"
  unfolding fast_dcp_def Let_def
  by (auto simp: case_prod_beta intro!: succeeds_bind [OF fast_dec_ok] fast_cmp_ok)

lemma fast_isc_ok [handler_ok]: "ok_state I cpu \<Longrightarrow> succeeds (ok_state I) (fast_isc cpu addr)"
  unfolding fast_isc_def Let_def
  by (auto simp: case_prod_beta intro!: succeeds_bind [OF fast_inc_ok] fast_sbc_ok)

lemma fast_rla_ok [handler_ok]: "ok_state I cpu \<Longrightarrow> succeeds (ok_state I) (fast_rla cpu addr)"
  unfolding fast_rla_def Let_def
  by (auto simp: case_prod_beta intro!: succeeds_bind [OF fast_rol_ok] fast_and_ok)

lemma fast_slo_ok [handler_ok]: "ok_state I cpu \<Longrightarrow> succeeds (ok_state I) (fast_slo cpu addr)"
  unfolding fast_slo_def Let_def
  by (auto simp: case_prod_beta intro!: succeeds_bind [OF fast_asl_ok] fast_ora_ok)

lemma fast_sre_ok [handler_ok]: "ok_state I cpu \<Longrightarrow> succeeds (ok_state I) (fast_sre cpu addr)"
  unfolding fast_sre_def Let_def
  by (auto simp: case_prod_beta intro!: succeeds_bind [OF fast_lsr_ok] fast_eor_ok)

lemma fast_rra_ok [handler_ok]: "ok_state I cpu \<Longrightarrow> succeeds (ok_state I) (fast_rra cpu addr)"
  unfolding fast_rra_def Let_def
  by (auto simp: case_prod_beta intro!: succeeds_bind [OF fast_ror_ok] fast_adc_ok)


lemma fast_nmi_ok: "ok_state I cpu \<Longrightarrow> succeeds (ok_state I) (fast_nmi cpu)"
  unfolding fast_nmi_def Let_def
  by (auto simp: case_prod_beta intro!: ok_intros)

lemma fast_irq_ok: "ok_state I cpu \<Longrightarrow> succeeds (ok_state I) (fast_irq cpu)"
  unfolding fast_irq_def Let_def
  by (auto simp: case_prod_beta intro!: ok_intros)

lemma fast_handleInterrupts_ok:
  "ok_state I cpu \<Longrightarrow> succeeds (ok_state I) (fast_handleInterrupts cpu)"
  unfolding fast_handleInterrupts_def
  by (cases "interrupt cpu")
     (auto intro!: succeeds_bind [OF fast_nmi_ok] succeeds_bind [OF fast_irq_ok])

lemma mode_cases:
  assumes "(m::u8) \<le> 12"
  shows "m \<in> {0, 1, 2, 3, 4, 5, 6, 7, 8, 9, 10, 11, 12}"
proof -
  from assms have "unat m \<le> 12" by (simp add: word_le_nat_alt)
  then have "unat m \<in> {0, 1, 2, 3, 4, 5, 6, 7, 8, 9, 10, 11, 12}" by simp arith
  then show ?thesis by (auto simp: word_unat_eq_iff)
qed

lemma fast_resolveAddr_ok:
  assumes ok: "ok_state I cpu" and le: "addressMode cpu \<le> IndirectIndexed"
  shows "succeeds (\<lambda>r. True) (fast_resolveAddr cpu)"
proof -
  from le have "addressMode cpu \<in> {0, 1, 2, 3, 4, 5, 6, 7, 8, 9, 10, 11, 12}"
    by (intro mode_cases) (simp add: IndirectIndexed_def)
  then show ?thesis
    using ok
    by (elim insertE emptyE)
       (auto simp: fast_resolveAddr_def mode_defs Let_def intro!: ok_intros)
qed

lemma fast_ops_ok:
  "list_all (\<lambda>h. \<forall>cpu addr. ok_state I cpu \<longrightarrow> succeeds (ok_state I) (h cpu addr)) fast_ops"
  by (simp add: fast_ops_def handler_ok)

lemma fast_dispatch_ok:
  assumes "unat m < mnemonics" and "ok_state I cpu"
  shows "succeeds (ok_state I) (fast_dispatch m cpu addr)"
proof -
  have "length (fast_ops :: ('a fast \<Rightarrow> u16 \<Rightarrow> 'a fast res) list) = mnemonics"
    by (simp add: fast_ops_def mnemonics_def)
  with assms fast_ops_ok [of I] show ?thesis
    by (simp add: fast_dispatch_def list_all_length)
qed

subsection \<open>The opcode table\<close>

lemma length_opcodes_table: "length opcodes_table = 256"
  by (simp add: opcodes_table_def)

lemma opcodes_table_ok:
  "list_all (\<lambda>x. Mode x \<le> IndirectIndexed \<and> unat (Mnemonic x) < mnemonics \<and>
                 1 \<le> Size x \<and> Size x \<le> 3) opcodes_table"
  by (simp add: opcodes_table_def op_def mode_defs mnemonic_defs mnemonics_def)

lemma opcodes_ok:
  "Mode (opcodes b) \<le> IndirectIndexed \<and> unat (Mnemonic (opcodes b)) < mnemonics \<and>
   1 \<le> Size (opcodes b) \<and> Size (opcodes b) \<le> 3"
proof -
  have "unat b < length opcodes_table"
    using unat_u8_lt [of b] by (simp add: length_opcodes_table)
  with opcodes_table_ok show ?thesis
    unfolding opcodes_def list_all_length by blast
qed

lemma fast_nextOpcode_ok: "ok_state I cpu \<Longrightarrow> succeeds (\<lambda>x. \<exists>b. x = opcodes b) (fast_nextOpcode cpu)"
  unfolding fast_nextOpcode_def
  by (auto intro!: ok_intros)

subsection \<open>Reading the raw bytes for the monitor\<close>

lemma ReaderAt_loop_ok:
  "(\<And>a. succeeds (\<lambda>v. True) (fetch a)) \<Longrightarrow> 0 \<le> addr \<Longrightarrow> sz \<le> int (length p) \<Longrightarrow>
   succeeds (\<lambda>q. True) (ReaderAt_loop fetch p off addr sz)"
proof (induction fetch p off addr sz rule: ReaderAt_loop.induct)
  case (1 fetch p off addr sz)
  show ?case
  proof (cases "addr < sz")
    case False
    then show ?thesis by (simp add: ReaderAt_loop.simps [of fetch p off addr sz])
  next
    case True
    from "1.prems"(1) obtain v where v: "fetch (word_of_int (addr + off)) = Inr v"
      unfolding succeeds_def by blast
    from True "1.prems" have inb: "0 \<le> addr \<and> nat addr < length p" by linarith
    have "succeeds (\<lambda>q. True) (ReaderAt_loop fetch (p[nat addr := v]) off (addr + 1) sz)"
      using "1.IH" [OF True inb] "1.prems" by simp
    then show ?thesis
      using True inb v by (simp add: ReaderAt_loop.simps [of fetch p off addr sz])
  qed
qed

lemma ReaderAt_ReadAt_ok:
  assumes "\<And>a. succeeds (\<lambda>v. True) (fetch a)" and "0 \<le> off"
  shows "succeeds (\<lambda>r. True) (ReaderAt_ReadAt fetch p off)"
proof (cases "off > 0xffff")
  case True
  then show ?thesis by (simp add: ReaderAt_ReadAt_def)
next
  case False
  show ?thesis
  proof (cases "off + int (length p) > 0xffff")
    case True
    have "succeeds (\<lambda>q. True) (ReaderAt_loop fetch p off 0 (0xffff - off))"
      using True by (intro ReaderAt_loop_ok assms) simp_all
    then show ?thesis
      using True \<open>\<not> off > 0xffff\<close>
      by (auto simp: ReaderAt_ReadAt_def Let_def intro!: succeeds_bind)
  next
    case False
    have "succeeds (\<lambda>q. True) (ReaderAt_loop fetch p off 0 (int (length p)))"
      by (intro ReaderAt_loop_ok assms) simp_all
    then show ?thesis
      using False \<open>\<not> off > 0xffff\<close>
      by (auto simp: ReaderAt_ReadAt_def Let_def intro!: succeeds_bind)
  qed
qed

lemma ReadAt_total_None: "ReadAt_m m = None \<Longrightarrow> ReadAt_total I m"
  by (simp add: ReadAt_total_def)

lemma ReadAt_total_obj: "ReadAt_total I (m\<lparr>obj := b\<rparr>) = ReadAt_total I m"
  by (simp add: ReadAt_total_def)

lemma fast_ReadAt_ok:
  assumes ok: "ok_state I cpu" and rt: "ReadAt_total I (bus cpu)"
  shows "succeeds (\<lambda>r. True) (fast_ReadAt cpu p offs)"
proof (cases "offs < 0 \<or> offs > 0xffff")
  case True
  then show ?thesis by (auto simp: fast_ReadAt_def)
next
  case False
  define r where "r = (case ReadAt_m (bus cpu) of
                     Some readAt \<Rightarrow> (\<lambda>q off.
                       ebind (readAt (obj (bus cpu)) q off) (\<lambda>(q', m, err).
                         Inr (slice_after q q', m, err)))
                   | None \<Rightarrow> ReaderAt_ReadAt (Memory_Fetch (bus cpu)))"
  have bus: "\<And>a. succeeds (\<lambda>v. True) (Memory_Fetch (bus cpu) a)"
    using ok by (auto simp: ok_state_def intro: Memory_Fetch_ok)
  have inv: "I (obj (bus cpu))"
    using ok by (simp add: ok_state_def bus_total_def)
  have rd: "succeeds (\<lambda>r. True) (r q k)" if "0 \<le> k" for q k
  proof (cases "ReadAt_m (bus cpu)")
    case None
    then show ?thesis
      using that by (simp add: r_def ReaderAt_ReadAt_ok bus)
  next
    case (Some readAt)
    with rt inv that obtain x where "readAt (obj (bus cpu)) q k = Inr x"
      unfolding ReadAt_total_def by fastforce
    with Some show ?thesis
      by (simp add: r_def case_prod_beta)
  qed
  show ?thesis
  proof (cases "ramSize cpu > 0 \<and> offs < ramSize cpu")
    case True
    with ok False have "nat offs \<le> length (ram cpu)"
      unfolding ok_state_def by linarith
    with True False show ?thesis
      unfolding fast_ReadAt_def r_def [symmetric]
      by (auto simp: Let_def case_prod_beta intro!: succeeds_bind [OF rd])
  next
    case no_ram: False
    then show ?thesis
      using False
      unfolding fast_ReadAt_def r_def [symmetric]
      by (auto simp: Let_def case_prod_beta intro!: succeeds_bind [OF rd])
  qed
qed

text \<open>No method of the CPU replaces the bus: its \<open>ReadAt\<close> stays what it was.\<close>

lemma fast_Store_ReadAt: "fast_Store cpu a v = Inr cpu' \<Longrightarrow> ReadAt_m (bus cpu') = ReadAt_m (bus cpu)"
  by (auto simp: fast_Store_def Memory_Store_def ebind_def split: if_splits sum.splits)

lemma fast_Push_ReadAt: "fast_Push cpu v = Inr cpu' \<Longrightarrow> ReadAt_m (bus cpu') = ReadAt_m (bus cpu)"
  by (auto simp: fast_Push_def ebind_def split: sum.splits dest: fast_Store_ReadAt)

lemma fast_PushWord_ReadAt: "fast_PushWord cpu v = Inr cpu' \<Longrightarrow> ReadAt_m (bus cpu') = ReadAt_m (bus cpu)"
  by (auto simp: fast_PushWord_def ebind_def split: sum.splits dest!: fast_Push_ReadAt)

lemma fast_nmi_ReadAt: "fast_nmi cpu = Inr cpu' \<Longrightarrow> ReadAt_m (bus cpu') = ReadAt_m (bus cpu)"
  by (auto simp: fast_nmi_def ebind_def Let_def split: sum.splits
      dest!: fast_Push_ReadAt fast_PushWord_ReadAt)

lemma fast_irq_ReadAt: "fast_irq cpu = Inr cpu' \<Longrightarrow> ReadAt_m (bus cpu') = ReadAt_m (bus cpu)"
  by (auto simp: fast_irq_def ebind_def Let_def split: sum.splits
      dest!: fast_Push_ReadAt fast_PushWord_ReadAt)

lemma fast_handleInterrupts_ReadAt:
  "fast_handleInterrupts cpu = Inr cpu' \<Longrightarrow> ReadAt_m (bus cpu') = ReadAt_m (bus cpu)"
  by (auto simp: fast_handleInterrupts_def ebind_def split: sum.splits Interrupt.splits
      dest: fast_nmi_ReadAt fast_irq_ReadAt)

lemma fast_handleInterrupts_ReadAt_total:
  "fast_handleInterrupts cpu = Inr cpu' \<Longrightarrow> ReadAt_total I (bus cpu') = ReadAt_total I (bus cpu)"
  by (simp add: ReadAt_total_def fast_handleInterrupts_ReadAt)

lemma RAM_Memory_total:
  assumes "length mem = 65536"
  shows "bus_total (\<lambda>b. length b = 65536) (RAM_Memory mem)"
proof -
  have "unat a < 65536" for a :: u16
    using unsigned_less [of a, where 'a = nat] by simp
  with assms show ?thesis
    by (simp add: bus_total_def RAM_Memory_def RAM_Fetch_def RAM_Store_def)
qed

lemma RAM_AddressBus_total:
  assumes "length mem = 65536"
  shows "bus_total (\<lambda>b. length b = 65536) (RAM_AddressBus mem)"
    and "ReadAt_total (\<lambda>b. length b = 65536) (RAM_AddressBus mem)"
proof -
  have "unat a < 65536" for a :: u16
    using unsigned_less [of a, where 'a = nat] by simp
  with assms show "bus_total (\<lambda>b. length b = 65536) (RAM_AddressBus mem)"
    by (simp add: bus_total_def RAM_AddressBus_def RAM_Fetch_def RAM_Store_def)
  show "ReadAt_total (\<lambda>b. length b = 65536) (RAM_AddressBus mem)"
    by (simp add: ReadAt_total_def RAM_AddressBus_def RAM_ReadAt_def Let_def)
qed

lemma Monitor_total_reads:
  "Monitor_total I (\<lambda>cpu i. Inr (answer cpu i, cpu))"
  by (simp add: Monitor_total_def)

section \<open>C9: Step does not panic\<close>

text \<open>
  C9, as the code has it. With no monitor attached, \<open>Step\<close> returns for every machine
  state on a bus whose \<open>Fetch\<close> and \<open>Store\<close> are total, with the internal RAM as \<open>New\<close>
  allocates it. With a monitor attached, \<open>Step\<close> also calls the \<open>ReadAt\<close> of a bus that
  is an \<open>io.ReaderAt\<close> and the monitor's \<open>BeforeExecute\<close>, and returns when these two
  return as well. It leaves the bus total and the internal RAM as long as it was. The
  \<open>default\<close> branch of \<open>resolveAddr\<close> is never taken, because each of the 256 entries of
  the opcode table has one of the thirteen addressing modes \<open>Implied\<close> ..
  \<open>IndirectIndexed\<close>; each entry also has a mnemonic inside \<open>ops\<close>.
\<close>

theorem Step_never_fails:
  assumes tot: "bus_total I (bus cpu)" and ram: "ramSize cpu \<le> int (length (ram cpu))"
    and mon: "\<And>beforeExecute. monitor = Some beforeExecute \<Longrightarrow>
                ReadAt_total I (bus cpu) \<and> Monitor_total I beforeExecute"
  shows "(\<forall>b. Mode (opcodes b) \<le> IndirectIndexed \<and> unat (Mnemonic (opcodes b)) < mnemonics) \<and>
         (\<exists>cpu' n. fast_Step monitor cpu = Inr (cpu', n) \<and>
            bus_total I (bus cpu') \<and> ramSize cpu' \<le> int (length (ram cpu')))"
proof
  show "\<forall>b. Mode (opcodes b) \<le> IndirectIndexed \<and> unat (Mnemonic (opcodes b)) < mnemonics"
    using opcodes_ok by blast
next
  from tot ram have ok: "ok_state I cpu" by (simp add: ok_state_def)
  have "succeeds (\<lambda>(cpu', n). ok_state I cpu') (fast_Step monitor cpu)"
  proof (cases "notReady cpu")
    case True
    with ok show ?thesis by (simp add: fast_Step_def)
  next
    case False
    from fast_handleInterrupts_ok [OF ok] obtain cpu1
      where h: "fast_handleInterrupts cpu = Inr cpu1" and ok1: "ok_state I cpu1"
      by (auto simp: succeeds_def)
    from fast_nextOpcode_ok [OF ok1] obtain b
      where x: "fast_nextOpcode cpu1 = Inr (opcodes b)"
      by (auto simp: succeeds_def)
    have "\<exists>proceed cpu2.
        (case monitor of None \<Rightarrow> Inr (True, cpu1)
         | Some beforeExecute \<Rightarrow>
             ebind (fast_ReadAt cpu1 (replicate (nat (Size (opcodes b))) 0) (uint (rPC (reg cpu1))))
               (\<lambda>(raw, n, err). beforeExecute cpu1
                  \<lparr>inCycles = cycles cpu1, inMnemonic = Mnemonic (opcodes b),
                   inRegisters = reg cpu1, inAddressMode = Mode (opcodes b), inRaw = raw\<rparr>))
          = Inr (proceed, cpu2) \<and> ok_state I cpu2"
    proof (cases monitor)
      case None
      with ok1 show ?thesis by auto
    next
      case (Some beforeExecute)
      from mon [OF Some] fast_handleInterrupts_ReadAt_total [OF h]
      have rt: "ReadAt_total I (bus cpu1)" and mt: "Monitor_total I beforeExecute"
        by simp_all
      from fast_ReadAt_ok [OF ok1 rt] obtain raw n err
        where r: "fast_ReadAt cpu1 (replicate (nat (Size (opcodes b))) 0) (uint (rPC (reg cpu1)))
                    = Inr (raw, n, err)"
        unfolding succeeds_def by (metis prod_cases3)
      from mt ok1 obtain proceed cpu2
        where "beforeExecute cpu1
                  \<lparr>inCycles = cycles cpu1, inMnemonic = Mnemonic (opcodes b),
                   inRegisters = reg cpu1, inAddressMode = Mode (opcodes b), inRaw = raw\<rparr>
                 = Inr (proceed, cpu2)" and "ok_state I cpu2"
        unfolding Monitor_total_def by blast
      with Some r show ?thesis by simp
    qed
    then obtain proceed cpu2
      where m: "(case monitor of None \<Rightarrow> Inr (True, cpu1)
         | Some beforeExecute \<Rightarrow>
             ebind (fast_ReadAt cpu1 (replicate (nat (Size (opcodes b))) 0) (uint (rPC (reg cpu1))))
               (\<lambda>(raw, n, err). beforeExecute cpu1
                  \<lparr>inCycles = cycles cpu1, inMnemonic = Mnemonic (opcodes b),
                   inRegisters = reg cpu1, inAddressMode = Mode (opcodes b), inRaw = raw\<rparr>))
          = Inr (proceed, cpu2)" and ok2: "ok_state I cpu2"
      by blast
    show ?thesis
      unfolding fast_Step_def
      using False ok2
      apply (simp add: h x m Let_def)
      apply (rule impI)
      apply (rule succeeds_bind [OF fast_resolveAddr_ok])
        apply (simp_all add: opcodes_ok)
      apply (auto intro!: succeeds_bind [OF fast_dispatch_ok] simp: opcodes_ok)
      done
  qed
  then show "\<exists>cpu' n. fast_Step monitor cpu = Inr (cpu', n) \<and>
            bus_total I (bus cpu') \<and> ramSize cpu' \<le> int (length (ram cpu'))"
    by (auto simp: succeeds_def ok_state_def)
qed

text \<open>
  The claim as stated, with \<open>Fetch\<close> and \<open>Store\<close> total and nothing more, fails with a
  monitor attached. On a bus that is an \<open>io.ReaderAt\<close> whose \<open>ReadAt\<close> panics, \<open>Step\<close>
  panics while it reads the raw bytes for the monitor; and a \<open>BeforeExecute\<close> that panics
  takes \<open>Step\<close> with it.
\<close>

theorem Step_fails_in_host_code_counterexample:
  "bus_total (\<lambda>b. length b = 65536) (bus cpu_readat) \<and>
   ramSize cpu_readat \<le> int (length (ram cpu_readat)) \<and>
   fast_Step (Some (\<lambda>cpu i. Inr (True, cpu))) cpu_readat = Inl BusFault \<and>
   bus_total (\<lambda>b. length b = 65536) (bus cpu_adc) \<and>
   ramSize cpu_adc \<le> int (length (ram cpu_adc)) \<and>
   fast_Step (Some (\<lambda>cpu i. Inl MonitorPanic)) cpu_adc = Inl MonitorPanic"
proof -
  have "unat a < 65536" for a :: u16
    using unsigned_less [of a, where 'a = nat] by simp
  then have t1: "bus_total (\<lambda>b. length b = 65536) (bus cpu_readat)"
    by (simp add: cpu_readat_def cpu_adc_def MOS6502_on_def mem_adc_def bus_total_def
        RAM_Memory_def RAM_Fetch_def RAM_Store_def)
  have t2: "bus_total (\<lambda>b. length b = 65536) (bus cpu_adc)"
    by (simp add: cpu_adc_def MOS6502_on_def mem_adc_def RAM_Memory_total)
  have s1: "fast_Step (Some (\<lambda>cpu i. Inr (True, cpu))) cpu_readat = Inl BusFault"
    by (simp add: cpu_readat_def cpu_adc_def mem_adc_def MOS6502_on_def fast_Step_def
        fast_handleInterrupts_def fast_nextOpcode_def fast_Fetch_def Memory_Fetch_def
        RAM_Memory_def RAM_Fetch_def opcodes_def opcodes_table_def op_def fast_ReadAt_def
        Let_def)
  have s2: "fast_Step (Some (\<lambda>cpu i. Inl MonitorPanic)) cpu_adc = Inl MonitorPanic"
    by (simp add: cpu_adc_def mem_adc_def MOS6502_on_def fast_Step_def
        fast_handleInterrupts_def fast_nextOpcode_def fast_Fetch_def Memory_Fetch_def
        RAM_Memory_def RAM_Fetch_def opcodes_def opcodes_table_def op_def fast_ReadAt_def
        ReaderAt_ReadAt_def ReaderAt_loop.simps Let_def)
  from t1 t2 s1 s2 show ?thesis
    by (simp add: cpu_readat_def cpu_adc_def MOS6502_on_def)
qed

text \<open>
  \<open>ADC #$50\<close> on a RAM of package \<open>mos65xx\<close>, which has its own \<open>ReadAt\<close>, under a
  monitor that lets every instruction run; and the same step with no monitor.
\<close>

theorem Step_never_fails_witness:
  "bus_total (\<lambda>b. length b = 65536) (bus cpu_adc_bus) \<and>
   ramSize cpu_adc_bus \<le> int (length (ram cpu_adc_bus)) \<and>
   ReadAt_total (\<lambda>b. length b = 65536) (bus cpu_adc_bus) \<and>
   Monitor_total (\<lambda>b. length b = 65536) (\<lambda>(cpu :: u8 list fast) i. Inr (True, cpu)) \<and>
   (\<exists>cpu' n. fast_Step (Some (\<lambda>cpu i. Inr (True, cpu))) cpu_adc_bus = Inr (cpu', n) \<and>
      bus_total (\<lambda>b. length b = 65536) (bus cpu') \<and>
      ramSize cpu' \<le> int (length (ram cpu'))) \<and>
   (\<exists>cpu' n. fast_Step None cpu_adc_bus = Inr (cpu', n) \<and>
      bus_total (\<lambda>b. length b = 65536) (bus cpu') \<and>
      ramSize cpu' \<le> int (length (ram cpu')))"
proof -
  have h1: "bus_total (\<lambda>b. length b = 65536) (bus cpu_adc_bus)"
    and h3: "ReadAt_total (\<lambda>b. length b = 65536) (bus cpu_adc_bus)"
    by (simp_all add: cpu_adc_bus_def cpu_adc_def MOS6502_on_def mem_adc_def RAM_AddressBus_total)
  have h2: "ramSize cpu_adc_bus \<le> int (length (ram cpu_adc_bus))"
    by (simp add: cpu_adc_bus_def cpu_adc_def MOS6502_on_def)
  have h4: "Monitor_total (\<lambda>b. length b = 65536) (\<lambda>(cpu :: u8 list fast) i. Inr (True, cpu))"
    by (rule Monitor_total_reads)
  from Step_never_fails [OF h1 h2, of "Some (\<lambda>cpu i. Inr (True, cpu))"]
    Step_never_fails [OF h1 h2, of None] h1 h2 h3 h4
  show ?thesis by simp
qed

section \<open>C5: HLT traps the program counter\<close>

lemma opcodes_table_HLT:
  "list_all (\<lambda>x. Mnemonic x = HLT \<longrightarrow> x = op HLT 1 0 0 Implied) opcodes_table"
  by (simp add: opcodes_table_def op_def mnemonic_defs)

lemma opcodes_HLT: "Mnemonic (opcodes b) = HLT \<Longrightarrow> opcodes b = op HLT 1 0 0 Implied"
proof -
  have "unat b < length opcodes_table"
    using unat_u8_lt [of b] by (simp add: length_opcodes_table)
  with opcodes_table_HLT show "Mnemonic (opcodes b) = HLT \<Longrightarrow> opcodes b = op HLT 1 0 0 Implied"
    unfolding opcodes_def list_all_length by blast
qed

lemma opcodes_0x02: "opcodes 0x02 = op HLT 1 0 0 Implied"
  by (simp add: opcodes_def opcodes_table_def)

lemma fast_dispatch_HLT: "fast_dispatch HLT cpu addr = fast_hlt cpu addr"
  by (simp add: fast_dispatch_def HLT_def mnemonics_def fast_ops_def)

text \<open>
  C5. A step that executes an undefined (KIL) opcode, one the table decodes as \<open>HLT\<close>,
  sets \<open>halted\<close>, leaves PC at the HLT byte and reports 0 cycles. \<open>cpu1\<close> is the CPU after
  the interrupt check that opens the step (the CPU itself when no interrupt is latched);
  the monitor, if one is attached, is read the raw byte, lets this instruction run and
  leaves the CPU as it is. The cycle counter and everything else stay as they are in
  \<open>cpu1\<close>, but for \<open>addressMode\<close>, which \<open>Step\<close> sets.
\<close>

theorem hlt_traps_PC:
  assumes tot: "bus_total I (bus cpu)" and ram: "ramSize cpu \<le> int (length (ram cpu))"
    and rdy: "\<not> notReady cpu"
    and irq: "fast_handleInterrupts cpu = Inr cpu1"
    and opc: "fast_Fetch cpu1 (rPC (reg cpu1)) = Inr b" "Mnemonic (opcodes b) = HLT"
    and mon: "\<And>beforeExecute. monitor = Some beforeExecute \<Longrightarrow>
                \<exists>raw n err.
                  fast_ReadAt cpu1 (replicate 1 0) (uint (rPC (reg cpu1))) = Inr (raw, n, err) \<and>
                  beforeExecute cpu1
                    \<lparr>inCycles = cycles cpu1, inMnemonic = HLT, inRegisters = reg cpu1,
                     inAddressMode = Implied, inRaw = raw\<rparr> = Inr (True, cpu1)"
  shows "\<exists>cpu'. fast_Step monitor cpu = Inr (cpu', 0) \<and>
           halted cpu' \<and> rPC (reg cpu') = rPC (reg cpu1) \<and>
           cpu' = cpu1\<lparr>addressMode := Implied, halted := True\<rparr>"
proof -
  have o: "opcodes b = op HLT 1 0 0 Implied"
    using opc(2) by (rule opcodes_HLT)
  have proceed: "(case monitor of None \<Rightarrow> Inr (True, cpu1)
         | Some beforeExecute \<Rightarrow>
             ebind (fast_ReadAt cpu1 (replicate (nat (Size (opcodes b))) 0) (uint (rPC (reg cpu1))))
               (\<lambda>(raw, n, err). beforeExecute cpu1
                  \<lparr>inCycles = cycles cpu1, inMnemonic = Mnemonic (opcodes b),
                   inRegisters = reg cpu1, inAddressMode = Mode (opcodes b), inRaw = raw\<rparr>))
         = Inr (True, cpu1)"
  proof (cases monitor)
    case None
    then show ?thesis by simp
  next
    case (Some beforeExecute)
    from mon [OF Some] obtain raw n err
      where "fast_ReadAt cpu1 (replicate 1 0) (uint (rPC (reg cpu1))) = Inr (raw, n, err)"
        and "beforeExecute cpu1
                    \<lparr>inCycles = cycles cpu1, inMnemonic = HLT, inRegisters = reg cpu1,
                     inAddressMode = Implied, inRaw = raw\<rparr> = Inr (True, cpu1)"
      by blast
    with Some show ?thesis
      by (simp add: o op_def)
  qed
  have "fast_Step monitor cpu = Inr (cpu1\<lparr>addressMode := Implied, halted := True\<rparr>, 0)"
    unfolding fast_Step_def
    using rdy
    by (simp add: irq fast_nextOpcode_def opc(1) proceed Let_def)
       (simp add: o op_def fast_resolveAddr_def Implied_def fast_dispatch_HLT fast_hlt_def)
  then show ?thesis by simp
qed

text \<open>
  Scenario F of the specification, with no monitor and under a monitor that lets every
  instruction run.
\<close>

theorem hlt_traps_PC_witness:
  "fast_Step None cpu_hlt = Inr (cpu_hlt\<lparr>halted := True\<rparr>, 0) \<and>
   (\<exists>cpu'. fast_Step None cpu_hlt = Inr (cpu', 0) \<and>
           halted cpu' \<and> rPC (reg cpu') = rPC (reg cpu_hlt) \<and>
           cpu' = cpu_hlt\<lparr>addressMode := Implied, halted := True\<rparr>) \<and>
   fast_Step (Some (\<lambda>cpu i. Inr (True, cpu))) cpu_hlt = Inr (cpu_hlt\<lparr>halted := True\<rparr>, 0)"
proof -
  have h1: "bus_total (\<lambda>b. length b = 65536) (bus cpu_hlt)"
    by (simp add: cpu_hlt_def MOS6502_on_def mem_hlt_def RAM_Memory_total)
  have h2: "ramSize cpu_hlt \<le> int (length (ram cpu_hlt))"
    by (simp add: cpu_hlt_def MOS6502_on_def)
  have h3: "\<not> notReady cpu_hlt"
    by (simp add: cpu_hlt_def MOS6502_on_def)
  have h4: "fast_handleInterrupts cpu_hlt = Inr cpu_hlt"
    by (simp add: cpu_hlt_def MOS6502_on_def fast_handleInterrupts_def)
  have h5: "fast_Fetch cpu_hlt (rPC (reg cpu_hlt)) = Inr 0x02"
    by (simp add: cpu_hlt_def mem_hlt_def MOS6502_on_def fast_Fetch_def Memory_Fetch_def
        RAM_Memory_def RAM_Fetch_def)
  have h6: "Mnemonic (opcodes 0x02) = HLT"
    by (simp add: opcodes_0x02 op_def)
  have h7: "fast_ReadAt cpu_hlt [0] (uint (rPC (reg cpu_hlt))) = Inr ([0x02], 1, None)"
    by (simp add: cpu_hlt_def mem_hlt_def MOS6502_on_def fast_ReadAt_def ReaderAt_ReadAt_def
        ReaderAt_loop.simps Memory_Fetch_def RAM_Memory_def RAM_Fetch_def Let_def)
  have a: "\<exists>cpu'. fast_Step None cpu_hlt = Inr (cpu', 0) \<and>
           halted cpu' \<and> rPC (reg cpu') = rPC (reg cpu_hlt) \<and>
           cpu' = cpu_hlt\<lparr>addressMode := Implied, halted := True\<rparr>"
    by (rule hlt_traps_PC [OF h1 h2 h3 h4 h5 h6]) simp
  have b: "\<exists>cpu'. fast_Step (Some (\<lambda>cpu i. Inr (True, cpu))) cpu_hlt = Inr (cpu', 0) \<and>
           halted cpu' \<and> rPC (reg cpu') = rPC (reg cpu_hlt) \<and>
           cpu' = cpu_hlt\<lparr>addressMode := Implied, halted := True\<rparr>"
    by (rule hlt_traps_PC [OF h1 h2 h3 h4 h5 h6]) (simp add: h7)
  have e: "cpu_hlt\<lparr>addressMode := Implied, halted := True\<rparr> = cpu_hlt\<lparr>halted := True\<rparr>"
    by (simp add: cpu_hlt_def MOS6502_on_def Implied_def)
  from a b show ?thesis
    unfolding e by auto
qed

section \<open>C3 and C4: the interrupt check and the monitor\<close>

lemma fast_Fetch_reg [simp]: "fast_Fetch (cpu\<lparr>reg := r\<rparr>) = fast_Fetch cpu"
  by (rule ext) (simp add: fast_Fetch_def)

lemma fast_Store_notReady: "fast_Store cpu a v = Inr cpu' \<Longrightarrow> notReady cpu' = notReady cpu"
  by (auto simp: fast_Store_def ebind_def split: if_splits sum.splits)

lemma fast_Push_notReady: "fast_Push cpu v = Inr cpu' \<Longrightarrow> notReady cpu' = notReady cpu"
  by (auto simp: fast_Push_def ebind_def split: sum.splits dest: fast_Store_notReady)

lemma fast_PushWord_notReady: "fast_PushWord cpu v = Inr cpu' \<Longrightarrow> notReady cpu' = notReady cpu"
  by (auto simp: fast_PushWord_def ebind_def split: sum.splits dest: fast_Push_notReady)

lemma fast_nmi_notReady: "fast_nmi cpu = Inr cpu' \<Longrightarrow> notReady cpu' = notReady cpu"
  by (auto simp: fast_nmi_def ebind_def Let_def split: sum.splits
      dest: fast_Push_notReady fast_PushWord_notReady)

lemma fast_irq_notReady: "fast_irq cpu = Inr cpu' \<Longrightarrow> notReady cpu' = notReady cpu"
  by (auto simp: fast_irq_def ebind_def Let_def split: sum.splits
      dest: fast_Push_notReady fast_PushWord_notReady)

lemma fast_handleInterrupts_result:
  assumes "fast_handleInterrupts cpu = Inr cpu'"
  shows "notReady cpu' = notReady cpu" and "interrupt cpu' = NoInterrupt"
  using assms
  by (auto simp: fast_handleInterrupts_def ebind_def split: sum.splits Interrupt.splits
      dest: fast_nmi_notReady fast_irq_notReady)

lemma fast_handleInterrupts_idle:
  "interrupt cpu = NoInterrupt \<Longrightarrow> fast_handleInterrupts cpu = Inr cpu"
  by (simp add: fast_handleInterrupts_def)

lemma fast_Step_after_interrupts:
  assumes "\<not> notReady cpu" and "fast_handleInterrupts cpu = Inr cpu1"
  shows "fast_Step monitor cpu = fast_Step monitor cpu1"
proof -
  from fast_handleInterrupts_result [OF assms(2)] assms(1)
  have "\<not> notReady cpu1" and "fast_handleInterrupts cpu1 = Inr cpu1"
    by (simp_all add: fast_handleInterrupts_idle)
  with assms show ?thesis
    by (simp add: fast_Step_def)
qed

lemma service_nmi:
  assumes "interrupt c = NMI"
    and "fast_PushWord c (rPC (reg c)) = Inr c1"
    and "fast_Push c1 (rP (reg c1)) = Inr c2"
    and "FetchWord (fast_Fetch c2) NMIVector = Inr pc"
  shows "fast_handleInterrupts c =
     Inr (c2\<lparr>reg := (reg c2)\<lparr>rP := rP (reg c2) OR fI, rPC := pc\<rparr>,
             cycles := cycles c2 + 7, interrupt := NoInterrupt\<rparr>)"
  using assms by (simp add: fast_handleInterrupts_def fast_nmi_def Let_def)

lemma service_irq:
  assumes "interrupt c = IRQ"
    and "fast_PushWord c (rPC (reg c)) = Inr c1"
    and "fast_Push c1 (rP (reg c1)) = Inr c2"
    and "FetchWord (fast_Fetch c2) IRQVector = Inr pc"
  shows "fast_handleInterrupts c =
     Inr (c2\<lparr>reg := (reg c2)\<lparr>rP := rP (reg c2) OR fI, rPC := pc\<rparr>,
             cycles := cycles c2 + 7, interrupt := NoInterrupt\<rparr>)"
  using assms by (simp add: fast_handleInterrupts_def fast_irq_def Let_def)

text \<open>
  C3, as the code has it. The latch holds one value, so of an NMI and an IRQ requested
  between two steps the one requested last is the one latched: the NMI (vector 0xFFFA)
  when it was requested after the IRQ, the IRQ (vector 0xFFFE) when it was requested
  after the NMI. When RDY is not low, the next step services it: it pushes the PC word,
  then P, sets I, loads PC from the vector, adds 7 to the cycle counter and clears the
  latch, and then goes on from that state. When RDY is low, the step returns 0 at once:
  nothing is serviced and the latch keeps the request.
\<close>

theorem interrupt_last_request_wins:
  assumes tot: "bus_total I (bus cpu)" and ram: "ramSize cpu \<le> int (length (ram cpu))"
    and nmi: "hasNMI cpu" and irq: "hasIRQ cpu"
  shows "fast_NMI (fast_IRQ cpu) = cpu\<lparr>interrupt := NMI\<rparr> \<and>
         fast_IRQ (fast_NMI cpu) = cpu\<lparr>interrupt := IRQ\<rparr> \<and>
         (\<forall>c v. (c = fast_NMI (fast_IRQ cpu) \<and> v = NMIVector \<or>
                 c = fast_IRQ (fast_NMI cpu) \<and> v = IRQVector) \<longrightarrow>
            (\<exists>c1 c2 pc c'.
               fast_PushWord c (rPC (reg c)) = Inr c1 \<and>
               fast_Push c1 (rP (reg c1)) = Inr c2 \<and>
               FetchWord (fast_Fetch c2) v = Inr pc \<and>
               c' = c2\<lparr>reg := (reg c2)\<lparr>rP := rP (reg c2) OR fI, rPC := pc\<rparr>,
                        cycles := cycles c2 + 7, interrupt := NoInterrupt\<rparr> \<and>
               fast_handleInterrupts c = Inr c' \<and>
               (\<not> notReady cpu \<longrightarrow> fast_Step monitor c = fast_Step monitor c') \<and>
               (notReady cpu \<longrightarrow> fast_Step monitor c = Inr (c, 0))))"
proof (intro conjI allI impI)
  show n: "fast_NMI (fast_IRQ cpu) = cpu\<lparr>interrupt := NMI\<rparr>"
    using nmi irq by (simp add: fast_NMI_def fast_IRQ_def)
  show i: "fast_IRQ (fast_NMI cpu) = cpu\<lparr>interrupt := IRQ\<rparr>"
    using nmi irq by (simp add: fast_NMI_def fast_IRQ_def)
  fix c v
  assume cv: "c = fast_NMI (fast_IRQ cpu) \<and> v = NMIVector \<or>
              c = fast_IRQ (fast_NMI cpu) \<and> v = IRQVector"
  then have okc: "ok_state I c" and nr: "notReady c = notReady cpu"
    using tot ram n i by (auto simp: ok_state_def)
  from fast_PushWord_ok [OF okc] obtain c1
    where c1: "fast_PushWord c (rPC (reg c)) = Inr c1" "ok_state I c1"
    by (auto simp: succeeds_def)
  from fast_Push_ok [OF c1(2)] obtain c2
    where c2: "fast_Push c1 (rP (reg c1)) = Inr c2" "ok_state I c2"
    by (auto simp: succeeds_def)
  from FetchWord_ok [OF c2(2)] obtain pc
    where pc: "FetchWord (fast_Fetch c2) v = Inr pc"
    by (auto simp: succeeds_def)
  define c' where "c' = c2\<lparr>reg := (reg c2)\<lparr>rP := rP (reg c2) OR fI, rPC := pc\<rparr>,
                        cycles := cycles c2 + 7, interrupt := NoInterrupt\<rparr>"
  have h: "fast_handleInterrupts c = Inr c'"
    using cv
  proof
    assume "c = fast_NMI (fast_IRQ cpu) \<and> v = NMIVector"
    with n c1 c2 pc show ?thesis
      unfolding c'_def by (intro service_nmi) auto
  next
    assume "c = fast_IRQ (fast_NMI cpu) \<and> v = IRQVector"
    with i c1 c2 pc show ?thesis
      unfolding c'_def by (intro service_irq) auto
  qed
  have s: "\<not> notReady cpu \<longrightarrow> fast_Step monitor c = fast_Step monitor c'"
    using fast_Step_after_interrupts [OF _ h] nr by simp
  have w: "notReady cpu \<longrightarrow> fast_Step monitor c = Inr (c, 0)"
    using nr by (simp add: fast_Step_def)
  show "\<exists>c1 c2 pc c'.
               fast_PushWord c (rPC (reg c)) = Inr c1 \<and>
               fast_Push c1 (rP (reg c1)) = Inr c2 \<and>
               FetchWord (fast_Fetch c2) v = Inr pc \<and>
               c' = c2\<lparr>reg := (reg c2)\<lparr>rP := rP (reg c2) OR fI, rPC := pc\<rparr>,
                        cycles := cycles c2 + 7, interrupt := NoInterrupt\<rparr> \<and>
               fast_handleInterrupts c = Inr c' \<and>
               (\<not> notReady cpu \<longrightarrow> fast_Step monitor c = fast_Step monitor c') \<and>
               (notReady cpu \<longrightarrow> fast_Step monitor c = Inr (c, 0))"
    using c1(1) c2(1) pc h s w c'_def by blast
qed

text \<open>
  The claim as stated fails when the NMI is requested first: the IRQ request overwrites
  the latch, and the step loads PC from 0xFFFE (here 0xA000), not from 0xFFFA (0x9000).
  The step then runs the \<open>NOP\<close> at 0xA000 and reports its 2 cycles.
\<close>

theorem interrupt_nmi_then_irq_counterexample:
  "fast_handleInterrupts (fast_IRQ (fast_NMI cpu_int)) =
     Inr (cpu_int\<lparr>reg := (reg cpu_int)\<lparr>rPC := 0xA000, rS := 0xFA, rP := 0x34\<rparr>,
                  bus := RAM_Memory (mem_int[0x01FD := 0x80, 0x01FC := 0x00, 0x01FB := 0x30]),
                  cycles := 7\<rparr>) \<and>
   fast_Step None (fast_IRQ (fast_NMI cpu_int)) =
     Inr (cpu_int\<lparr>reg := (reg cpu_int)\<lparr>rPC := 0xA001, rS := 0xFA, rP := 0x34\<rparr>,
                  bus := RAM_Memory (mem_int[0x01FD := 0x80, 0x01FC := 0x00, 0x01FB := 0x30]),
                  cycles := 9\<rparr>, 2) \<and>
   FetchWord (fast_Fetch cpu_int) NMIVector = Inr 0x9000"
proof -
  have lo: "(32768 :: u8) = 0" by simp
  show ?thesis
  by (simp add: lo cpu_int_def mem_int_def MOS6502_on_def fast_IRQ_def fast_NMI_def
      fast_Step_def fast_handleInterrupts_def fast_irq_def fast_PushWord_def fast_Push_def
      fast_Store_def Memory_Store_def FetchWord_def IRQVector_def NMIVector_def
      fast_nextOpcode_def fast_Fetch_def Memory_Fetch_def RAM_Memory_def RAM_Fetch_def
      RAM_Store_def opcodes_def opcodes_table_def op_def fast_resolveAddr_def mode_defs
      fast_dispatch_def NOP_def mnemonics_def fast_ops_def fast_nop_def flag_defs Let_def)
qed

text \<open>
  The IRQ requested first and the NMI second: the step services the NMI. And the same
  requests on a machine with a RDY line that is held low: the step returns 0 and the
  latch still holds the NMI.
\<close>

theorem interrupt_last_request_wins_witness:
  "bus_total (\<lambda>b. length b = 65536) (bus cpu_int) \<and>
   ramSize cpu_int \<le> int (length (ram cpu_int)) \<and> hasNMI cpu_int \<and> hasIRQ cpu_int \<and>
   fast_NMI (fast_IRQ cpu_int) = cpu_int\<lparr>interrupt := NMI\<rparr> \<and>
   (\<exists>c1 c2 pc c'.
      fast_PushWord (fast_NMI (fast_IRQ cpu_int)) (rPC (reg (fast_NMI (fast_IRQ cpu_int)))) = Inr c1 \<and>
      fast_Push c1 (rP (reg c1)) = Inr c2 \<and>
      FetchWord (fast_Fetch c2) NMIVector = Inr pc \<and>
      c' = c2\<lparr>reg := (reg c2)\<lparr>rP := rP (reg c2) OR fI, rPC := pc\<rparr>,
               cycles := cycles c2 + 7, interrupt := NoInterrupt\<rparr> \<and>
      fast_handleInterrupts (fast_NMI (fast_IRQ cpu_int)) = Inr c' \<and>
      fast_Step None (fast_NMI (fast_IRQ cpu_int)) = fast_Step None c') \<and>
   fast_Step None (fast_NMI (fast_IRQ (cpu_int\<lparr>hasReady := True, notReady := True\<rparr>))) =
     Inr (cpu_int\<lparr>hasReady := True, notReady := True, interrupt := NMI\<rparr>, 0)"
proof -
  have h1: "bus_total (\<lambda>b. length b = 65536) (bus cpu_int)"
    by (simp add: cpu_int_def MOS6502_on_def mem_int_def RAM_Memory_total)
  have h2: "ramSize cpu_int \<le> int (length (ram cpu_int))"
    by (simp add: cpu_int_def MOS6502_on_def)
  have h3: "hasNMI cpu_int" and h4: "hasIRQ cpu_int" and h5: "\<not> notReady cpu_int"
    by (simp_all add: cpu_int_def MOS6502_on_def)
  define low where "low = cpu_int\<lparr>hasReady := True, notReady := True\<rparr>"
  have l1: "bus_total (\<lambda>b. length b = 65536) (bus low)"
    and l2: "ramSize low \<le> int (length (ram low))"
    and l3: "hasNMI low" and l4: "hasIRQ low" and l5: "notReady low"
    using h1 h2 h3 h4 by (simp_all add: low_def)
  from interrupt_last_request_wins [OF l1 l2 l3 l4, of None] l5
  have "fast_Step None (fast_NMI (fast_IRQ low)) = Inr (low\<lparr>interrupt := NMI\<rparr>, 0)"
    by (metis (no_types, lifting))
  then have low: "fast_Step None (fast_NMI (fast_IRQ (cpu_int\<lparr>hasReady := True, notReady := True\<rparr>))) =
     Inr (cpu_int\<lparr>hasReady := True, notReady := True, interrupt := NMI\<rparr>, 0)"
    by (simp add: low_def)
  from interrupt_last_request_wins [OF h1 h2 h3 h4, of None] h1 h2 h3 h4 h5 low
  show ?thesis by blast
qed




section \<open>C2: decimal ADC\<close>

lemma unat_low_nibble: "unat ((a::u8) AND 0x0f) = unat a mod 16"
proof -
  have g: "unat (a AND mask 4) = unat a mod 2 ^ 4"
    by (simp add: unsigned_take_bit_eq take_bit_eq_mod unat_mod flip: take_bit_eq_mask)
  have "(mask 4 :: u8) = 0x0f" by (simp add: mask_eq_exp_minus_1)
  with g show ?thesis by simp
qed

lemma u16_of_nat_less: "n < 65536 \<Longrightarrow> ((of_nat n :: u16) > 0x99) = (n > 153)"
  by (simp add: word_less_nat_alt unat_of_nat)

lemma ucast_of_nat_u16_u8: "(ucast (of_nat n :: u16) :: u8) = of_nat n"
  by (simp add: ucast_down_of_nat unat_of_nat word_of_nat_eq_iff take_bit_eq_mod mod_mod_cancel)

lemma adc_decimal:
  "adc a m c True =
     (let ci = (if c then 1 else 0);
          t0 = unat a + unat m + ci;
          t1 = (if unat a mod 16 + unat m mod 16 + ci > 9 then t0 + 6 else t0);
          t2 = (if t1 > 0x99 then t1 + 0x60 else t1);
          r = (of_nat t2 :: u8)
      in (r, bit r 7, (a XOR r) AND (m XOR r) AND 0x80 \<noteq> 0, r = 0, t1 > 0x99))"
proof -
  define ci :: nat where "ci = (if c then 1 else 0)"
  define t0 where "t0 = unat a + unat m + ci"
  define lo where "lo = unat a mod 16 + unat m mod 16 + ci"
  define t1 where "t1 = (if lo > 9 then t0 + 6 else t0)"
  define t2 where "t2 = (if t1 > 0x99 then t1 + 0x60 else t1)"
  have b0: "t0 \<le> 511" using unat_u8_lt [of a] unat_u8_lt [of m] by (simp add: t0_def ci_def)
  then have b1: "t1 \<le> 517" by (simp add: t1_def)
  have s0: "(if c then (ucast a :: u16) + ucast m + 1 else ucast a + ucast m) = of_nat t0"
    by (simp add: word_unat_eq_iff unat_sum16 unat_sum16_1 unat_of_nat t0_def ci_def)
  have lo_lt: "lo < 256"
    unfolding lo_def ci_def
    using mod_less_divisor [of 16 "unat a"] mod_less_divisor [of 16 "unat m"] by (simp split: if_splits) linarith
  have slo: "unat (if c then (a AND 0x0f) + (m AND 0x0f) + 1 else (a AND 0x0f) + (m AND 0x0f)) = lo"
    using lo_lt by (simp add: unat_word_ariths unat_low_nibble lo_def ci_def)
  have clo: "((if c then (a AND 0x0f) + (m AND 0x0f) + 1 else (a AND 0x0f) + (m AND 0x0f)) > 0x09) = (lo > 9)"
    by (simp only: word_less_nat_alt slo) simp
  have s1: "(if lo > 9 then (of_nat t0 :: u16) + 0x06 else of_nat t0) = of_nat t1"
    by (simp add: t1_def)
  have c1: "((of_nat t1 :: u16) > 0x99) = (t1 > 153)"
    using b1 by (intro u16_of_nat_less) simp
  have s2: "(if t1 > 153 then (of_nat t1 :: u16) + 0x60 else of_nat t1) = of_nat t2"
    by (simp add: t2_def)
  have c2: "((of_nat t2 :: u16) > 0x99) = (t1 > 153)"
    using b1 by (subst u16_of_nat_less) (auto simp: t2_def)
  have "adc a m c True =
      (let r = (ucast (of_nat t2 :: u16) :: u8) in (r, r AND 0x80 = 0x80, overflow a m r, r = 0, t1 > 153))"
    unfolding adc_def Let_def
    by (simp only: if_True split_conv s0 clo s1 c1 s2 c2)
  then show ?thesis
    by (simp add: Let_def ucast_of_nat_u16_u8 and80 overflow_def and_and80
        t2_def t1_def lo_def t0_def ci_def)
qed

text \<open>
  C2, as the code has it. With D set on a model with BCD, ADC computes the binary sum
  \<open>t0 = A + M + C\<close>, adds 6 when the sum of the low nibbles and the carry exceeds 9,
  then adds 0x60 when the total exceeds 0x99 and sets the carry flag in that case. The
  accumulator receives the low byte \<open>R\<close> of the adjusted total, and N, V and Z are computed
  from that adjusted byte: N is bit 7 of \<open>R\<close>, V is \<open>((A ^ R) & (M ^ R) & 0x80) \<noteq> 0\<close> and
  Z is \<open>R = 0\<close>.
\<close>

theorem adc_decimal_flags:
  fixes cpu :: "'b fast"
  assumes f: "fast_Fetch cpu addr = Inr m"
    and d: "rP (reg cpu) AND fD = fD" and bcd: "hasBCD cpu"
  shows "\<exists>r p'.
     fast_adc cpu addr = Inr (cpu\<lparr>reg := (reg cpu)\<lparr>rA := r, rP := p'\<rparr>\<rparr>) \<and>
     (let a = rA (reg cpu); ci = (if rP (reg cpu) AND fC = fC then 1 else 0);
          t0 = unat a + unat m + ci;
          t1 = (if unat a mod 16 + unat m mod 16 + ci > 9 then t0 + 6 else t0);
          t2 = (if t1 > 0x99 then t1 + 0x60 else t1)
      in unat r = t2 mod 256 \<and>
         (p' AND fC = fC) = (t1 > 0x99) \<and>
         (p' AND fV = fV) = ((a XOR r) AND (m XOR r) AND 0x80 \<noteq> 0) \<and>
         (p' AND fZ = fZ) = (r = 0) \<and>
         (p' AND fN = fN) = bit r 7 \<and>
         p' AND 0x3C = rP (reg cpu) AND 0x3C)"
proof -
  define c where "c = (rP (reg cpu) AND fC = fC)"
  define ci :: nat where "ci = (if c then 1 else 0)"
  define t0 where "t0 = unat (rA (reg cpu)) + unat m + ci"
  define t1 where "t1 = (if unat (rA (reg cpu)) mod 16 + unat m mod 16 + ci > 9 then t0 + 6 else t0)"
  define t2 where "t2 = (if t1 > 0x99 then t1 + 0x60 else t1)"
  define r where "r = (of_nat t2 :: u8)"
  define v where "v = ((rA (reg cpu) XOR r) AND (m XOR r) AND 0x80 \<noteq> 0)"
  define p' where "p' = setFlag (setFlag (setFlag (setFlag (rP (reg cpu)) fN (bit r 7)) fV v) fZ (r = 0)) fC (153 < t1)"
  have eq: "fast_adc cpu addr = Inr (cpu\<lparr>reg := (reg cpu)\<lparr>rA := r, rP := p'\<rparr>\<rparr>)"
    by (simp add: fast_adc_def f d bcd Let_def adc_decimal c_def ci_def t0_def t1_def t2_def
        r_def v_def p'_def)
  have ur: "unat r = t2 mod 256"
    by (simp add: r_def unat_of_nat)
  note fl = setFlags_NVZC [of "rP (reg cpu)" "bit r 7" v "r = 0" "153 < t1", folded p'_def]
  show ?thesis
    apply (rule exI [of _ r], rule exI [of _ p'])
    using eq ur fl by (simp add: Let_def c_def ci_def t0_def t1_def t2_def v_def)
qed

text \<open>
  The claim as stated fails at \<open>A = 0x99\<close>, \<open>M = 0x01\<close>, \<open>C = 0\<close>: the binary sum byte is
  0x9A, which is not zero and has bit 7 set, but the code leaves \<open>A = 0x00\<close> with Z set
  and N clear (\<open>P = 0x3F\<close>), the flags of the adjusted byte.
\<close>

theorem adc_decimal_flags_counterexample:
  "fast_adc cpu_bcd 0x8001 = Inr (cpu_bcd\<lparr>reg := (reg cpu_bcd)\<lparr>rA := 0x00, rP := 0x3F\<rparr>\<rparr>) \<and>
   rP (reg cpu_bcd) AND fD = fD \<and> hasBCD cpu_bcd \<and>
   rA (reg cpu_bcd) + 0x01 = 0x9A \<and> (0x9A :: u8) AND 0x80 = 0x80 \<and>
   (0x3F :: u8) AND fZ = fZ \<and> (0x3F :: u8) AND fN = 0"
  by (simp add: cpu_bcd_def mem_bcd_def MOS6502_on_def fast_adc_def fast_Fetch_def
      Memory_Fetch_def RAM_Memory_def RAM_Fetch_def adc_def overflow_def setFlag_def
      flag_defs Let_def)

text \<open>
  Scenario C of the specification: \<open>A = 0x15\<close>, \<open>M = 0x27\<close>, \<open>C = 1\<close>, \<open>D = 1\<close> gives
  \<open>A = 0x43\<close> with C clear.
\<close>

theorem adc_decimal_flags_witness:
  "fast_adc cpu_bcd2 0x8001 = Inr (cpu_bcd2\<lparr>reg := (reg cpu_bcd2)\<lparr>rA := 0x43, rP := 0x3C\<rparr>\<rparr>) \<and>
   (\<exists>r p'.
     fast_adc cpu_bcd2 0x8001 = Inr (cpu_bcd2\<lparr>reg := (reg cpu_bcd2)\<lparr>rA := r, rP := p'\<rparr>\<rparr>) \<and>
     (let a = rA (reg cpu_bcd2); ci = (if rP (reg cpu_bcd2) AND fC = fC then 1 else 0);
          t0 = unat a + unat (0x27 :: u8) + ci;
          t1 = (if unat a mod 16 + unat (0x27 :: u8) mod 16 + ci > 9 then t0 + 6 else t0);
          t2 = (if t1 > 0x99 then t1 + 0x60 else t1)
      in unat r = t2 mod 256 \<and>
         (p' AND fC = fC) = (t1 > 0x99) \<and>
         (p' AND fV = fV) = ((a XOR r) AND (0x27 XOR r) AND 0x80 \<noteq> 0) \<and>
         (p' AND fZ = fZ) = (r = 0) \<and>
         (p' AND fN = fN) = bit r 7 \<and>
         p' AND 0x3C = rP (reg cpu_bcd2) AND 0x3C))"
proof
  show "fast_adc cpu_bcd2 0x8001 = Inr (cpu_bcd2\<lparr>reg := (reg cpu_bcd2)\<lparr>rA := 0x43, rP := 0x3C\<rparr>\<rparr>)"
    by (simp add: cpu_bcd2_def mem_bcd2_def MOS6502_on_def fast_adc_def fast_Fetch_def
        Memory_Fetch_def RAM_Memory_def RAM_Fetch_def adc_def overflow_def setFlag_def
        flag_defs Let_def)
next
  have h1: "fast_Fetch cpu_bcd2 0x8001 = Inr 0x27"
    by (simp add: cpu_bcd2_def mem_bcd2_def MOS6502_on_def fast_Fetch_def Memory_Fetch_def
        RAM_Memory_def RAM_Fetch_def)
  have h2: "rP (reg cpu_bcd2) AND fD = fD" and h3: "hasBCD cpu_bcd2"
    by (simp_all add: cpu_bcd2_def MOS6502_on_def flag_defs)
  show "\<exists>r p'.
     fast_adc cpu_bcd2 0x8001 = Inr (cpu_bcd2\<lparr>reg := (reg cpu_bcd2)\<lparr>rA := r, rP := p'\<rparr>\<rparr>) \<and>
     (let a = rA (reg cpu_bcd2); ci = (if rP (reg cpu_bcd2) AND fC = fC then 1 else 0);
          t0 = unat a + unat (0x27 :: u8) + ci;
          t1 = (if unat a mod 16 + unat (0x27 :: u8) mod 16 + ci > 9 then t0 + 6 else t0);
          t2 = (if t1 > 0x99 then t1 + 0x60 else t1)
      in unat r = t2 mod 256 \<and>
         (p' AND fC = fC) = (t1 > 0x99) \<and>
         (p' AND fV = fV) = ((a XOR r) AND (0x27 XOR r) AND 0x80 \<noteq> 0) \<and>
         (p' AND fZ = fZ) = (r = 0) \<and>
         (p' AND fN = fN) = bit r 7 \<and>
         p' AND 0x3C = rP (reg cpu_bcd2) AND 0x3C)"
    by (rule adc_decimal_flags [OF h1 h2 h3])
qed

section \<open>C1: JMP indirect at a page boundary\<close>

text \<open>
  C1. The claim asks for the hardware's page-boundary behaviour: with the operand
  0x10FF, the high byte of the target comes from 0x1000 and PC becomes 0x5000. The code
  resolves \<open>Indirect\<close> with \<open>FetchWord(cpu, FetchWord(cpu, PC+1))\<close>, which reads the high
  byte at 0x1100: one step leaves PC = 0x4000 (5 cycles). \<open>FetchWordBug\<close>, the helper
  written for the page-boundary read, is never called, and would not give 0x5000
  either: it shifts the address byte instead of the fetched one and returns 0x0050.
\<close>

theorem jmp_indirect_page_boundary:
  "fast_Step None cpu_jmp =
     Inr (cpu_jmp\<lparr>reg := (reg cpu_jmp)\<lparr>rPC := 0x4000\<rparr>, cycles := 5,
                  addressMode := Indirect\<rparr>, 5) \<and>
   FetchWord (fast_Fetch cpu_jmp) 0x10FF = Inr 0x4000 \<and>
   FetchWordBug (fast_Fetch cpu_jmp) 0x10FF = Inr 0x0050"
  by (simp add: cpu_jmp_def mem_jmp_def MOS6502_on_def fast_Step_def fast_handleInterrupts_def
      fast_nextOpcode_def fast_Fetch_def Memory_Fetch_def RAM_Memory_def RAM_Fetch_def
      opcodes_def opcodes_table_def op_def fast_resolveAddr_def mode_defs FetchWord_def
      FetchWordBug_def fast_dispatch_def JMP_def mnemonics_def fast_ops_def fast_jmp_def Let_def)

section \<open>C7: the stack page\<close>

lemma exp_and_ucast_zero:
  "LENGTH('a) \<le> n \<Longrightarrow> (2 ^ n :: 'b::len word) AND ucast (s :: 'a::len word) = 0"
  by (rule bit_word_eqI) (auto simp: bit_and_iff bit_exp_iff bit_ucast_iff dest: bit_imp_le_length)

lemma stack_or_plus: "(0x0100 OR ucast (s::u8) :: u16) = 0x0100 + ucast s"
proof -
  have "(2 ^ 8 :: u16) AND ucast s = 0"
    by (rule exp_and_ucast_zero) simp
  then have "(0x0100 :: u16) AND ucast s = 0" by simp
  then show ?thesis
    by (simp add: disjunctive_add_eq_or)
qed

lemma unat_stack_addr: "unat (0x0100 OR ucast (s::u8) :: u16) = 256 + unat s"
proof -
  have "256 + unat s < 2 ^ 16" using unat_u8_lt [of s] by simp
  then show ?thesis
    by (simp add: stack_or_plus unat_word_ariths unat_ucast_up)
qed

lemma stack_addr_range:
  "0x0100 \<le> (0x0100 OR ucast (s::u8) :: u16) \<and> (0x0100 OR ucast s :: u16) \<le> 0x01FF"
  using unat_u8_lt [of s] by (simp add: word_le_nat_alt unat_stack_addr)

lemma unat_dec: "unat ((s::u8) - 1) = (unat s + 255) mod 256"
proof -
  have "s - 1 = s + 255" by simp
  then have "unat (s - 1) = unat (s + 255)" by (simp only:)
  also have "\<dots> = (unat s + 255) mod 256" by (simp add: unat_word_ariths)
  finally show ?thesis .
qed

lemma unat_inc: "unat ((s::u8) + 1) = (unat s + 1) mod 256"
  by (simp add: unat_word_ariths)

lemma uint_plus_int: "uint ((s::u8) + word_of_int k) = (uint s + k) mod 256"
  by (simp add: uint_word_ariths uint_word_of_int mod_add_right_eq)

lemma fast_Store_reg: "fast_Store cpu a v = Inr cpu' \<Longrightarrow> reg cpu' = reg cpu"
  by (auto simp: fast_Store_def ebind_def split: if_splits sum.splits)

lemma fast_Push_reg:
  "fast_Push cpu v = Inr cpu' \<Longrightarrow> reg cpu' = (reg cpu)\<lparr>rS := rS (reg cpu) - 1\<rparr>"
  by (auto simp: fast_Push_def ebind_def split: sum.splits dest: fast_Store_reg)

lemma fast_PushWord_reg:
  "fast_PushWord cpu v = Inr cpu' \<Longrightarrow> reg cpu' = (reg cpu)\<lparr>rS := rS (reg cpu) - 2\<rparr>"
  by (auto simp: fast_PushWord_def ebind_def split: sum.splits dest!: fast_Push_reg)

lemma fast_Pull_reg:
  "fast_Pull cpu = Inr (v, cpu') \<Longrightarrow> cpu' = cpu\<lparr>reg := (reg cpu)\<lparr>rS := rS (reg cpu) + 1\<rparr>\<rparr>"
  by (auto simp: fast_Pull_def Let_def ebind_def split: sum.splits)

lemma fast_PullWord_reg:
  "fast_PullWord cpu = Inr (v, cpu') \<Longrightarrow> cpu' = cpu\<lparr>reg := (reg cpu)\<lparr>rS := rS (reg cpu) + 2\<rparr>\<rparr>"
  by (auto simp: fast_PullWord_def ebind_def split: sum.splits prod.splits dest!: fast_Pull_reg)

lemma stack_step_S:
  "stack_step cpu u = Inr cpu' \<Longrightarrow> rS (reg cpu') = rS (reg cpu) + word_of_int (stack_delta u)"
  by (cases u)
     (auto simp: fast_pha_def fast_php_def fast_pla_def fast_plp_def fast_jsr_def fast_rts_def
        fast_brk_def fast_rti_def fast_nmi_def fast_irq_def setZN_def Let_def ebind_def
        split: sum.splits prod.splits
        dest!: fast_Push_reg fast_PushWord_reg fast_Pull_reg fast_PullWord_reg)

lemma stack_run_S:
  "stack_run cpu us = Inr cpu' \<Longrightarrow>
   rS (reg cpu') = rS (reg cpu) + word_of_int (sum_list (map stack_delta us))"
proof (induction us arbitrary: cpu)
  case Nil
  then show ?case by simp
next
  case (Cons u us)
  from Cons.prems obtain c where c: "stack_step cpu u = Inr c" "stack_run c us = Inr cpu'"
    by (auto simp: ebind_def split: sum.splits)
  from Cons.IH [OF c(2)] stack_step_S [OF c(1)] show ?case
    by simp
qed

lemma ebind_assoc: "ebind (ebind m f) g = ebind m (\<lambda>x. ebind (f x) g)"
  by (cases m) simp_all

lemma ebind_cong_Inr: "(\<And>x. m = Inr x \<Longrightarrow> f x = g x) \<Longrightarrow> ebind m f = ebind m g"
  by (cases m) simp_all

lemma fast_Store_reg_upd:
  "fast_Store (cpu\<lparr>reg := r\<rparr>) a v = ebind (fast_Store cpu a v) (\<lambda>c. Inr (c\<lparr>reg := r\<rparr>))"
  by (auto simp: fast_Store_def ebind_def split: sum.splits)

lemma fast_Push_eq:
  "fast_Push cpu v =
     ebind (fast_Store cpu (0x0100 OR ucast (rS (reg cpu))) v) (\<lambda>c.
     Inr (c\<lparr>reg := (reg cpu)\<lparr>rS := rS (reg cpu) - 1\<rparr>\<rparr>))"
  unfolding fast_Push_def by (rule ebind_cong_Inr) (simp add: fast_Store_reg)

lemma fast_PushWord_eq:
  "fast_PushWord cpu w =
     ebind (fast_Store cpu (0x0100 OR ucast (rS (reg cpu))) (ucast (drop_bit 8 w))) (\<lambda>c1.
     ebind (fast_Store c1 (0x0100 OR ucast (rS (reg cpu) - 1)) (ucast w)) (\<lambda>c2.
     Inr (c2\<lparr>reg := (reg cpu)\<lparr>rS := rS (reg cpu) - 2\<rparr>\<rparr>)))"
  by (simp add: fast_PushWord_def fast_Push_eq ebind_assoc fast_Store_reg_upd)

lemma fast_Pull_eq:
  "fast_Pull cpu =
     ebind (fast_Fetch cpu (0x0100 OR ucast (rS (reg cpu) + 1))) (\<lambda>v.
     Inr (v, cpu\<lparr>reg := (reg cpu)\<lparr>rS := rS (reg cpu) + 1\<rparr>\<rparr>))"
  by (simp add: fast_Pull_def Let_def)

lemma fast_PullWord_eq:
  "fast_PullWord cpu =
     ebind (fast_Fetch cpu (0x0100 OR ucast (rS (reg cpu) + 1))) (\<lambda>lo.
     ebind (fast_Fetch cpu (0x0100 OR ucast (rS (reg cpu) + 2))) (\<lambda>hi.
     Inr (push_bit 8 (ucast hi) OR ucast lo, cpu\<lparr>reg := (reg cpu)\<lparr>rS := rS (reg cpu) + 2\<rparr>\<rparr>)))"
  by (simp add: fast_PullWord_def fast_Pull_eq ebind_assoc) (simp add: add.commute)

lemmas stack_access_eqs = fast_Push_eq fast_PushWord_eq fast_Pull_eq fast_PullWord_eq
  ebind_assoc fast_Store_reg_upd Let_def

lemma pha_access:
  "fast_pha cpu addr =
     ebind (fast_Store cpu (0x0100 OR ucast (rS (reg cpu))) (rA (reg cpu))) (\<lambda>c.
     Inr (c\<lparr>reg := (reg cpu)\<lparr>rS := rS (reg cpu) - 1\<rparr>\<rparr>))"
  by (simp add: fast_pha_def stack_access_eqs)

lemma php_access:
  "fast_php cpu addr =
     ebind (fast_Store cpu (0x0100 OR ucast (rS (reg cpu))) (rP (reg cpu) OR fB)) (\<lambda>c.
     Inr (c\<lparr>reg := (reg cpu)\<lparr>rS := rS (reg cpu) - 1\<rparr>\<rparr>))"
  by (simp add: fast_php_def stack_access_eqs)

lemma pla_access:
  "fast_pla cpu addr =
     ebind (fast_Fetch cpu (0x0100 OR ucast (rS (reg cpu) + 1))) (\<lambda>v.
     Inr (cpu\<lparr>reg := setZN v ((reg cpu)\<lparr>rS := rS (reg cpu) + 1, rA := v\<rparr>)\<rparr>))"
  by (simp add: fast_pla_def stack_access_eqs)

lemma plp_access:
  "fast_plp cpu addr =
     ebind (fast_Fetch cpu (0x0100 OR ucast (rS (reg cpu) + 1))) (\<lambda>v.
     Inr (cpu\<lparr>reg := (reg cpu)\<lparr>rS := rS (reg cpu) + 1, rP := (v AND 0xef) OR 0x20\<rparr>\<rparr>))"
  by (simp add: fast_plp_def stack_access_eqs)

lemma jsr_access:
  "fast_jsr cpu addr =
     ebind (fast_Store cpu (0x0100 OR ucast (rS (reg cpu))) (ucast (drop_bit 8 (rPC (reg cpu) - 1)))) (\<lambda>c1.
     ebind (fast_Store c1 (0x0100 OR ucast (rS (reg cpu) - 1)) (ucast (rPC (reg cpu) - 1))) (\<lambda>c2.
     Inr (c2\<lparr>reg := (reg cpu)\<lparr>rS := rS (reg cpu) - 2, rPC := addr\<rparr>\<rparr>)))"
  by (simp add: fast_jsr_def stack_access_eqs)

lemma rts_access:
  "fast_rts cpu addr =
     ebind (fast_Fetch cpu (0x0100 OR ucast (rS (reg cpu) + 1))) (\<lambda>lo.
     ebind (fast_Fetch cpu (0x0100 OR ucast (rS (reg cpu) + 2))) (\<lambda>hi.
     Inr (cpu\<lparr>reg := (reg cpu)\<lparr>rS := rS (reg cpu) + 2,
                              rPC := (push_bit 8 (ucast hi) OR ucast lo) + 1\<rparr>\<rparr>)))"
  by (simp add: fast_rts_def stack_access_eqs)

lemma brk_access:
  "fast_brk cpu addr =
     ebind (fast_Store cpu (0x0100 OR ucast (rS (reg cpu))) (ucast (drop_bit 8 (rPC (reg cpu) + 1)))) (\<lambda>c1.
     ebind (fast_Store c1 (0x0100 OR ucast (rS (reg cpu) - 1)) (ucast (rPC (reg cpu) + 1))) (\<lambda>c2.
     ebind (fast_Store c2 (0x0100 OR ucast (rS (reg cpu) - 2)) (rP (reg cpu) OR 0x10)) (\<lambda>c3.
     ebind (FetchWord (fast_Fetch c3) IRQVector) (\<lambda>pc.
     Inr (c3\<lparr>reg := (reg cpu)\<lparr>rS := rS (reg cpu) - 3, rP := rP (reg cpu) OR fI,
                             rPC := pc\<rparr>\<rparr>)))))"
  by (simp add: fast_brk_def stack_access_eqs)

lemma rti_access:
  "fast_rti cpu addr =
     ebind (fast_Fetch cpu (0x0100 OR ucast (rS (reg cpu) + 1))) (\<lambda>p.
     ebind (fast_Fetch cpu (0x0100 OR ucast (rS (reg cpu) + 2))) (\<lambda>lo.
     ebind (fast_Fetch cpu (0x0100 OR ucast (rS (reg cpu) + 3))) (\<lambda>hi.
     Inr (cpu\<lparr>reg := (reg cpu)\<lparr>rP := (p AND 0xef) OR 0x20, rS := rS (reg cpu) + 3,
                              rPC := push_bit 8 (ucast hi) OR ucast lo\<rparr>\<rparr>))))"
  by (simp add: fast_rti_def stack_access_eqs) (simp add: add.commute)

lemma nmi_access:
  "fast_nmi cpu =
     ebind (fast_Store cpu (0x0100 OR ucast (rS (reg cpu))) (ucast (drop_bit 8 (rPC (reg cpu))))) (\<lambda>c1.
     ebind (fast_Store c1 (0x0100 OR ucast (rS (reg cpu) - 1)) (ucast (rPC (reg cpu)))) (\<lambda>c2.
     ebind (fast_Store c2 (0x0100 OR ucast (rS (reg cpu) - 2)) (rP (reg cpu))) (\<lambda>c3.
     ebind (FetchWord (fast_Fetch c3) NMIVector) (\<lambda>pc.
     Inr (c3\<lparr>reg := (reg cpu)\<lparr>rS := rS (reg cpu) - 3, rP := rP (reg cpu) OR fI,
                             rPC := pc\<rparr>,
             cycles := cycles c3 + 7\<rparr>)))))"
  by (simp add: fast_nmi_def stack_access_eqs)

lemma irq_access:
  "fast_irq cpu =
     ebind (fast_Store cpu (0x0100 OR ucast (rS (reg cpu))) (ucast (drop_bit 8 (rPC (reg cpu))))) (\<lambda>c1.
     ebind (fast_Store c1 (0x0100 OR ucast (rS (reg cpu) - 1)) (ucast (rPC (reg cpu)))) (\<lambda>c2.
     ebind (fast_Store c2 (0x0100 OR ucast (rS (reg cpu) - 2)) (rP (reg cpu))) (\<lambda>c3.
     ebind (FetchWord (fast_Fetch c3) IRQVector) (\<lambda>pc.
     Inr (c3\<lparr>reg := (reg cpu)\<lparr>rS := rS (reg cpu) - 3, rP := rP (reg cpu) OR fI,
                             rPC := pc\<rparr>,
             cycles := cycles c3 + 7\<rparr>)))))"
  by (simp add: fast_irq_def stack_access_eqs)

text \<open>
  C7. \<open>Push\<close> stores at \<open>0x0100 | S\<close> and then decrements S; \<open>Pull\<close> increments S and then
  fetches at \<open>0x0100 | S\<close>. That address lies in \<open>[0x0100, 0x01FF]\<close> for every S, and S
  wraps modulo 256: after any sequence of PHA, PHP, PLA, PLP, JSR, RTS, BRK, RTI and
  interrupt entries, S is its old value plus the bytes pulled minus the bytes pushed,
  modulo 256. Each of these instructions is given by the accesses it makes, all of them
  at \<open>0x0100 | S\<close> for the value S has at the access: PHA and PHP store one byte at S; PLA
  and PLP fetch one at S + 1; JSR stores the high and the low byte of PC - 1 at S and
  S - 1; RTS fetches the low and the high byte at S + 1 and S + 2; BRK and the two
  interrupt entries store PC high, PC low and P at S, S - 1 and S - 2 (and then read
  the vector, which is no stack access); RTI fetches P, PC low and PC high at S + 1,
  S + 2 and S + 3.
\<close>

theorem stack_in_page_one:
  fixes cpu :: "'b fast"
  shows
   "(\<forall>v cpu'. fast_Push cpu v = Inr cpu' \<longrightarrow>
       (let a = 0x0100 OR ucast (rS (reg cpu)) in
          0x0100 \<le> a \<and> a \<le> 0x01FF \<and>
          fast_Store cpu a v = Inr (cpu'\<lparr>reg := reg cpu\<rparr>) \<and>
          reg cpu' = (reg cpu)\<lparr>rS := rS (reg cpu) - 1\<rparr> \<and>
          uint (rS (reg cpu')) = (uint (rS (reg cpu)) - 1) mod 256)) \<and>
    (\<forall>v cpu'. fast_Pull cpu = Inr (v, cpu') \<longrightarrow>
       (let a = 0x0100 OR ucast (rS (reg cpu')) in
          0x0100 \<le> a \<and> a \<le> 0x01FF \<and>
          fast_Fetch cpu a = Inr v \<and>
          cpu' = cpu\<lparr>reg := (reg cpu)\<lparr>rS := rS (reg cpu) + 1\<rparr>\<rparr> \<and>
          uint (rS (reg cpu')) = (uint (rS (reg cpu)) + 1) mod 256)) \<and>
    (\<forall>us cpu'. stack_run cpu us = Inr cpu' \<longrightarrow>
       uint (rS (reg cpu')) = (uint (rS (reg cpu)) + sum_list (map stack_delta us)) mod 256) \<and>
    (\<forall>s :: u8. 0x0100 \<le> (0x0100 OR ucast s :: u16) \<and> (0x0100 OR ucast s :: u16) \<le> 0x01FF) \<and>
    (\<forall>addr.
       (fast_pha cpu addr =
      ebind (fast_Store cpu (0x0100 OR ucast (rS (reg cpu))) (rA (reg cpu))) (\<lambda>c.
      Inr (c\<lparr>reg := (reg cpu)\<lparr>rS := rS (reg cpu) - 1\<rparr>\<rparr>))) \<and>
       (fast_php cpu addr =
      ebind (fast_Store cpu (0x0100 OR ucast (rS (reg cpu))) (rP (reg cpu) OR fB)) (\<lambda>c.
      Inr (c\<lparr>reg := (reg cpu)\<lparr>rS := rS (reg cpu) - 1\<rparr>\<rparr>))) \<and>
       (fast_pla cpu addr =
      ebind (fast_Fetch cpu (0x0100 OR ucast (rS (reg cpu) + 1))) (\<lambda>v.
      Inr (cpu\<lparr>reg := setZN v ((reg cpu)\<lparr>rS := rS (reg cpu) + 1, rA := v\<rparr>)\<rparr>))) \<and>
       (fast_plp cpu addr =
      ebind (fast_Fetch cpu (0x0100 OR ucast (rS (reg cpu) + 1))) (\<lambda>v.
      Inr (cpu\<lparr>reg := (reg cpu)\<lparr>rS := rS (reg cpu) + 1, rP := (v AND 0xef) OR 0x20\<rparr>\<rparr>))) \<and>
       (fast_jsr cpu addr =
      ebind (fast_Store cpu (0x0100 OR ucast (rS (reg cpu))) (ucast (drop_bit 8 (rPC (reg cpu) - 1)))) (\<lambda>c1.
      ebind (fast_Store c1 (0x0100 OR ucast (rS (reg cpu) - 1)) (ucast (rPC (reg cpu) - 1))) (\<lambda>c2.
      Inr (c2\<lparr>reg := (reg cpu)\<lparr>rS := rS (reg cpu) - 2, rPC := addr\<rparr>\<rparr>)))) \<and>
       (fast_rts cpu addr =
      ebind (fast_Fetch cpu (0x0100 OR ucast (rS (reg cpu) + 1))) (\<lambda>lo.
      ebind (fast_Fetch cpu (0x0100 OR ucast (rS (reg cpu) + 2))) (\<lambda>hi.
      Inr (cpu\<lparr>reg := (reg cpu)\<lparr>rS := rS (reg cpu) + 2,
                               rPC := (push_bit 8 (ucast hi) OR ucast lo) + 1\<rparr>\<rparr>)))) \<and>
       (fast_brk cpu addr =
      ebind (fast_Store cpu (0x0100 OR ucast (rS (reg cpu))) (ucast (drop_bit 8 (rPC (reg cpu) + 1)))) (\<lambda>c1.
      ebind (fast_Store c1 (0x0100 OR ucast (rS (reg cpu) - 1)) (ucast (rPC (reg cpu) + 1))) (\<lambda>c2.
      ebind (fast_Store c2 (0x0100 OR ucast (rS (reg cpu) - 2)) (rP (reg cpu) OR 0x10)) (\<lambda>c3.
      ebind (FetchWord (fast_Fetch c3) IRQVector) (\<lambda>pc.
      Inr (c3\<lparr>reg := (reg cpu)\<lparr>rS := rS (reg cpu) - 3, rP := rP (reg cpu) OR fI,
                              rPC := pc\<rparr>\<rparr>)))))) \<and>
       (fast_rti cpu addr =
      ebind (fast_Fetch cpu (0x0100 OR ucast (rS (reg cpu) + 1))) (\<lambda>p.
      ebind (fast_Fetch cpu (0x0100 OR ucast (rS (reg cpu) + 2))) (\<lambda>lo.
      ebind (fast_Fetch cpu (0x0100 OR ucast (rS (reg cpu) + 3))) (\<lambda>hi.
      Inr (cpu\<lparr>reg := (reg cpu)\<lparr>rP := (p AND 0xef) OR 0x20, rS := rS (reg cpu) + 3,
                               rPC := push_bit 8 (ucast hi) OR ucast lo\<rparr>\<rparr>)))))) \<and>
    (fast_nmi cpu =
      ebind (fast_Store cpu (0x0100 OR ucast (rS (reg cpu))) (ucast (drop_bit 8 (rPC (reg cpu))))) (\<lambda>c1.
      ebind (fast_Store c1 (0x0100 OR ucast (rS (reg cpu) - 1)) (ucast (rPC (reg cpu)))) (\<lambda>c2.
      ebind (fast_Store c2 (0x0100 OR ucast (rS (reg cpu) - 2)) (rP (reg cpu))) (\<lambda>c3.
      ebind (FetchWord (fast_Fetch c3) NMIVector) (\<lambda>pc.
      Inr (c3\<lparr>reg := (reg cpu)\<lparr>rS := rS (reg cpu) - 3, rP := rP (reg cpu) OR fI,
                              rPC := pc\<rparr>,
              cycles := cycles c3 + 7\<rparr>)))))) \<and>
    (fast_irq cpu =
      ebind (fast_Store cpu (0x0100 OR ucast (rS (reg cpu))) (ucast (drop_bit 8 (rPC (reg cpu))))) (\<lambda>c1.
      ebind (fast_Store c1 (0x0100 OR ucast (rS (reg cpu) - 1)) (ucast (rPC (reg cpu)))) (\<lambda>c2.
      ebind (fast_Store c2 (0x0100 OR ucast (rS (reg cpu) - 2)) (rP (reg cpu))) (\<lambda>c3.
      ebind (FetchWord (fast_Fetch c3) IRQVector) (\<lambda>pc.
      Inr (c3\<lparr>reg := (reg cpu)\<lparr>rS := rS (reg cpu) - 3, rP := rP (reg cpu) OR fI,
                              rPC := pc\<rparr>,
              cycles := cycles c3 + 7\<rparr>))))))"
proof -
  have push: "\<forall>v cpu'. fast_Push cpu v = Inr cpu' \<longrightarrow>
       (let a = 0x0100 OR ucast (rS (reg cpu)) in
          0x0100 \<le> a \<and> a \<le> 0x01FF \<and>
          fast_Store cpu a v = Inr (cpu'\<lparr>reg := reg cpu\<rparr>) \<and>
          reg cpu' = (reg cpu)\<lparr>rS := rS (reg cpu) - 1\<rparr> \<and>
          uint (rS (reg cpu')) = (uint (rS (reg cpu)) - 1) mod 256)"
  proof (intro allI impI)
    fix v cpu'
    assume p: "fast_Push cpu v = Inr cpu'"
    then obtain c where c: "fast_Store cpu (0x0100 OR ucast (rS (reg cpu))) v = Inr c"
      and cpu': "cpu' = c\<lparr>reg := (reg c)\<lparr>rS := rS (reg c) - 1\<rparr>\<rparr>"
      by (auto simp: fast_Push_def ebind_def split: sum.splits)
    from fast_Store_reg [OF c] have "c\<lparr>reg := reg cpu\<rparr> = c"
      by (metis fast.surjective fast.update_convs(1))
    with c cpu' have st: "fast_Store cpu (0x0100 OR ucast (rS (reg cpu))) v = Inr (cpu'\<lparr>reg := reg cpu\<rparr>)"
      by simp
    have "uint (rS (reg cpu) - 1) = (uint (rS (reg cpu)) - 1) mod 256"
      by (simp add: uint_word_ariths)
    with st fast_Push_reg [OF p] stack_addr_range [of "rS (reg cpu)"]
    show "let a = 0x0100 OR ucast (rS (reg cpu)) in
            0x0100 \<le> a \<and> a \<le> 0x01FF \<and>
            fast_Store cpu a v = Inr (cpu'\<lparr>reg := reg cpu\<rparr>) \<and>
            reg cpu' = (reg cpu)\<lparr>rS := rS (reg cpu) - 1\<rparr> \<and>
            uint (rS (reg cpu')) = (uint (rS (reg cpu)) - 1) mod 256"
      by (simp add: Let_def)
  qed
  have pull: "\<forall>v cpu'. fast_Pull cpu = Inr (v, cpu') \<longrightarrow>
       (let a = 0x0100 OR ucast (rS (reg cpu')) in
          0x0100 \<le> a \<and> a \<le> 0x01FF \<and>
          fast_Fetch cpu a = Inr v \<and>
          cpu' = cpu\<lparr>reg := (reg cpu)\<lparr>rS := rS (reg cpu) + 1\<rparr>\<rparr> \<and>
          uint (rS (reg cpu')) = (uint (rS (reg cpu)) + 1) mod 256)"
  proof (intro allI impI)
    fix v cpu'
    assume p: "fast_Pull cpu = Inr (v, cpu')"
    note r = fast_Pull_reg [OF p]
    from p r have f: "fast_Fetch cpu (0x0100 OR ucast (rS (reg cpu'))) = Inr v"
      by (auto simp: fast_Pull_def Let_def ebind_def split: sum.splits)
    have "uint (rS (reg cpu) + 1) = (uint (rS (reg cpu)) + 1) mod 256"
      by (simp add: uint_word_ariths)
    with f r stack_addr_range [of "rS (reg cpu')"]
    show "let a = 0x0100 OR ucast (rS (reg cpu')) in
            0x0100 \<le> a \<and> a \<le> 0x01FF \<and>
            fast_Fetch cpu a = Inr v \<and>
            cpu' = cpu\<lparr>reg := (reg cpu)\<lparr>rS := rS (reg cpu) + 1\<rparr>\<rparr> \<and>
            uint (rS (reg cpu')) = (uint (rS (reg cpu)) + 1) mod 256"
      by (simp add: Let_def)
  qed
  have run: "\<forall>us cpu'. stack_run cpu us = Inr cpu' \<longrightarrow>
       uint (rS (reg cpu')) = (uint (rS (reg cpu)) + sum_list (map stack_delta us)) mod 256"
  proof (intro allI impI)
    fix us cpu'
    assume "stack_run cpu us = Inr cpu'"
    from stack_run_S [OF this]
    show "uint (rS (reg cpu')) = (uint (rS (reg cpu)) + sum_list (map stack_delta us)) mod 256"
      by (simp add: uint_plus_int)
  qed
  have page: "\<forall>s :: u8. 0x0100 \<le> (0x0100 OR ucast s :: u16) \<and> (0x0100 OR ucast s :: u16) \<le> 0x01FF"
    using stack_addr_range by blast
  show ?thesis
    apply (intro conjI)
          apply (rule push)
         apply (rule pull)
        apply (rule run)
       apply (rule page)
      apply (intro allI conjI)
             apply (rule pha_access)
            apply (rule php_access)
           apply (rule pla_access)
          apply (rule plp_access)
         apply (rule jsr_access)
        apply (rule rts_access)
       apply (rule brk_access)
      apply (rule rti_access)
     apply (rule nmi_access)
    apply (rule irq_access)
    done
qed

theorem stack_in_page_one_witness:
  "fast_Push cpu_stack 0x42 =
     Inr (cpu_stack\<lparr>reg := (reg cpu_stack)\<lparr>rS := 0xFF\<rparr>,
                    bus := RAM_Memory ((replicate 65536 0)[0x0100 := 0x42])\<rparr>) \<and>
   fast_Store cpu_stack (0x0100 OR ucast (rS (reg cpu_stack))) 0x42 =
     Inr (cpu_stack\<lparr>bus := RAM_Memory ((replicate 65536 0)[0x0100 := 0x42])\<rparr>) \<and>
   uint (0xFF :: u8) = (uint (rS (reg cpu_stack)) - 1) mod 256 \<and>
   stack_run cpu_stack [Use_PHA, Use_PHA, Use_PLA] =
     Inr (cpu_stack\<lparr>reg := (reg cpu_stack)\<lparr>rS := 0xFF, rP := 0x34\<rparr>,
                    bus := RAM_Memory ((replicate 65536 0)[0x0100 := 0x42, 0x01FF := 0x42])\<rparr>) \<and>
   uint (0xFF :: u8) =
     (uint (rS (reg cpu_stack)) + sum_list (map stack_delta [Use_PHA, Use_PHA, Use_PLA])) mod 256 \<and>
   fast_jsr cpu_stack 0x1234 =
     Inr (cpu_stack\<lparr>reg := (reg cpu_stack)\<lparr>rS := 0xFE, rPC := 0x1234\<rparr>,
                    bus := RAM_Memory ((replicate 65536 0)[0x0100 := 0x7F, 0x01FF := 0xFF])\<rparr>)"
proof -
  define c1 where "c1 = cpu_stack\<lparr>reg := (reg cpu_stack)\<lparr>rS := 0xFF\<rparr>,
                    bus := RAM_Memory ((replicate 65536 0)[0x0100 := 0x42])\<rparr>"
  define c2 where "c2 = cpu_stack\<lparr>reg := (reg cpu_stack)\<lparr>rS := 0xFF, rP := 0x34\<rparr>,
                    bus := RAM_Memory ((replicate 65536 0)[0x0100 := 0x42, 0x01FF := 0x42])\<rparr>"
  have u: "unat (- 1 :: u8) = 255"
    by (simp add: unsigned_minus_1_eq_mask mask_eq_exp_minus_1)
  have p: "fast_Push cpu_stack 0x42 = Inr c1"
    by (simp add: c1_def cpu_stack_def MOS6502_on_def fast_Push_def fast_Store_def
        Memory_Store_def RAM_Memory_def RAM_Store_def)
  have r: "stack_run cpu_stack [Use_PHA, Use_PHA, Use_PLA] = Inr c2"
    by (simp add: c2_def cpu_stack_def MOS6502_on_def fast_pha_def fast_pla_def fast_Push_def
        fast_Pull_def fast_Store_def fast_Fetch_def Memory_Store_def Memory_Fetch_def
        RAM_Memory_def RAM_Store_def RAM_Fetch_def setZN_def setFlag_def flag_defs Let_def
        unat_stack_addr u)
  have s: "rS (reg c1) = 0xFF" "rS (reg c2) = 0xFF"
    and b: "c1\<lparr>reg := reg cpu_stack\<rparr> =
            cpu_stack\<lparr>bus := RAM_Memory ((replicate 65536 0)[0x0100 := 0x42])\<rparr>"
    by (simp_all add: c1_def c2_def cpu_stack_def MOS6502_on_def)
  from stack_in_page_one [of cpu_stack, unfolded Let_def] p r
  have "fast_Store cpu_stack (0x0100 OR ucast (rS (reg cpu_stack))) 0x42 =
          Inr (c1\<lparr>reg := reg cpu_stack\<rparr>)"
    and "uint (rS (reg c1)) = (uint (rS (reg cpu_stack)) - 1) mod 256"
    and "uint (rS (reg c2)) =
          (uint (rS (reg cpu_stack)) + sum_list (map stack_delta [Use_PHA, Use_PHA, Use_PLA])) mod 256"
    by blast+
  then have t: "fast_Store cpu_stack (0x0100 OR ucast (rS (reg cpu_stack))) 0x42 =
          Inr (cpu_stack\<lparr>bus := RAM_Memory ((replicate 65536 0)[0x0100 := 0x42])\<rparr>)"
    and t2: "uint (0xFF :: u8) = (uint (rS (reg cpu_stack)) - 1) mod 256"
    and t3: "uint (0xFF :: u8) =
          (uint (rS (reg cpu_stack)) + sum_list (map stack_delta [Use_PHA, Use_PHA, Use_PLA])) mod 256"
    unfolding s b by blast+
  from stack_in_page_one [of cpu_stack]
  have j0: "fast_jsr cpu_stack 0x1234 =
     ebind (fast_Store cpu_stack (0x0100 OR ucast (rS (reg cpu_stack)))
              (ucast (drop_bit 8 (rPC (reg cpu_stack) - 1)))) (\<lambda>c1.
     ebind (fast_Store c1 (0x0100 OR ucast (rS (reg cpu_stack) - 1))
              (ucast (rPC (reg cpu_stack) - 1))) (\<lambda>c2.
     Inr (c2\<lparr>reg := (reg cpu_stack)\<lparr>rS := rS (reg cpu_stack) - 2, rPC := 0x1234\<rparr>\<rparr>)))"
    by blast
  have lo: "(32767 :: u8) = 255"
    by simp
  from j0 have j: "fast_jsr cpu_stack 0x1234 =
     Inr (cpu_stack\<lparr>reg := (reg cpu_stack)\<lparr>rS := 0xFE, rPC := 0x1234\<rparr>,
                    bus := RAM_Memory ((replicate 65536 0)[0x0100 := 0x7F, 0x01FF := 0xFF])\<rparr>)"
    by (simp add: cpu_stack_def MOS6502_on_def fast_Store_def Memory_Store_def RAM_Memory_def
        RAM_Store_def unat_stack_addr u lo)
  from t t2 t3 j p r show ?thesis
    unfolding c1_def c2_def by blast
qed

section \<open>C8 and C10: the mapper\<close>

lemmas mapper_eval = Mapper_Map_def NewMapper_def memoryRanges_Sort_def stable_def
  stable_blocks.simps stable_merge.simps insertionSort_def
  insertionSort_outer.simps insertionSort_inner.simps memoryRanges_Less_def
  memoryRanges_Swap_def Mapper_Fetch_def Mapper_Store_def memoryRanges_Bank_def Search_def
  Search_loop.simps Let_def

lemma mapped_mapper_cn:
  "mapped mapper_cn =
     [\<lparr>r_Memory = Blank 0x2a, r_addr = 0x0000, r_stop = 0x7fff\<rparr>,
      \<lparr>r_Memory = Blank 0x55, r_addr = 0x2000, r_stop = 0x3fff\<rparr>]"
  by (simp add: mapper_cn_def mapper_eval)

lemma mapped_mapper_nc:
  "mapped mapper_nc =
     [\<lparr>r_Memory = Blank 0x55, r_addr = 0x2000, r_stop = 0x3fff\<rparr>,
      \<lparr>r_Memory = Blank 0x2a, r_addr = 0x0000, r_stop = 0x7fff\<rparr>]"
  by (simp add: mapper_nc_def mapper_eval)

lemma Zero_mapper:
  "Zero mapper_cn = 0xff" "Zero mapper_nc = 0xff"
  by (simp_all add: mapper_cn_def mapper_nc_def Mapper_Map_def NewMapper_def)

text \<open>
  \<open>Bank\<close> only returns a mapped range that contains the address, so an address that
  no range contains reads \<open>Zero\<close> and its store is dropped.
\<close>

lemma memoryRanges_Bank_contains:
  "memoryRanges_Bank r addr = Some it \<Longrightarrow> it \<in> set r \<and> r_addr it \<le> addr \<and> addr \<le> r_stop it"
  by (auto simp: memoryRanges_Bank_def Let_def split: if_splits)

lemma Mapper_unmapped:
  assumes "\<And>it. it \<in> set (mapped m) \<Longrightarrow> \<not> (r_addr it \<le> addr \<and> addr \<le> r_stop it)"
  shows "Mapper_Fetch fetch w m addr = Inr (Zero m)" and "Mapper_Store store w m addr v = Inr w"
proof -
  have "memoryRanges_Bank (mapped m) addr = None"
  proof (cases "memoryRanges_Bank (mapped m) addr")
    case (Some it)
    from memoryRanges_Bank_contains [OF this] assms show ?thesis by blast
  qed simp
  then show "Mapper_Fetch fetch w m addr = Inr (Zero m)" and "Mapper_Store store w m addr v = Inr w"
    by (simp_all add: Mapper_Fetch_def Mapper_Store_def)
qed

text \<open>
  C8. The first part of the claim holds (\<open>Mapper_unmapped\<close>): an unmapped address
  reads \<open>Zero\<close>, 0xFF for \<open>NewMapper\<close>, and its store is dropped. The rest of the
  claim, that the first range in sorted order containing the address handles it and that
  a contained range sorts before its container, fails on the code. \<open>Less\<close> never orders a contained range before
  its container when the container starts at or below it, so the stable sort keeps the
  insertion order; and \<open>Bank\<close> looks at one range only, the one a binary search on
  \<open>addr <= stop\<close> lands on. With the container mapped first, 0x2345 is read from the
  container although a narrower range holds it, and 0x5000, which the container holds,
  reads \<open>Zero\<close>. With the container mapped last, 0x2345 is read from the narrower range,
  but 0x1000, which only the container holds, reads \<open>Zero\<close>.
\<close>

theorem mapper_dispatch_misses:
  "Mapper_Fetch memory_Fetch heap_ram mapper_cn 0x2345 = Inr 0x2a \<and>
   Mapper_Fetch memory_Fetch heap_ram mapper_cn 0x5000 = Inr 0xff \<and>
   Mapper_Fetch memory_Fetch heap_ram mapper_nc 0x2345 = Inr 0x55 \<and>
   Mapper_Fetch memory_Fetch heap_ram mapper_nc 0x1000 = Inr 0xff"
  by (simp add: Mapper_Fetch_def mapped_mapper_cn mapped_mapper_nc Zero_mapper
      memoryRanges_Bank_def Search_def Search_loop.simps Let_def)

text \<open>
  C10. The mapper hands the address on as it is: for the range \<open>it\<close> an address
  dispatches to, \<open>Fetch\<close> is the \<open>Fetch\<close> of the range's memory at the same address, and
  \<open>Store\<close> its \<open>Store\<close> at the same address with the same value. The range found contains
  the address and is one of the mapped ranges. A memory shorter than the addresses of its
  range has to translate them itself.
\<close>

theorem mapper_passes_address:
  assumes "memoryRanges_Bank (mapped m) addr = Some it"
  shows "Mapper_Fetch fetch w m addr = fetch w (r_Memory it) addr \<and>
         Mapper_Store store w m addr v = store w (r_Memory it) addr v \<and>
         it \<in> set (mapped m) \<and> r_addr it \<le> addr \<and> addr \<le> r_stop it"
  using assms memoryRanges_Bank_contains [OF assms]
  by (simp add: Mapper_Fetch_def Mapper_Store_def)

text \<open>
  An 8 kB RAM mapped at 0x2000-0x3FFF is indexed with 0x2345 and panics; behind
  \<open>Masked\<close> with mask 0x1FFF it is indexed with 0x0345.
\<close>

theorem mapper_passes_address_witness:
  "memoryRanges_Bank (mapped mapper_ram) 0x2345 =
     Some \<lparr>r_Memory = RAM 0, r_addr = 0x2000, r_stop = 0x3fff\<rparr> \<and>
   Mapper_Fetch memory_Fetch heap_ram mapper_ram 0x2345 = memory_Fetch heap_ram (RAM 0) 0x2345 \<and>
   Mapper_Fetch memory_Fetch heap_ram mapper_ram 0x2345 = Inl IndexOutOfRange \<and>
   Mapper_Store memory_Store heap_ram mapper_ram 0x2345 0x11 = Inl IndexOutOfRange \<and>
   Mapper_Fetch memory_Fetch heap_ram mapper_masked 0x2345 = Inr 0x55 \<and>
   Mapper_Store memory_Store heap_ram mapper_masked 0x2345 0x11 =
     Inr (heap_ram(0 := (replicate 0x2000 0x55)[0x0345 := 0x11]))"
proof -
  have b: "memoryRanges_Bank (mapped mapper_ram) 0x2345 =
     Some \<lparr>r_Memory = RAM 0, r_addr = 0x2000, r_stop = 0x3fff\<rparr>"
    by (simp add: mapper_ram_def mapper_eval)
  have e: "memory_Fetch heap_ram (RAM 0) 0x2345 = Inl IndexOutOfRange"
    "memory_Store heap_ram (RAM 0) 0x2345 0x11 = Inl IndexOutOfRange"
    by (simp_all add: heap_ram_def RAM_Fetch_def RAM_Store_def)
  have m: "Mapper_Fetch memory_Fetch heap_ram mapper_masked 0x2345 = Inr 0x55"
    "Mapper_Store memory_Store heap_ram mapper_masked 0x2345 0x11 =
       Inr (heap_ram(0 := (replicate 0x2000 0x55)[0x0345 := 0x11]))"
    by (simp_all add: mapper_masked_def mapper_eval heap_ram_def RAM_Fetch_def RAM_Store_def)
  from mapper_passes_address [where fetch = memory_Fetch and w = heap_ram
      and store = memory_Store and v = "0x11", OF b] b e m
  show ?thesis by simp
qed

end
